theory Spec2Isabelle
  imports Main "HOL-Library.Word"
begin

unbundle bit_operations_syntax

section \<open>Data model of the ASIMD emitter\<close>

text \<open>
  The emitter functions of the source file are members of \<open>ARMEmitter::EmitterOps\<close>; they
  include a header that is not part of the sources at hand. The few declarations of that
  header the emitters rely on are reconstructed below from the specification; each of them is
  marked.

  Every emitter ends in \<open>dc32(Instr)\<close>, which appends one 32-bit word to the output. An
  emitter is modelled as a function returning \<open>error + 32 word\<close>: \<open>Inr w\<close> is the word handed to
  \<open>dc32\<close>, \<open>Inl e\<close> is a run that stopped before \<open>dc32\<close> was reached.
\<close>

text \<open>
  Modelled from the spec: the enumeration \<open>SubRegSize\<close> (declared in the missing header). The
  specification describes it as the ordered enumeration of the element widths 8, 16, 32, 64 and
  128 bit; the source uses \<open>1U << ToUnderlying(size)\<close> as the element size in bytes, which fixes
  the underlying values 0 to 4.
\<close>

datatype SubRegSize = i8Bit | i16Bit | i32Bit | i64Bit | i128Bit

fun ToUnderlying :: "SubRegSize \<Rightarrow> 32 word" where
  "ToUnderlying i8Bit = 0"
| "ToUnderlying i16Bit = 1"
| "ToUnderlying i32Bit = 2"
| "ToUnderlying i64Bit = 3"
| "ToUnderlying i128Bit = 4"

text \<open>
  The cast \<open>SubRegSize(x)\<close> of an integer to the enumeration. An integer that is not the value
  of an enumerant has no counterpart in the datatype: the cast yields \<open>None\<close> there. An emitter
  that asserts the size before it casts never gets there; the model of such an emitter fills
  that branch with the result \<open>NotAnEnumerant\<close>, which no call returns (lemmas
  \<open>ShiftByImm_enumerant\<close> and \<open>IndexedElement_enumerant\<close>). An emitter that casts without an
  assertion keeps the integer (\<open>SubRegSizeInBits_raw\<close>).
\<close>

definition SubRegSize_of :: "32 word \<Rightarrow> SubRegSize option" where
  "SubRegSize_of x =
     (if x = 0 then Some i8Bit
      else if x = 1 then Some i16Bit
      else if x = 2 then Some i32Bit
      else if x = 3 then Some i64Bit
      else if x = 4 then Some i128Bit
      else None)"

text \<open>
  Modelled from the spec: \<open>SubRegSizeInBits\<close> (missing header), the width in bits of an element
  size. Its C++ result type is \<open>size_t\<close>; the model keeps the mathematical value. Where the
  source assigns an expression of that type to a \<open>uint32_t\<close>, the value is reduced modulo
  \<open>2 ^ 32\<close>, which is what \<open>word_of_nat\<close> and the arithmetic of \<open>32 word\<close> do.
\<close>

fun SubRegSizeInBits :: "SubRegSize \<Rightarrow> nat" where
  "SubRegSizeInBits i8Bit = 8"
| "SubRegSizeInBits i16Bit = 16"
| "SubRegSizeInBits i32Bit = 32"
| "SubRegSizeInBits i64Bit = 64"
| "SubRegSizeInBits i128Bit = 128"

text \<open>
  \<open>SubRegSizeInBits\<close> applied to the result of a cast \<open>SubRegSize(x)\<close>. For the value of an
  enumerant it is the width above. What the missing function returns for any other value is
  not described by the specification; it is the parameter \<open>outside\<close>, so that a statement about an
  emitter that gets there holds for whatever it returns.
\<close>

definition SubRegSizeInBits_raw :: "(32 word \<Rightarrow> nat) \<Rightarrow> 32 word \<Rightarrow> nat" where
  "SubRegSizeInBits_raw outside x =
     (case SubRegSize_of x of Some sz \<Rightarrow> SubRegSizeInBits sz | None \<Rightarrow> outside x)"

text \<open>
  Modelled from the spec: \<open>IsStandardFloatSize\<close> (missing header); the specification restricts
  floating-point element sizes to 16, 32 and 64 bit.
\<close>

definition IsStandardFloatSize :: "SubRegSize \<Rightarrow> bool" where
  "IsStandardFloatSize sz \<longleftrightarrow> sz = i16Bit \<or> sz = i32Bit \<or> sz = i64Bit"

text \<open>
  Modelled from the spec: registers (missing header). A register is identified by its index;
  the views \<open>.V()\<close>, \<open>.D()\<close> and \<open>.Q()\<close> keep the index. The template parameter \<open>T\<close> of the
  emitters, which is \<open>QRegister\<close> or \<open>DRegister\<close>, is passed as an explicit tag.
\<close>

datatype VRegister = VReg (Idx: "32 word")

datatype RegT = QRegister | DRegister

definition Encode_rd :: "VRegister \<Rightarrow> 32 word" where
  "Encode_rd r = Idx r"

definition Encode_rn :: "VRegister \<Rightarrow> 32 word" where
  "Encode_rn r = push_bit 5 (Idx r)"

definition Encode_rm :: "VRegister \<Rightarrow> 32 word" where
  "Encode_rm r = push_bit 16 (Idx r)"

text \<open>
  Modelled from the spec: the assertion macros \<open>LOGMAN_THROW_A_FMT\<close> and \<open>LOGMAN_MSG_A_FMT\<close>
  (missing header). The specification makes every contract violation fatal: the run halts with
  a diagnostic and nothing is emitted. The diagnostic is kept as the message text of the source
  (without the formatted arguments).
\<close>

datatype error = ContractViolation string | NotAnEnumerant

definition LOGMAN_THROW_A_FMT :: "bool \<Rightarrow> string \<Rightarrow> error + 'a \<Rightarrow> error + 'a" where
  "LOGMAN_THROW_A_FMT ok msg rest = (if ok then rest else Inl (ContractViolation msg))"

definition LOGMAN_MSG_A_FMT :: "string \<Rightarrow> error + 'a" where
  "LOGMAN_MSG_A_FMT msg = Inl (ContractViolation msg)"

text \<open>The bit \<open>Q\<close> of the templates: \<open>std::is_same_v<QRegister, T> ? 1U << 30 : 0\<close>.\<close>

definition Qbit :: "RegT \<Rightarrow> 32 word" where
  "Qbit T = (if T = QRegister then push_bit 30 1 else 0)"

section \<open>Category encoders\<close>

definition ASIMDThreeSameFP16 ::
  "RegT \<Rightarrow> 32 word \<Rightarrow> 32 word \<Rightarrow> 32 word \<Rightarrow> VRegister \<Rightarrow> VRegister \<Rightarrow> VRegister \<Rightarrow> error + 32 word" where
  "ASIMDThreeSameFP16 T U a opcode rm rn rd =
     Inr (push_bit 10 0b0000111001000000000001 OR Qbit T OR push_bit 29 U OR push_bit 23 a OR
          push_bit 16 (Idx rm) OR push_bit 11 opcode OR push_bit 5 (Idx rn) OR Idx rd)"

definition ASIMD3Same ::
  "RegT \<Rightarrow> 32 word \<Rightarrow> SubRegSize \<Rightarrow> 32 word \<Rightarrow> VRegister \<Rightarrow> VRegister \<Rightarrow> VRegister \<Rightarrow> error + 32 word" where
  "ASIMD3Same T U sz opcode rd rn rm =
     Inr (push_bit 10 0b0000111000100000000001 OR Qbit T OR push_bit 29 U OR
          push_bit 22 (ToUnderlying sz) OR Encode_rm rm OR push_bit 11 opcode OR
          Encode_rn rn OR Encode_rd rd)"

definition ASIMDModifiedImm ::
  "RegT \<Rightarrow> 32 word \<Rightarrow> 32 word \<Rightarrow> 32 word \<Rightarrow> 32 word \<Rightarrow> VRegister \<Rightarrow> error + 32 word" where
  "ASIMDModifiedImm T op cmode o2 imm rd =
     Inr (push_bit 10 0b0000111100000000000001 OR Qbit T OR push_bit 29 op OR
          push_bit 18 (drop_bit 7 imm AND 1) OR
          push_bit 17 (drop_bit 6 imm AND 1) OR
          push_bit 16 (drop_bit 5 imm AND 1) OR
          push_bit 12 cmode OR
          push_bit 11 o2 OR
          push_bit 9 (drop_bit 4 imm AND 1) OR
          push_bit 8 (drop_bit 3 imm AND 1) OR
          push_bit 7 (drop_bit 2 imm AND 1) OR
          push_bit 6 (drop_bit 1 imm AND 1) OR
          push_bit 5 (drop_bit 0 imm AND 1) OR
          Encode_rd rd)"

definition ASIMDShiftByImm ::
  "RegT \<Rightarrow> 32 word \<Rightarrow> 32 word \<Rightarrow> 32 word \<Rightarrow> 32 word \<Rightarrow> VRegister \<Rightarrow> VRegister \<Rightarrow> error + 32 word" where
  "ASIMDShiftByImm T U immh immb opcode rn rd =
     LOGMAN_THROW_A_FMT (immh \<noteq> 0) ''ImmH needs to not be zero''
       (Inr (push_bit 10 0b0000111100000000000001 OR Qbit T OR push_bit 29 U OR
             push_bit 19 immh OR push_bit 16 immb OR push_bit 11 opcode OR
             Encode_rn rn OR Encode_rd rd))"

definition ASIMDVectorXIndexedElement ::
  "RegT \<Rightarrow> 32 word \<Rightarrow> 32 word \<Rightarrow> 32 word \<Rightarrow> 32 word \<Rightarrow> 32 word \<Rightarrow> SubRegSize \<Rightarrow>
   VRegister \<Rightarrow> VRegister \<Rightarrow> VRegister \<Rightarrow> error + 32 word" where
  "ASIMDVectorXIndexedElement T U L M opcode H sz rm rn rd =
     Inr (push_bit 10 0b0000111100000000000000 OR Qbit T OR push_bit 29 U OR
          push_bit 22 (ToUnderlying sz) OR push_bit 21 L OR push_bit 20 M OR
          push_bit 16 (Idx rm) OR push_bit 12 opcode OR push_bit 11 H OR
          push_bit 5 (Idx rn) OR Idx rd)"

section \<open>Mnemonic layer: floating-point three-register operations\<close>

text \<open>
  The vector floating-point emitters with three register operands. All of them have the same
  shape in the source: the element-size checks, then the FP16 template for 16-bit elements and
  the three-same template otherwise. They differ in the constants, and in whether the size
  handed to \<open>ASIMD3Same\<close> is \<open>ConvertedSize\<close> or \<open>size\<close> itself.
\<close>

definition fmaxnm :: "RegT \<Rightarrow> SubRegSize \<Rightarrow> VRegister \<Rightarrow> VRegister \<Rightarrow> VRegister \<Rightarrow> error + 32 word" where
  "fmaxnm T sz rd rn rm =
     LOGMAN_THROW_A_FMT (if T = DRegister then sz \<noteq> i64Bit else True) ''Invalid element size with 64-bit {}''
     (LOGMAN_THROW_A_FMT (IsStandardFloatSize sz) ''Only 16/32/64-bit subregsize supported''
       (if sz = i16Bit then ASIMDThreeSameFP16 T 0 0 0b000 rm rn rd
        else let ConvertedSize = (if sz = i64Bit then i16Bit else i8Bit)
             in ASIMD3Same T 0 ConvertedSize 0b11000 rd rn rm))"

definition fmla :: "RegT \<Rightarrow> SubRegSize \<Rightarrow> VRegister \<Rightarrow> VRegister \<Rightarrow> VRegister \<Rightarrow> error + 32 word" where
  "fmla T sz rd rn rm =
     LOGMAN_THROW_A_FMT (if T = DRegister then sz \<noteq> i64Bit else True) ''Invalid element size with 64-bit {}''
     (LOGMAN_THROW_A_FMT (IsStandardFloatSize sz) ''Only 16/32/64-bit subregsize supported''
       (if sz = i16Bit then ASIMDThreeSameFP16 T 0 0 0b001 rm rn rd
        else let ConvertedSize = (if sz = i64Bit then i16Bit else i8Bit)
             in ASIMD3Same T 0 ConvertedSize 0b11001 rd rn rm))"

definition fadd :: "RegT \<Rightarrow> SubRegSize \<Rightarrow> VRegister \<Rightarrow> VRegister \<Rightarrow> VRegister \<Rightarrow> error + 32 word" where
  "fadd T sz rd rn rm =
     LOGMAN_THROW_A_FMT (if T = DRegister then sz \<noteq> i64Bit else True) ''Invalid element size with 64-bit {}''
     (LOGMAN_THROW_A_FMT (IsStandardFloatSize sz) ''Only 16/32/64-bit subregsize supported''
       (if sz = i16Bit then ASIMDThreeSameFP16 T 0 0 0b010 rm rn rd
        else let ConvertedSize = (if sz = i64Bit then i16Bit else i8Bit)
             in ASIMD3Same T 0 ConvertedSize 0b11010 rd rn rm))"

definition fmulx :: "RegT \<Rightarrow> SubRegSize \<Rightarrow> VRegister \<Rightarrow> VRegister \<Rightarrow> VRegister \<Rightarrow> error + 32 word" where
  "fmulx T sz rd rn rm =
     LOGMAN_THROW_A_FMT (if T = DRegister then sz \<noteq> i64Bit else True) ''Invalid element size with 64-bit {}''
     (LOGMAN_THROW_A_FMT (IsStandardFloatSize sz) ''Only 16/32/64-bit subregsize supported''
       (if sz = i16Bit then ASIMDThreeSameFP16 T 0 0 0b011 rm rn rd
        else let ConvertedSize = (if sz = i64Bit then i16Bit else i8Bit)
             in ASIMD3Same T 0 ConvertedSize 0b11011 rd rn rm))"

definition fcmeq :: "RegT \<Rightarrow> SubRegSize \<Rightarrow> VRegister \<Rightarrow> VRegister \<Rightarrow> VRegister \<Rightarrow> error + 32 word" where
  "fcmeq T sz rd rn rm =
     LOGMAN_THROW_A_FMT (if T = DRegister then sz \<noteq> i64Bit else True) ''Invalid element size with 64-bit {}''
     (LOGMAN_THROW_A_FMT (IsStandardFloatSize sz) ''Only 16/32/64-bit subregsize supported''
       (if sz = i16Bit then ASIMDThreeSameFP16 T 0 0 0b100 rm rn rd
        else let ConvertedSize = (if sz = i64Bit then i16Bit else i8Bit)
             in ASIMD3Same T 0 ConvertedSize 0b11100 rd rn rm))"

definition fmax :: "RegT \<Rightarrow> SubRegSize \<Rightarrow> VRegister \<Rightarrow> VRegister \<Rightarrow> VRegister \<Rightarrow> error + 32 word" where
  "fmax T sz rd rn rm =
     LOGMAN_THROW_A_FMT (if T = DRegister then sz \<noteq> i64Bit else True) ''Invalid element size with 64-bit {}''
     (LOGMAN_THROW_A_FMT (IsStandardFloatSize sz) ''Only 16/32/64-bit subregsize supported''
       (if sz = i16Bit then ASIMDThreeSameFP16 T 0 0 0b110 rm rn rd
        else let ConvertedSize = (if sz = i64Bit then i16Bit else i8Bit)
             in ASIMD3Same T 0 ConvertedSize 0b11110 rd rn rm))"

definition frecps :: "RegT \<Rightarrow> SubRegSize \<Rightarrow> VRegister \<Rightarrow> VRegister \<Rightarrow> VRegister \<Rightarrow> error + 32 word" where
  "frecps T sz rd rn rm =
     LOGMAN_THROW_A_FMT (if T = DRegister then sz \<noteq> i64Bit else True) ''Invalid element size with 64-bit {}''
     (LOGMAN_THROW_A_FMT (IsStandardFloatSize sz) ''Only 16/32/64-bit subregsize supported''
       (if sz = i16Bit then ASIMDThreeSameFP16 T 0 0 0b111 rm rn rd
        else let ConvertedSize = (if sz = i64Bit then i16Bit else i8Bit)
             in ASIMD3Same T 0 ConvertedSize 0b11111 rd rn rm))"

definition fminnm :: "RegT \<Rightarrow> SubRegSize \<Rightarrow> VRegister \<Rightarrow> VRegister \<Rightarrow> VRegister \<Rightarrow> error + 32 word" where
  "fminnm T sz rd rn rm =
     LOGMAN_THROW_A_FMT (if T = DRegister then sz \<noteq> i64Bit else True) ''Invalid element size with 64-bit {}''
     (LOGMAN_THROW_A_FMT (IsStandardFloatSize sz) ''Only 16/32/64-bit subregsize supported''
       (if sz = i16Bit then ASIMDThreeSameFP16 T 0 1 0b000 rm rn rd
        else ASIMD3Same T 0 sz 0b11000 rd rn rm))"

definition fmls :: "RegT \<Rightarrow> SubRegSize \<Rightarrow> VRegister \<Rightarrow> VRegister \<Rightarrow> VRegister \<Rightarrow> error + 32 word" where
  "fmls T sz rd rn rm =
     LOGMAN_THROW_A_FMT (if T = DRegister then sz \<noteq> i64Bit else True) ''Invalid element size with 64-bit {}''
     (LOGMAN_THROW_A_FMT (IsStandardFloatSize sz) ''Only 16/32/64-bit subregsize supported''
       (if sz = i16Bit then ASIMDThreeSameFP16 T 0 1 0b001 rm rn rd
        else ASIMD3Same T 0 sz 0b11001 rd rn rm))"

definition fsub :: "RegT \<Rightarrow> SubRegSize \<Rightarrow> VRegister \<Rightarrow> VRegister \<Rightarrow> VRegister \<Rightarrow> error + 32 word" where
  "fsub T sz rd rn rm =
     LOGMAN_THROW_A_FMT (if T = DRegister then sz \<noteq> i64Bit else True) ''Invalid element size with 64-bit {}''
     (LOGMAN_THROW_A_FMT (IsStandardFloatSize sz) ''Only 16/32/64-bit subregsize supported''
       (if sz = i16Bit then ASIMDThreeSameFP16 T 0 1 0b010 rm rn rd
        else ASIMD3Same T 0 sz 0b11010 rd rn rm))"

definition fmin :: "RegT \<Rightarrow> SubRegSize \<Rightarrow> VRegister \<Rightarrow> VRegister \<Rightarrow> VRegister \<Rightarrow> error + 32 word" where
  "fmin T sz rd rn rm =
     LOGMAN_THROW_A_FMT (if T = DRegister then sz \<noteq> i64Bit else True) ''Invalid element size with 64-bit {}''
     (LOGMAN_THROW_A_FMT (IsStandardFloatSize sz) ''Only 16/32/64-bit subregsize supported''
       (if sz = i16Bit then ASIMDThreeSameFP16 T 0 1 0b110 rm rn rd
        else ASIMD3Same T 0 sz 0b11110 rd rn rm))"

definition frsqrts :: "RegT \<Rightarrow> SubRegSize \<Rightarrow> VRegister \<Rightarrow> VRegister \<Rightarrow> VRegister \<Rightarrow> error + 32 word" where
  "frsqrts T sz rd rn rm =
     LOGMAN_THROW_A_FMT (if T = DRegister then sz \<noteq> i64Bit else True) ''Invalid element size with 64-bit {}''
     (LOGMAN_THROW_A_FMT (IsStandardFloatSize sz) ''Only 16/32/64-bit subregsize supported''
       (if sz = i16Bit then ASIMDThreeSameFP16 T 0 1 0b111 rm rn rd
        else ASIMD3Same T 0 sz 0b11111 rd rn rm))"

definition fmaxnmp :: "RegT \<Rightarrow> SubRegSize \<Rightarrow> VRegister \<Rightarrow> VRegister \<Rightarrow> VRegister \<Rightarrow> error + 32 word" where
  "fmaxnmp T sz rd rn rm =
     LOGMAN_THROW_A_FMT (if T = DRegister then sz \<noteq> i64Bit else True) ''Invalid element size with 64-bit {}''
     (LOGMAN_THROW_A_FMT (IsStandardFloatSize sz) ''Only 16/32/64-bit subregsize supported''
       (if sz = i16Bit then ASIMDThreeSameFP16 T 1 0 0b000 rm rn rd
        else let ConvertedSize = (if sz = i64Bit then i16Bit else i8Bit)
             in ASIMD3Same T 1 ConvertedSize 0b11000 rd rn rm))"

definition faddp :: "RegT \<Rightarrow> SubRegSize \<Rightarrow> VRegister \<Rightarrow> VRegister \<Rightarrow> VRegister \<Rightarrow> error + 32 word" where
  "faddp T sz rd rn rm =
     LOGMAN_THROW_A_FMT (if T = DRegister then sz \<noteq> i64Bit else True) ''Invalid element size with 64-bit {}''
     (LOGMAN_THROW_A_FMT (IsStandardFloatSize sz) ''Only 16/32/64-bit subregsize supported''
       (if sz = i16Bit then ASIMDThreeSameFP16 T 1 0 0b010 rm rn rd
        else let ConvertedSize = (if sz = i64Bit then i16Bit else i8Bit)
             in ASIMD3Same T 1 ConvertedSize 0b11010 rd rn rm))"

definition fmul :: "RegT \<Rightarrow> SubRegSize \<Rightarrow> VRegister \<Rightarrow> VRegister \<Rightarrow> VRegister \<Rightarrow> error + 32 word" where
  "fmul T sz rd rn rm =
     LOGMAN_THROW_A_FMT (if T = DRegister then sz \<noteq> i64Bit else True) ''Invalid element size with 64-bit {}''
     (LOGMAN_THROW_A_FMT (IsStandardFloatSize sz) ''Only 16/32/64-bit subregsize supported''
       (if sz = i16Bit then ASIMDThreeSameFP16 T 1 0 0b011 rm rn rd
        else let ConvertedSize = (if sz = i64Bit then i16Bit else i8Bit)
             in ASIMD3Same T 1 ConvertedSize 0b11011 rd rn rm))"

definition fcmge :: "RegT \<Rightarrow> SubRegSize \<Rightarrow> VRegister \<Rightarrow> VRegister \<Rightarrow> VRegister \<Rightarrow> error + 32 word" where
  "fcmge T sz rd rn rm =
     LOGMAN_THROW_A_FMT (if T = DRegister then sz \<noteq> i64Bit else True) ''Invalid element size with 64-bit {}''
     (LOGMAN_THROW_A_FMT (IsStandardFloatSize sz) ''Only 16/32/64-bit subregsize supported''
       (if sz = i16Bit then ASIMDThreeSameFP16 T 1 0 0b100 rm rn rd
        else let ConvertedSize = (if sz = i64Bit then i16Bit else i8Bit)
             in ASIMD3Same T 1 ConvertedSize 0b11100 rd rn rm))"

definition facge :: "RegT \<Rightarrow> SubRegSize \<Rightarrow> VRegister \<Rightarrow> VRegister \<Rightarrow> VRegister \<Rightarrow> error + 32 word" where
  "facge T sz rd rn rm =
     LOGMAN_THROW_A_FMT (if T = DRegister then sz \<noteq> i64Bit else True) ''Invalid element size with 64-bit {}''
     (LOGMAN_THROW_A_FMT (IsStandardFloatSize sz) ''Only 16/32/64-bit subregsize supported''
       (if sz = i16Bit then ASIMDThreeSameFP16 T 1 0 0b101 rm rn rd
        else let ConvertedSize = (if sz = i64Bit then i16Bit else i8Bit)
             in ASIMD3Same T 1 ConvertedSize 0b11101 rd rn rm))"

definition fmaxp :: "RegT \<Rightarrow> SubRegSize \<Rightarrow> VRegister \<Rightarrow> VRegister \<Rightarrow> VRegister \<Rightarrow> error + 32 word" where
  "fmaxp T sz rd rn rm =
     LOGMAN_THROW_A_FMT (if T = DRegister then sz \<noteq> i64Bit else True) ''Invalid element size with 64-bit {}''
     (LOGMAN_THROW_A_FMT (IsStandardFloatSize sz) ''Only 16/32/64-bit subregsize supported''
       (if sz = i16Bit then ASIMDThreeSameFP16 T 1 0 0b110 rm rn rd
        else let ConvertedSize = (if sz = i64Bit then i16Bit else i8Bit)
             in ASIMD3Same T 1 ConvertedSize 0b11110 rd rn rm))"

definition fdiv :: "RegT \<Rightarrow> SubRegSize \<Rightarrow> VRegister \<Rightarrow> VRegister \<Rightarrow> VRegister \<Rightarrow> error + 32 word" where
  "fdiv T sz rd rn rm =
     LOGMAN_THROW_A_FMT (if T = DRegister then sz \<noteq> i64Bit else True) ''Invalid element size with 64-bit {}''
     (LOGMAN_THROW_A_FMT (IsStandardFloatSize sz) ''Only 16/32/64-bit subregsize supported''
       (if sz = i16Bit then ASIMDThreeSameFP16 T 1 0 0b111 rm rn rd
        else let ConvertedSize = (if sz = i64Bit then i16Bit else i8Bit)
             in ASIMD3Same T 1 ConvertedSize 0b11111 rd rn rm))"

definition fminnmp :: "RegT \<Rightarrow> SubRegSize \<Rightarrow> VRegister \<Rightarrow> VRegister \<Rightarrow> VRegister \<Rightarrow> error + 32 word" where
  "fminnmp T sz rd rn rm =
     LOGMAN_THROW_A_FMT (if T = DRegister then sz \<noteq> i64Bit else True) ''Invalid element size with 64-bit {}''
     (LOGMAN_THROW_A_FMT (IsStandardFloatSize sz) ''Only 16/32/64-bit subregsize supported''
       (if sz = i16Bit then ASIMDThreeSameFP16 T 1 1 0b000 rm rn rd
        else ASIMD3Same T 1 sz 0b11000 rd rn rm))"

definition fabd :: "RegT \<Rightarrow> SubRegSize \<Rightarrow> VRegister \<Rightarrow> VRegister \<Rightarrow> VRegister \<Rightarrow> error + 32 word" where
  "fabd T sz rd rn rm =
     LOGMAN_THROW_A_FMT (if T = DRegister then sz \<noteq> i64Bit else True) ''Invalid element size with 64-bit {}''
     (LOGMAN_THROW_A_FMT (IsStandardFloatSize sz) ''Only 16/32/64-bit subregsize supported''
       (if sz = i16Bit then ASIMDThreeSameFP16 T 1 1 0b010 rm rn rd
        else ASIMD3Same T 1 sz 0b11010 rd rn rm))"

definition fcmgt :: "RegT \<Rightarrow> SubRegSize \<Rightarrow> VRegister \<Rightarrow> VRegister \<Rightarrow> VRegister \<Rightarrow> error + 32 word" where
  "fcmgt T sz rd rn rm =
     LOGMAN_THROW_A_FMT (if T = DRegister then sz \<noteq> i64Bit else True) ''Invalid element size with 64-bit {}''
     (LOGMAN_THROW_A_FMT (IsStandardFloatSize sz) ''Only 16/32/64-bit subregsize supported''
       (if sz = i16Bit then ASIMDThreeSameFP16 T 1 1 0b100 rm rn rd
        else ASIMD3Same T 1 sz 0b11100 rd rn rm))"

definition facgt :: "RegT \<Rightarrow> SubRegSize \<Rightarrow> VRegister \<Rightarrow> VRegister \<Rightarrow> VRegister \<Rightarrow> error + 32 word" where
  "facgt T sz rd rn rm =
     LOGMAN_THROW_A_FMT (if T = DRegister then sz \<noteq> i64Bit else True) ''Invalid element size with 64-bit {}''
     (LOGMAN_THROW_A_FMT (IsStandardFloatSize sz) ''Only 16/32/64-bit subregsize supported''
       (if sz = i16Bit then ASIMDThreeSameFP16 T 1 1 0b101 rm rn rd
        else ASIMD3Same T 1 sz 0b11101 rd rn rm))"

definition fminp :: "RegT \<Rightarrow> SubRegSize \<Rightarrow> VRegister \<Rightarrow> VRegister \<Rightarrow> VRegister \<Rightarrow> error + 32 word" where
  "fminp T sz rd rn rm =
     LOGMAN_THROW_A_FMT (if T = DRegister then sz \<noteq> i64Bit else True) ''Invalid element size with 64-bit {}''
     (LOGMAN_THROW_A_FMT (IsStandardFloatSize sz) ''Only 16/32/64-bit subregsize supported''
       (if sz = i16Bit then ASIMDThreeSameFP16 T 1 1 0b110 rm rn rd
        else ASIMD3Same T 1 sz 0b11110 rd rn rm))"

text \<open>
  The family as one function: \<open>FP3Same op\<close> is the call of the emitter named by \<open>op\<close>. The tables
  \<open>fp3_U\<close>, \<open>fp3_a\<close>, \<open>fp3_opcode16\<close> and \<open>fp3_opcode\<close> list the constants of each emitter, and
  \<open>fp3_converts\<close> tells whether it computes \<open>ConvertedSize\<close>.
\<close>

datatype FP3SameOp =
  OP_fmaxnm | OP_fmla | OP_fadd | OP_fmulx | OP_fcmeq | OP_fmax |
  OP_frecps | OP_fminnm | OP_fmls | OP_fsub | OP_fmin | OP_frsqrts |
  OP_fmaxnmp | OP_faddp | OP_fmul | OP_fcmge | OP_facge | OP_fmaxp |
  OP_fdiv | OP_fminnmp | OP_fabd | OP_fcmgt | OP_facgt | OP_fminp

fun FP3Same :: "FP3SameOp \<Rightarrow> RegT \<Rightarrow> SubRegSize \<Rightarrow> VRegister \<Rightarrow> VRegister \<Rightarrow> VRegister \<Rightarrow> error + 32 word" where
  "FP3Same OP_fmaxnm = fmaxnm"
| "FP3Same OP_fmla = fmla"
| "FP3Same OP_fadd = fadd"
| "FP3Same OP_fmulx = fmulx"
| "FP3Same OP_fcmeq = fcmeq"
| "FP3Same OP_fmax = fmax"
| "FP3Same OP_frecps = frecps"
| "FP3Same OP_fminnm = fminnm"
| "FP3Same OP_fmls = fmls"
| "FP3Same OP_fsub = fsub"
| "FP3Same OP_fmin = fmin"
| "FP3Same OP_frsqrts = frsqrts"
| "FP3Same OP_fmaxnmp = fmaxnmp"
| "FP3Same OP_faddp = faddp"
| "FP3Same OP_fmul = fmul"
| "FP3Same OP_fcmge = fcmge"
| "FP3Same OP_facge = facge"
| "FP3Same OP_fmaxp = fmaxp"
| "FP3Same OP_fdiv = fdiv"
| "FP3Same OP_fminnmp = fminnmp"
| "FP3Same OP_fabd = fabd"
| "FP3Same OP_fcmgt = fcmgt"
| "FP3Same OP_facgt = facgt"
| "FP3Same OP_fminp = fminp"

fun fp3_U :: "FP3SameOp \<Rightarrow> 32 word" where
  "fp3_U OP_fmaxnm = 0"
| "fp3_U OP_fmla = 0"
| "fp3_U OP_fadd = 0"
| "fp3_U OP_fmulx = 0"
| "fp3_U OP_fcmeq = 0"
| "fp3_U OP_fmax = 0"
| "fp3_U OP_frecps = 0"
| "fp3_U OP_fminnm = 0"
| "fp3_U OP_fmls = 0"
| "fp3_U OP_fsub = 0"
| "fp3_U OP_fmin = 0"
| "fp3_U OP_frsqrts = 0"
| "fp3_U OP_fmaxnmp = 1"
| "fp3_U OP_faddp = 1"
| "fp3_U OP_fmul = 1"
| "fp3_U OP_fcmge = 1"
| "fp3_U OP_facge = 1"
| "fp3_U OP_fmaxp = 1"
| "fp3_U OP_fdiv = 1"
| "fp3_U OP_fminnmp = 1"
| "fp3_U OP_fabd = 1"
| "fp3_U OP_fcmgt = 1"
| "fp3_U OP_facgt = 1"
| "fp3_U OP_fminp = 1"

fun fp3_a :: "FP3SameOp \<Rightarrow> 32 word" where
  "fp3_a OP_fmaxnm = 0"
| "fp3_a OP_fmla = 0"
| "fp3_a OP_fadd = 0"
| "fp3_a OP_fmulx = 0"
| "fp3_a OP_fcmeq = 0"
| "fp3_a OP_fmax = 0"
| "fp3_a OP_frecps = 0"
| "fp3_a OP_fminnm = 1"
| "fp3_a OP_fmls = 1"
| "fp3_a OP_fsub = 1"
| "fp3_a OP_fmin = 1"
| "fp3_a OP_frsqrts = 1"
| "fp3_a OP_fmaxnmp = 0"
| "fp3_a OP_faddp = 0"
| "fp3_a OP_fmul = 0"
| "fp3_a OP_fcmge = 0"
| "fp3_a OP_facge = 0"
| "fp3_a OP_fmaxp = 0"
| "fp3_a OP_fdiv = 0"
| "fp3_a OP_fminnmp = 1"
| "fp3_a OP_fabd = 1"
| "fp3_a OP_fcmgt = 1"
| "fp3_a OP_facgt = 1"
| "fp3_a OP_fminp = 1"

fun fp3_opcode16 :: "FP3SameOp \<Rightarrow> 32 word" where
  "fp3_opcode16 OP_fmaxnm = 0b000"
| "fp3_opcode16 OP_fmla = 0b001"
| "fp3_opcode16 OP_fadd = 0b010"
| "fp3_opcode16 OP_fmulx = 0b011"
| "fp3_opcode16 OP_fcmeq = 0b100"
| "fp3_opcode16 OP_fmax = 0b110"
| "fp3_opcode16 OP_frecps = 0b111"
| "fp3_opcode16 OP_fminnm = 0b000"
| "fp3_opcode16 OP_fmls = 0b001"
| "fp3_opcode16 OP_fsub = 0b010"
| "fp3_opcode16 OP_fmin = 0b110"
| "fp3_opcode16 OP_frsqrts = 0b111"
| "fp3_opcode16 OP_fmaxnmp = 0b000"
| "fp3_opcode16 OP_faddp = 0b010"
| "fp3_opcode16 OP_fmul = 0b011"
| "fp3_opcode16 OP_fcmge = 0b100"
| "fp3_opcode16 OP_facge = 0b101"
| "fp3_opcode16 OP_fmaxp = 0b110"
| "fp3_opcode16 OP_fdiv = 0b111"
| "fp3_opcode16 OP_fminnmp = 0b000"
| "fp3_opcode16 OP_fabd = 0b010"
| "fp3_opcode16 OP_fcmgt = 0b100"
| "fp3_opcode16 OP_facgt = 0b101"
| "fp3_opcode16 OP_fminp = 0b110"

fun fp3_opcode :: "FP3SameOp \<Rightarrow> 32 word" where
  "fp3_opcode OP_fmaxnm = 0b11000"
| "fp3_opcode OP_fmla = 0b11001"
| "fp3_opcode OP_fadd = 0b11010"
| "fp3_opcode OP_fmulx = 0b11011"
| "fp3_opcode OP_fcmeq = 0b11100"
| "fp3_opcode OP_fmax = 0b11110"
| "fp3_opcode OP_frecps = 0b11111"
| "fp3_opcode OP_fminnm = 0b11000"
| "fp3_opcode OP_fmls = 0b11001"
| "fp3_opcode OP_fsub = 0b11010"
| "fp3_opcode OP_fmin = 0b11110"
| "fp3_opcode OP_frsqrts = 0b11111"
| "fp3_opcode OP_fmaxnmp = 0b11000"
| "fp3_opcode OP_faddp = 0b11010"
| "fp3_opcode OP_fmul = 0b11011"
| "fp3_opcode OP_fcmge = 0b11100"
| "fp3_opcode OP_facge = 0b11101"
| "fp3_opcode OP_fmaxp = 0b11110"
| "fp3_opcode OP_fdiv = 0b11111"
| "fp3_opcode OP_fminnmp = 0b11000"
| "fp3_opcode OP_fabd = 0b11010"
| "fp3_opcode OP_fcmgt = 0b11100"
| "fp3_opcode OP_facgt = 0b11101"
| "fp3_opcode OP_fminp = 0b11110"

fun fp3_converts :: "FP3SameOp \<Rightarrow> bool" where
  "fp3_converts OP_fmaxnm \<longleftrightarrow> True"
| "fp3_converts OP_fmla \<longleftrightarrow> True"
| "fp3_converts OP_fadd \<longleftrightarrow> True"
| "fp3_converts OP_fmulx \<longleftrightarrow> True"
| "fp3_converts OP_fcmeq \<longleftrightarrow> True"
| "fp3_converts OP_fmax \<longleftrightarrow> True"
| "fp3_converts OP_frecps \<longleftrightarrow> True"
| "fp3_converts OP_fminnm \<longleftrightarrow> False"
| "fp3_converts OP_fmls \<longleftrightarrow> False"
| "fp3_converts OP_fsub \<longleftrightarrow> False"
| "fp3_converts OP_fmin \<longleftrightarrow> False"
| "fp3_converts OP_frsqrts \<longleftrightarrow> False"
| "fp3_converts OP_fmaxnmp \<longleftrightarrow> True"
| "fp3_converts OP_faddp \<longleftrightarrow> True"
| "fp3_converts OP_fmul \<longleftrightarrow> True"
| "fp3_converts OP_fcmge \<longleftrightarrow> True"
| "fp3_converts OP_facge \<longleftrightarrow> True"
| "fp3_converts OP_fmaxp \<longleftrightarrow> True"
| "fp3_converts OP_fdiv \<longleftrightarrow> True"
| "fp3_converts OP_fminnmp \<longleftrightarrow> False"
| "fp3_converts OP_fabd \<longleftrightarrow> False"
| "fp3_converts OP_fcmgt \<longleftrightarrow> False"
| "fp3_converts OP_facgt \<longleftrightarrow> False"
| "fp3_converts OP_fminp \<longleftrightarrow> False"
section \<open>Mnemonic layer: register move, modified immediate\<close>

definition orr :: "RegT \<Rightarrow> VRegister \<Rightarrow> VRegister \<Rightarrow> VRegister \<Rightarrow> error + 32 word" where
  "orr T rd rn rm = ASIMD3Same T 0 i32Bit 0b00011 rd rn rm"

definition mov :: "RegT \<Rightarrow> VRegister \<Rightarrow> VRegister \<Rightarrow> error + 32 word" where
  "mov T rd rn = orr T rd rn rn"

text \<open>
  Reading the register fields back from a three-same word: \<open>Rn\<close> is bits 9 to 5 and \<open>Rd\<close>
  bits 4 to 0 (\<open>Rm\<close>, bits 20 to 16, is \<open>Rm5_of\<close> below).
\<close>

definition Rn_of :: "32 word \<Rightarrow> 32 word" where
  "Rn_of w = take_bit 5 (drop_bit 5 w)"

definition Rd_of :: "32 word \<Rightarrow> 32 word" where
  "Rd_of w = take_bit 5 w"

text \<open>
  \<open>fmov\<close> calls \<open>FP32ToImm8\<close> and \<open>FP64ToImm8\<close>, the numeric encoders of the missing header.
  They are parameters of the model, over an arbitrary type \<open>'f\<close> of float values; like every
  other function here they may stop with an error.
\<close>

definition fmov ::
  "('f \<Rightarrow> error + 32 word) \<Rightarrow> ('f \<Rightarrow> error + 32 word) \<Rightarrow>
   RegT \<Rightarrow> SubRegSize \<Rightarrow> VRegister \<Rightarrow> 'f \<Rightarrow> error + 32 word" where
  "fmov FP32ToImm8 FP64ToImm8 T sz rd Value =
     LOGMAN_THROW_A_FMT (if T = DRegister then sz \<noteq> i64Bit else True) ''Invalid element size with 64-bit {}''
     (LOGMAN_THROW_A_FMT (IsStandardFloatSize sz) ''Unsupported fmov size''
       (let cmode = 0b1111 in
        if sz = i16Bit then LOGMAN_MSG_A_FMT ''Unsupported''
        else if sz = i32Bit then
          (case FP32ToImm8 Value of
             Inl e \<Rightarrow> Inl e
           | Inr Imm \<Rightarrow> ASIMDModifiedImm T 0 cmode 0 Imm rd)
        else if sz = i64Bit then
          (case FP64ToImm8 Value of
             Inl e \<Rightarrow> Inl e
           | Inr Imm \<Rightarrow> ASIMDModifiedImm T 1 cmode 0 Imm rd)
        else LOGMAN_MSG_A_FMT ''Invalid subregsize''))"

text \<open>
  The loop of the 64-bit \<open>movi\<close>: \<open>for (size_t i = 0; i < 8; ++i)\<close>, with \<open>NewImm\<close> as
  accumulator. The assertion inside the loop ends the run.
\<close>

function movi_loop :: "nat \<Rightarrow> 64 word \<Rightarrow> 8 word \<Rightarrow> error + 8 word" where
  "movi_loop i Imm NewImm =
     (if i < 8 then
        (let BitOffset = i * 8;
             Section = (ucast (drop_bit BitOffset Imm AND 0xFF) :: 8 word)
         in LOGMAN_THROW_A_FMT (Section = 0 \<or> Section = 0xFF) ''Invalid 64-bit constant encoding''
              (movi_loop (i + 1) Imm (if Section = 0xFF then NewImm OR push_bit i 1 else NewImm)))
      else Inr NewImm)"
  by pat_completeness auto
termination
  by (relation "measure (\<lambda>(i, Imm, NewImm). 8 - i)") auto

definition movi ::
  "RegT \<Rightarrow> SubRegSize \<Rightarrow> VRegister \<Rightarrow> 64 word \<Rightarrow> 16 word \<Rightarrow> error + 32 word" where
  "movi T sz rd Imm Shift =
     LOGMAN_THROW_A_FMT (sz = i8Bit \<or> sz = i16Bit \<or> sz = i32Bit \<or> sz = i64Bit) ''Unsupported movi size''
     (if sz = i8Bit then
        LOGMAN_THROW_A_FMT (Shift = 0) ''8-bit can't have shift''
        (LOGMAN_THROW_A_FMT (Imm AND NOT 0xFF = 0) ''Larger than 8-bit Imm not supported''
          (ASIMDModifiedImm T 0 0b1110 0 (ucast Imm) rd))
      else if sz = i16Bit then
        LOGMAN_THROW_A_FMT (Shift = 0 \<or> Shift = 8) ''Shift by invalid amount''
        (LOGMAN_THROW_A_FMT (Imm AND NOT 0xFF = 0) ''Larger than 8-bit Imm not supported''
          (ASIMDModifiedImm T 0 (0b1000 OR (if Shift \<noteq> 0 then 0b10 else 0b00)) 0 (ucast Imm) rd))
      else if sz = i32Bit then
        LOGMAN_THROW_A_FMT (Shift = 0 \<or> Shift = 8 \<or> Shift = 16 \<or> Shift = 24) ''Shift by invalid amount''
        (LOGMAN_THROW_A_FMT (Imm AND NOT 0xFF = 0) ''Larger than 8-bit Imm not supported''
          (ASIMDModifiedImm T 0 (0b0000 OR push_bit 1 (drop_bit 3 (ucast Shift))) 0 (ucast Imm) rd))
      else if sz = i64Bit then
        LOGMAN_THROW_A_FMT (Shift = 0) ''64-bit can't have shift''
        (case movi_loop 0 Imm 0 of
           Inl e \<Rightarrow> Inl e
         | Inr NewImm \<Rightarrow> ASIMDModifiedImm T 1 0b1110 0 (ucast (ucast NewImm :: 64 word)) rd)
      else LOGMAN_MSG_A_FMT ''Invalid subregsize'')"

section \<open>Mnemonic layer: shift by immediate\<close>

text \<open>
  The emitters that end in \<open>ASIMDShiftByImm\<close>. The shift amount (or the number of fractional
  bits) is a \<open>uint32_t\<close>. The emitters with a template parameter take it as the tag \<open>T\<close>; those
  declared on \<open>DRegister\<close> or \<open>QRegister\<close> operands fix the tag. Where the source reassigns
  \<open>size\<close>, the model binds the new value to \<open>sz'\<close>.

  \<open>sshll\<close> and \<open>sshll2\<close> assert \<open>size != i8Bit\<close> before they narrow the size, so the cast
  \<open>SubRegSize(ToUnderlying(size) - 1)\<close> yields an enumerant when it is reached. \<open>ushll\<close> and
  \<open>ushll2\<close> have no such assertion: they hand the result of the cast to \<open>SubRegSizeInBits\<close>
  as it is and go on to \<open>ASIMDShiftByImm\<close>. Their model keeps the underlying value and takes
  the parameter \<open>outside\<close> of \<open>SubRegSizeInBits_raw\<close>.
\<close>

definition sshr :: "RegT \<Rightarrow> SubRegSize \<Rightarrow> VRegister \<Rightarrow> VRegister \<Rightarrow> 32 word \<Rightarrow> error + 32 word" where
  "sshr T sz rd rn Shift =
     LOGMAN_THROW_A_FMT (if T = DRegister then sz \<noteq> i64Bit else True) ''Invalid element size with 64-bit {}''
     (let SubregSizeInBits = SubRegSizeInBits sz in
      let InvertedShift = word_of_nat (SubregSizeInBits * 2) - Shift in
      let immh = drop_bit 3 InvertedShift in
      let immb = InvertedShift AND 0b111 in
      ASIMDShiftByImm T 0 immh immb 0b00000 rn rd)"

definition ssra :: "RegT \<Rightarrow> SubRegSize \<Rightarrow> VRegister \<Rightarrow> VRegister \<Rightarrow> 32 word \<Rightarrow> error + 32 word" where
  "ssra T sz rd rn Shift =
     LOGMAN_THROW_A_FMT (if T = DRegister then sz \<noteq> i64Bit else True) ''Invalid element size with 64-bit {}''
     (let SubregSizeInBits = SubRegSizeInBits sz in
      let InvertedShift = word_of_nat (SubregSizeInBits * 2) - Shift in
      let immh = drop_bit 3 InvertedShift in
      let immb = InvertedShift AND 0b111 in
      ASIMDShiftByImm T 0 immh immb 0b00010 rn rd)"

definition srshr :: "RegT \<Rightarrow> SubRegSize \<Rightarrow> VRegister \<Rightarrow> VRegister \<Rightarrow> 32 word \<Rightarrow> error + 32 word" where
  "srshr T sz rd rn Shift =
     LOGMAN_THROW_A_FMT (if T = DRegister then sz \<noteq> i64Bit else True) ''Invalid element size with 64-bit {}''
     (let SubregSizeInBits = SubRegSizeInBits sz in
      let InvertedShift = word_of_nat (SubregSizeInBits * 2) - Shift in
      let immh = drop_bit 3 InvertedShift in
      let immb = InvertedShift AND 0b111 in
      ASIMDShiftByImm T 0 immh immb 0b00100 rn rd)"

definition srsra :: "RegT \<Rightarrow> SubRegSize \<Rightarrow> VRegister \<Rightarrow> VRegister \<Rightarrow> 32 word \<Rightarrow> error + 32 word" where
  "srsra T sz rd rn Shift =
     LOGMAN_THROW_A_FMT (if T = DRegister then sz \<noteq> i64Bit else True) ''Invalid element size with 64-bit {}''
     (let SubregSizeInBits = SubRegSizeInBits sz in
      let InvertedShift = word_of_nat (SubregSizeInBits * 2) - Shift in
      let immh = drop_bit 3 InvertedShift in
      let immb = InvertedShift AND 0b111 in
      ASIMDShiftByImm T 0 immh immb 0b00110 rn rd)"

definition shl :: "RegT \<Rightarrow> SubRegSize \<Rightarrow> VRegister \<Rightarrow> VRegister \<Rightarrow> 32 word \<Rightarrow> error + 32 word" where
  "shl T sz rd rn Shift =
     LOGMAN_THROW_A_FMT (if T = DRegister then sz \<noteq> i64Bit else True) ''Invalid element size with 64-bit {}''
     (let SubregSizeInBits = SubRegSizeInBits sz in
      let InvertedShift = word_of_nat SubregSizeInBits + Shift in
      let immh = drop_bit 3 InvertedShift in
      let immb = InvertedShift AND 0b111 in
      ASIMDShiftByImm T 0 immh immb 0b01010 rn rd)"

definition sqshl :: "RegT \<Rightarrow> SubRegSize \<Rightarrow> VRegister \<Rightarrow> VRegister \<Rightarrow> 32 word \<Rightarrow> error + 32 word" where
  "sqshl T sz rd rn Shift =
     LOGMAN_THROW_A_FMT (if T = DRegister then sz \<noteq> i64Bit else True) ''Invalid element size with 64-bit {}''
     (let SubregSizeInBits = SubRegSizeInBits sz in
      let InvertedShift = word_of_nat SubregSizeInBits + Shift in
      let immh = drop_bit 3 InvertedShift in
      let immb = InvertedShift AND 0b111 in
      ASIMDShiftByImm T 0 immh immb 0b01110 rn rd)"

definition shrn :: "SubRegSize \<Rightarrow> VRegister \<Rightarrow> VRegister \<Rightarrow> 32 word \<Rightarrow> error + 32 word" where
  "shrn sz rd rn Shift =
     LOGMAN_THROW_A_FMT (sz \<noteq> i64Bit) ''Invalid element size with 64-bit {}''
     (let SubregSizeInBits = SubRegSizeInBits sz in
      let InvertedShift = word_of_nat (SubregSizeInBits * 2) - Shift in
      let immh = drop_bit 3 InvertedShift in
      let immb = InvertedShift AND 0b111 in
      ASIMDShiftByImm DRegister 0 immh immb 0b10000 rn rd)"

definition shrn2 :: "SubRegSize \<Rightarrow> VRegister \<Rightarrow> VRegister \<Rightarrow> 32 word \<Rightarrow> error + 32 word" where
  "shrn2 sz rd rn Shift =
     LOGMAN_THROW_A_FMT (sz \<noteq> i64Bit) ''Invalid element size with 64-bit {}''
     (let SubregSizeInBits = SubRegSizeInBits sz in
      let InvertedShift = word_of_nat (SubregSizeInBits * 2) - Shift in
      let immh = drop_bit 3 InvertedShift in
      let immb = InvertedShift AND 0b111 in
      ASIMDShiftByImm QRegister 0 immh immb 0b10000 rn rd)"

definition rshrn :: "SubRegSize \<Rightarrow> VRegister \<Rightarrow> VRegister \<Rightarrow> 32 word \<Rightarrow> error + 32 word" where
  "rshrn sz rd rn Shift =
     LOGMAN_THROW_A_FMT (sz \<noteq> i64Bit) ''Invalid element size with 64-bit {}''
     (let SubregSizeInBits = SubRegSizeInBits sz in
      let InvertedShift = word_of_nat (SubregSizeInBits * 2) - Shift in
      let immh = drop_bit 3 InvertedShift in
      let immb = InvertedShift AND 0b111 in
      ASIMDShiftByImm DRegister 0 immh immb 0b10001 rn rd)"

definition rshrn2 :: "SubRegSize \<Rightarrow> VRegister \<Rightarrow> VRegister \<Rightarrow> 32 word \<Rightarrow> error + 32 word" where
  "rshrn2 sz rd rn Shift =
     LOGMAN_THROW_A_FMT (sz \<noteq> i64Bit) ''Invalid element size with 64-bit {}''
     (let SubregSizeInBits = SubRegSizeInBits sz in
      let InvertedShift = word_of_nat (SubregSizeInBits * 2) - Shift in
      let immh = drop_bit 3 InvertedShift in
      let immb = InvertedShift AND 0b111 in
      ASIMDShiftByImm QRegister 0 immh immb 0b10001 rn rd)"

definition sqshrn :: "SubRegSize \<Rightarrow> VRegister \<Rightarrow> VRegister \<Rightarrow> 32 word \<Rightarrow> error + 32 word" where
  "sqshrn sz rd rn Shift =
     LOGMAN_THROW_A_FMT (sz \<noteq> i64Bit) ''Invalid element size with 64-bit {}''
     (let SubregSizeInBits = SubRegSizeInBits sz in
      let InvertedShift = word_of_nat (SubregSizeInBits * 2) - Shift in
      let immh = drop_bit 3 InvertedShift in
      let immb = InvertedShift AND 0b111 in
      ASIMDShiftByImm DRegister 0 immh immb 0b10010 rn rd)"

definition sqshrn2 :: "SubRegSize \<Rightarrow> VRegister \<Rightarrow> VRegister \<Rightarrow> 32 word \<Rightarrow> error + 32 word" where
  "sqshrn2 sz rd rn Shift =
     LOGMAN_THROW_A_FMT (sz \<noteq> i64Bit) ''Invalid element size with 64-bit {}''
     (let SubregSizeInBits = SubRegSizeInBits sz in
      let InvertedShift = word_of_nat (SubregSizeInBits * 2) - Shift in
      let immh = drop_bit 3 InvertedShift in
      let immb = InvertedShift AND 0b111 in
      ASIMDShiftByImm QRegister 0 immh immb 0b10010 rn rd)"

definition sqrshrn :: "SubRegSize \<Rightarrow> VRegister \<Rightarrow> VRegister \<Rightarrow> 32 word \<Rightarrow> error + 32 word" where
  "sqrshrn sz rd rn Shift =
     LOGMAN_THROW_A_FMT (sz \<noteq> i64Bit) ''Invalid element size with 64-bit {}''
     (let SubregSizeInBits = SubRegSizeInBits sz in
      let InvertedShift = word_of_nat (SubregSizeInBits * 2) - Shift in
      let immh = drop_bit 3 InvertedShift in
      let immb = InvertedShift AND 0b111 in
      ASIMDShiftByImm DRegister 0 immh immb 0b10011 rn rd)"

definition sqrshrn2 :: "SubRegSize \<Rightarrow> VRegister \<Rightarrow> VRegister \<Rightarrow> 32 word \<Rightarrow> error + 32 word" where
  "sqrshrn2 sz rd rn Shift =
     LOGMAN_THROW_A_FMT (sz \<noteq> i64Bit) ''Invalid element size with 64-bit {}''
     (let SubregSizeInBits = SubRegSizeInBits sz in
      let InvertedShift = word_of_nat (SubregSizeInBits * 2) - Shift in
      let immh = drop_bit 3 InvertedShift in
      let immb = InvertedShift AND 0b111 in
      ASIMDShiftByImm QRegister 0 immh immb 0b10011 rn rd)"

definition sshll :: "SubRegSize \<Rightarrow> VRegister \<Rightarrow> VRegister \<Rightarrow> 32 word \<Rightarrow> error + 32 word" where
  "sshll sz rd rn Shift =
     LOGMAN_THROW_A_FMT (sz \<noteq> i8Bit) ''Invalid size''
     (case SubRegSize_of (ToUnderlying sz - 1) of
        None \<Rightarrow> Inl NotAnEnumerant
      | Some sz' \<Rightarrow>
          let SubregSizeInBits = SubRegSizeInBits sz' in
          LOGMAN_THROW_A_FMT (unat Shift < SubregSizeInBits) ''Shift must not be larger than incoming element size''
          (let InvertedShift = word_of_nat SubregSizeInBits + Shift in
           let immh = drop_bit 3 InvertedShift in
           let immb = InvertedShift AND 0b111 in
           ASIMDShiftByImm DRegister 0 immh immb 0b10100 rn rd))"

definition sshll2 :: "SubRegSize \<Rightarrow> VRegister \<Rightarrow> VRegister \<Rightarrow> 32 word \<Rightarrow> error + 32 word" where
  "sshll2 sz rd rn Shift =
     LOGMAN_THROW_A_FMT (sz \<noteq> i8Bit) ''Invalid size''
     (case SubRegSize_of (ToUnderlying sz - 1) of
        None \<Rightarrow> Inl NotAnEnumerant
      | Some sz' \<Rightarrow>
          let SubregSizeInBits = SubRegSizeInBits sz' in
          LOGMAN_THROW_A_FMT (unat Shift < SubregSizeInBits) ''Shift must not be larger than incoming element size''
          (let InvertedShift = word_of_nat SubregSizeInBits + Shift in
           let immh = drop_bit 3 InvertedShift in
           let immb = InvertedShift AND 0b111 in
           ASIMDShiftByImm QRegister 0 immh immb 0b10100 rn rd))"

definition scvtf :: "RegT \<Rightarrow> SubRegSize \<Rightarrow> VRegister \<Rightarrow> VRegister \<Rightarrow> 32 word \<Rightarrow> error + 32 word" where
  "scvtf T sz rd rn FractionalBits =
     LOGMAN_THROW_A_FMT (sz \<noteq> i8Bit) ''Invalid size''
     (LOGMAN_THROW_A_FMT (if T = DRegister then sz \<noteq> i64Bit else True) ''Invalid element size with 64-bit {}''
      (let SubregSizeInBits = SubRegSizeInBits sz in
       LOGMAN_THROW_A_FMT (unat FractionalBits < SubregSizeInBits) ''FractionalBits must not be larger than incoming element size''
       (let InvertedFractionalBits = word_of_nat (SubregSizeInBits * 2) - FractionalBits in
        let immh = drop_bit 3 InvertedFractionalBits in
        let immb = InvertedFractionalBits AND 0b111 in
        ASIMDShiftByImm T 0 immh immb 0b11100 rn rd)))"

definition fcvtzs :: "RegT \<Rightarrow> SubRegSize \<Rightarrow> VRegister \<Rightarrow> VRegister \<Rightarrow> 32 word \<Rightarrow> error + 32 word" where
  "fcvtzs T sz rd rn FractionalBits =
     LOGMAN_THROW_A_FMT (sz \<noteq> i8Bit) ''Invalid size''
     (LOGMAN_THROW_A_FMT (if T = DRegister then sz \<noteq> i64Bit else True) ''Invalid element size with 64-bit {}''
      (let SubregSizeInBits = SubRegSizeInBits sz in
       LOGMAN_THROW_A_FMT (unat FractionalBits < SubregSizeInBits) ''FractionalBits must not be larger than incoming element size''
       (let InvertedFractionalBits = word_of_nat (SubregSizeInBits * 2) - FractionalBits in
        let immh = drop_bit 3 InvertedFractionalBits in
        let immb = InvertedFractionalBits AND 0b111 in
        ASIMDShiftByImm T 0 immh immb 0b11111 rn rd)))"

definition ushr :: "RegT \<Rightarrow> SubRegSize \<Rightarrow> VRegister \<Rightarrow> VRegister \<Rightarrow> 32 word \<Rightarrow> error + 32 word" where
  "ushr T sz rd rn Shift =
     LOGMAN_THROW_A_FMT (if T = DRegister then sz \<noteq> i64Bit else True) ''Invalid element size with 64-bit {}''
     (let SubregSizeInBits = SubRegSizeInBits sz in
      let InvertedShift = word_of_nat (SubregSizeInBits * 2) - Shift in
      let immh = drop_bit 3 InvertedShift in
      let immb = InvertedShift AND 0b111 in
      ASIMDShiftByImm T 1 immh immb 0b00000 rn rd)"

definition usra :: "RegT \<Rightarrow> SubRegSize \<Rightarrow> VRegister \<Rightarrow> VRegister \<Rightarrow> 32 word \<Rightarrow> error + 32 word" where
  "usra T sz rd rn Shift =
     LOGMAN_THROW_A_FMT (if T = DRegister then sz \<noteq> i64Bit else True) ''Invalid element size with 64-bit {}''
     (let SubregSizeInBits = SubRegSizeInBits sz in
      let InvertedShift = word_of_nat (SubregSizeInBits * 2) - Shift in
      let immh = drop_bit 3 InvertedShift in
      let immb = InvertedShift AND 0b111 in
      ASIMDShiftByImm T 1 immh immb 0b00010 rn rd)"

definition urshr :: "RegT \<Rightarrow> SubRegSize \<Rightarrow> VRegister \<Rightarrow> VRegister \<Rightarrow> 32 word \<Rightarrow> error + 32 word" where
  "urshr T sz rd rn Shift =
     LOGMAN_THROW_A_FMT (if T = DRegister then sz \<noteq> i64Bit else True) ''Invalid element size with 64-bit {}''
     (let SubregSizeInBits = SubRegSizeInBits sz in
      let InvertedShift = word_of_nat (SubregSizeInBits * 2) - Shift in
      let immh = drop_bit 3 InvertedShift in
      let immb = InvertedShift AND 0b111 in
      ASIMDShiftByImm T 1 immh immb 0b00100 rn rd)"

definition ursra :: "RegT \<Rightarrow> SubRegSize \<Rightarrow> VRegister \<Rightarrow> VRegister \<Rightarrow> 32 word \<Rightarrow> error + 32 word" where
  "ursra T sz rd rn Shift =
     LOGMAN_THROW_A_FMT (if T = DRegister then sz \<noteq> i64Bit else True) ''Invalid element size with 64-bit {}''
     (let SubregSizeInBits = SubRegSizeInBits sz in
      let InvertedShift = word_of_nat (SubregSizeInBits * 2) - Shift in
      let immh = drop_bit 3 InvertedShift in
      let immb = InvertedShift AND 0b111 in
      ASIMDShiftByImm T 1 immh immb 0b00110 rn rd)"

definition sri :: "RegT \<Rightarrow> SubRegSize \<Rightarrow> VRegister \<Rightarrow> VRegister \<Rightarrow> 32 word \<Rightarrow> error + 32 word" where
  "sri T sz rd rn Shift =
     LOGMAN_THROW_A_FMT (if T = DRegister then sz \<noteq> i64Bit else True) ''Invalid element size with 64-bit {}''
     (let SubregSizeInBits = SubRegSizeInBits sz in
      let InvertedShift = word_of_nat (SubregSizeInBits * 2) - Shift in
      let immh = drop_bit 3 InvertedShift in
      let immb = InvertedShift AND 0b111 in
      ASIMDShiftByImm T 1 immh immb 0b01000 rn rd)"

definition sli :: "RegT \<Rightarrow> SubRegSize \<Rightarrow> VRegister \<Rightarrow> VRegister \<Rightarrow> 32 word \<Rightarrow> error + 32 word" where
  "sli T sz rd rn Shift =
     LOGMAN_THROW_A_FMT (if T = DRegister then sz \<noteq> i64Bit else True) ''Invalid element size with 64-bit {}''
     (let SubregSizeInBits = SubRegSizeInBits sz in
      let InvertedShift = word_of_nat SubregSizeInBits + Shift in
      let immh = drop_bit 3 InvertedShift in
      let immb = InvertedShift AND 0b111 in
      ASIMDShiftByImm T 1 immh immb 0b01010 rn rd)"

definition sqshlu :: "RegT \<Rightarrow> SubRegSize \<Rightarrow> VRegister \<Rightarrow> VRegister \<Rightarrow> 32 word \<Rightarrow> error + 32 word" where
  "sqshlu T sz rd rn Shift =
     LOGMAN_THROW_A_FMT (if T = DRegister then sz \<noteq> i64Bit else True) ''Invalid element size with 64-bit {}''
     (let SubregSizeInBits = SubRegSizeInBits sz in
      let InvertedShift = word_of_nat SubregSizeInBits + Shift in
      let immh = drop_bit 3 InvertedShift in
      let immb = InvertedShift AND 0b111 in
      ASIMDShiftByImm T 1 immh immb 0b01100 rn rd)"

definition uqshl :: "RegT \<Rightarrow> SubRegSize \<Rightarrow> VRegister \<Rightarrow> VRegister \<Rightarrow> 32 word \<Rightarrow> error + 32 word" where
  "uqshl T sz rd rn Shift =
     LOGMAN_THROW_A_FMT (if T = DRegister then sz \<noteq> i64Bit else True) ''Invalid element size with 64-bit {}''
     (let SubregSizeInBits = SubRegSizeInBits sz in
      let InvertedShift = word_of_nat SubregSizeInBits + Shift in
      let immh = drop_bit 3 InvertedShift in
      let immb = InvertedShift AND 0b111 in
      ASIMDShiftByImm T 1 immh immb 0b01110 rn rd)"

definition sqshrun :: "SubRegSize \<Rightarrow> VRegister \<Rightarrow> VRegister \<Rightarrow> 32 word \<Rightarrow> error + 32 word" where
  "sqshrun sz rd rn Shift =
     LOGMAN_THROW_A_FMT (sz \<noteq> i64Bit) ''Invalid element size with 64-bit {}''
     (let SubregSizeInBits = SubRegSizeInBits sz in
      let InvertedShift = word_of_nat (SubregSizeInBits * 2) - Shift in
      let immh = drop_bit 3 InvertedShift in
      let immb = InvertedShift AND 0b111 in
      ASIMDShiftByImm DRegister 1 immh immb 0b10000 rn rd)"

definition sqshrun2 :: "SubRegSize \<Rightarrow> VRegister \<Rightarrow> VRegister \<Rightarrow> 32 word \<Rightarrow> error + 32 word" where
  "sqshrun2 sz rd rn Shift =
     LOGMAN_THROW_A_FMT (sz \<noteq> i64Bit) ''Invalid element size with 64-bit {}''
     (let SubregSizeInBits = SubRegSizeInBits sz in
      let InvertedShift = word_of_nat (SubregSizeInBits * 2) - Shift in
      let immh = drop_bit 3 InvertedShift in
      let immb = InvertedShift AND 0b111 in
      ASIMDShiftByImm QRegister 1 immh immb 0b10000 rn rd)"

definition sqrshrun :: "SubRegSize \<Rightarrow> VRegister \<Rightarrow> VRegister \<Rightarrow> 32 word \<Rightarrow> error + 32 word" where
  "sqrshrun sz rd rn Shift =
     LOGMAN_THROW_A_FMT (sz \<noteq> i64Bit) ''Invalid element size with 64-bit {}''
     (let SubregSizeInBits = SubRegSizeInBits sz in
      let InvertedShift = word_of_nat (SubregSizeInBits * 2) - Shift in
      let immh = drop_bit 3 InvertedShift in
      let immb = InvertedShift AND 0b111 in
      ASIMDShiftByImm DRegister 1 immh immb 0b10001 rn rd)"

definition sqrshrun2 :: "SubRegSize \<Rightarrow> VRegister \<Rightarrow> VRegister \<Rightarrow> 32 word \<Rightarrow> error + 32 word" where
  "sqrshrun2 sz rd rn Shift =
     LOGMAN_THROW_A_FMT (sz \<noteq> i64Bit) ''Invalid element size with 64-bit {}''
     (let SubregSizeInBits = SubRegSizeInBits sz in
      let InvertedShift = word_of_nat (SubregSizeInBits * 2) - Shift in
      let immh = drop_bit 3 InvertedShift in
      let immb = InvertedShift AND 0b111 in
      ASIMDShiftByImm QRegister 1 immh immb 0b10001 rn rd)"

definition uqshrn :: "SubRegSize \<Rightarrow> VRegister \<Rightarrow> VRegister \<Rightarrow> 32 word \<Rightarrow> error + 32 word" where
  "uqshrn sz rd rn Shift =
    (let SubregSizeInBits = SubRegSizeInBits sz in
     let InvertedShift = word_of_nat (SubregSizeInBits * 2) - Shift in
     let immh = drop_bit 3 InvertedShift in
     let immb = InvertedShift AND 0b111 in
     ASIMDShiftByImm DRegister 1 immh immb 0b10010 rn rd)"

definition uqshrn2 :: "SubRegSize \<Rightarrow> VRegister \<Rightarrow> VRegister \<Rightarrow> 32 word \<Rightarrow> error + 32 word" where
  "uqshrn2 sz rd rn Shift =
    (let SubregSizeInBits = SubRegSizeInBits sz in
     let InvertedShift = word_of_nat (SubregSizeInBits * 2) - Shift in
     let immh = drop_bit 3 InvertedShift in
     let immb = InvertedShift AND 0b111 in
     ASIMDShiftByImm QRegister 1 immh immb 0b10010 rn rd)"

definition uqrshrn :: "SubRegSize \<Rightarrow> VRegister \<Rightarrow> VRegister \<Rightarrow> 32 word \<Rightarrow> error + 32 word" where
  "uqrshrn sz rd rn Shift =
    (let SubregSizeInBits = SubRegSizeInBits sz in
     let InvertedShift = word_of_nat (SubregSizeInBits * 2) - Shift in
     let immh = drop_bit 3 InvertedShift in
     let immb = InvertedShift AND 0b111 in
     ASIMDShiftByImm DRegister 1 immh immb 0b10011 rn rd)"

definition uqrshrn2 :: "SubRegSize \<Rightarrow> VRegister \<Rightarrow> VRegister \<Rightarrow> 32 word \<Rightarrow> error + 32 word" where
  "uqrshrn2 sz rd rn Shift =
    (let SubregSizeInBits = SubRegSizeInBits sz in
     let InvertedShift = word_of_nat (SubregSizeInBits * 2) - Shift in
     let immh = drop_bit 3 InvertedShift in
     let immb = InvertedShift AND 0b111 in
     ASIMDShiftByImm QRegister 1 immh immb 0b10011 rn rd)"

definition ushll :: "(32 word \<Rightarrow> nat) \<Rightarrow> SubRegSize \<Rightarrow> VRegister \<Rightarrow> VRegister \<Rightarrow> 32 word \<Rightarrow> error + 32 word" where
  "ushll outside sz rd rn Shift =
    (let sz' = ToUnderlying sz - 1 in
     let SubregSizeInBits = SubRegSizeInBits_raw outside sz' in
     let InvertedShift = word_of_nat SubregSizeInBits + Shift in
     let immh = drop_bit 3 InvertedShift in
     let immb = InvertedShift AND 0b111 in
     ASIMDShiftByImm DRegister 1 immh immb 0b10100 rn rd)"

definition ushll2 :: "(32 word \<Rightarrow> nat) \<Rightarrow> SubRegSize \<Rightarrow> VRegister \<Rightarrow> VRegister \<Rightarrow> 32 word \<Rightarrow> error + 32 word" where
  "ushll2 outside sz rd rn Shift =
    (let sz' = ToUnderlying sz - 1 in
     let SubregSizeInBits = SubRegSizeInBits_raw outside sz' in
     let InvertedShift = word_of_nat SubregSizeInBits + Shift in
     let immh = drop_bit 3 InvertedShift in
     let immb = InvertedShift AND 0b111 in
     ASIMDShiftByImm QRegister 1 immh immb 0b10100 rn rd)"

definition ucvtf :: "RegT \<Rightarrow> SubRegSize \<Rightarrow> VRegister \<Rightarrow> VRegister \<Rightarrow> 32 word \<Rightarrow> error + 32 word" where
  "ucvtf T sz rd rn FractionalBits =
     LOGMAN_THROW_A_FMT (sz \<noteq> i8Bit) ''Invalid size''
     (LOGMAN_THROW_A_FMT (if T = DRegister then sz \<noteq> i64Bit else True) ''Invalid element size with 64-bit {}''
      (let SubregSizeInBits = SubRegSizeInBits sz in
       LOGMAN_THROW_A_FMT (unat FractionalBits < SubregSizeInBits) ''FractionalBits must not be larger than incoming element size''
       (let InvertedFractionalBits = word_of_nat (SubregSizeInBits * 2) - FractionalBits in
        let immh = drop_bit 3 InvertedFractionalBits in
        let immb = InvertedFractionalBits AND 0b111 in
        ASIMDShiftByImm T 1 immh immb 0b11100 rn rd)))"

definition fcvtzu :: "RegT \<Rightarrow> SubRegSize \<Rightarrow> VRegister \<Rightarrow> VRegister \<Rightarrow> 32 word \<Rightarrow> error + 32 word" where
  "fcvtzu T sz rd rn FractionalBits =
     LOGMAN_THROW_A_FMT (sz \<noteq> i8Bit) ''Invalid size''
     (LOGMAN_THROW_A_FMT (if T = DRegister then sz \<noteq> i64Bit else True) ''Invalid element size with 64-bit {}''
      (let SubregSizeInBits = SubRegSizeInBits sz in
       LOGMAN_THROW_A_FMT (unat FractionalBits < SubregSizeInBits) ''FractionalBits must not be larger than incoming element size''
       (let InvertedFractionalBits = word_of_nat (SubregSizeInBits * 2) - FractionalBits in
        let immh = drop_bit 3 InvertedFractionalBits in
        let immb = InvertedFractionalBits AND 0b111 in
        ASIMDShiftByImm T 1 immh immb 0b11111 rn rd)))"

text \<open>The extension aliases: a widening shift by zero.\<close>

definition sxtl :: "SubRegSize \<Rightarrow> VRegister \<Rightarrow> VRegister \<Rightarrow> error + 32 word" where
  "sxtl sz rd rn = sshll sz rd rn 0"

definition sxtl2 :: "SubRegSize \<Rightarrow> VRegister \<Rightarrow> VRegister \<Rightarrow> error + 32 word" where
  "sxtl2 sz rd rn = sshll2 sz rd rn 0"

definition uxtl :: "(32 word \<Rightarrow> nat) \<Rightarrow> SubRegSize \<Rightarrow> VRegister \<Rightarrow> VRegister \<Rightarrow> error + 32 word" where
  "uxtl outside sz rd rn = ushll outside sz rd rn 0"

definition uxtl2 :: "(32 word \<Rightarrow> nat) \<Rightarrow> SubRegSize \<Rightarrow> VRegister \<Rightarrow> VRegister \<Rightarrow> error + 32 word" where
  "uxtl2 outside sz rd rn = ushll2 outside sz rd rn 0"
text \<open>
  The family as one function: \<open>ShiftByImm outside op\<close> is the call of the emitter named by
  \<open>op\<close>. An emitter declared on \<open>DRegister\<close> or \<open>QRegister\<close> operands has no template
  parameter, so the tag is not passed on; \<open>outside\<close> is passed on to \<open>ushll\<close> and \<open>ushll2\<close>.
\<close>

datatype ShiftOp =
  SH_sshr | SH_ssra | SH_srshr | SH_srsra | SH_shl | SH_sqshl |
  SH_shrn | SH_shrn2 | SH_rshrn | SH_rshrn2 | SH_sqshrn | SH_sqshrn2 |
  SH_sqrshrn | SH_sqrshrn2 | SH_sshll | SH_sshll2 | SH_scvtf | SH_fcvtzs |
  SH_ushr | SH_usra | SH_urshr | SH_ursra | SH_sri | SH_sli |
  SH_sqshlu | SH_uqshl | SH_sqshrun | SH_sqshrun2 | SH_sqrshrun | SH_sqrshrun2 |
  SH_uqshrn | SH_uqshrn2 | SH_uqrshrn | SH_uqrshrn2 | SH_ushll | SH_ushll2 |
  SH_ucvtf | SH_fcvtzu

fun ShiftByImm :: "(32 word \<Rightarrow> nat) \<Rightarrow> ShiftOp \<Rightarrow> RegT \<Rightarrow> SubRegSize \<Rightarrow> VRegister \<Rightarrow> VRegister \<Rightarrow> 32 word \<Rightarrow> error + 32 word" where
  "ShiftByImm outside SH_sshr T = sshr T"
| "ShiftByImm outside SH_ssra T = ssra T"
| "ShiftByImm outside SH_srshr T = srshr T"
| "ShiftByImm outside SH_srsra T = srsra T"
| "ShiftByImm outside SH_shl T = shl T"
| "ShiftByImm outside SH_sqshl T = sqshl T"
| "ShiftByImm outside SH_shrn T = shrn"
| "ShiftByImm outside SH_shrn2 T = shrn2"
| "ShiftByImm outside SH_rshrn T = rshrn"
| "ShiftByImm outside SH_rshrn2 T = rshrn2"
| "ShiftByImm outside SH_sqshrn T = sqshrn"
| "ShiftByImm outside SH_sqshrn2 T = sqshrn2"
| "ShiftByImm outside SH_sqrshrn T = sqrshrn"
| "ShiftByImm outside SH_sqrshrn2 T = sqrshrn2"
| "ShiftByImm outside SH_sshll T = sshll"
| "ShiftByImm outside SH_sshll2 T = sshll2"
| "ShiftByImm outside SH_scvtf T = scvtf T"
| "ShiftByImm outside SH_fcvtzs T = fcvtzs T"
| "ShiftByImm outside SH_ushr T = ushr T"
| "ShiftByImm outside SH_usra T = usra T"
| "ShiftByImm outside SH_urshr T = urshr T"
| "ShiftByImm outside SH_ursra T = ursra T"
| "ShiftByImm outside SH_sri T = sri T"
| "ShiftByImm outside SH_sli T = sli T"
| "ShiftByImm outside SH_sqshlu T = sqshlu T"
| "ShiftByImm outside SH_uqshl T = uqshl T"
| "ShiftByImm outside SH_sqshrun T = sqshrun"
| "ShiftByImm outside SH_sqshrun2 T = sqshrun2"
| "ShiftByImm outside SH_sqrshrun T = sqrshrun"
| "ShiftByImm outside SH_sqrshrun2 T = sqrshrun2"
| "ShiftByImm outside SH_uqshrn T = uqshrn"
| "ShiftByImm outside SH_uqshrn2 T = uqshrn2"
| "ShiftByImm outside SH_uqrshrn T = uqrshrn"
| "ShiftByImm outside SH_uqrshrn2 T = uqrshrn2"
| "ShiftByImm outside SH_ushll T = ushll outside"
| "ShiftByImm outside SH_ushll2 T = ushll2 outside"
| "ShiftByImm outside SH_ucvtf T = ucvtf T"
| "ShiftByImm outside SH_fcvtzu T = fcvtzu T"

text \<open>
  What the instruction set says about each of them: \<open>right_shift_like op\<close> holds for the
  right shifts, the narrowing shifts and the fixed-point conversions, whose field is
  \<open>2 * size_in_bits - shift\<close>; the others are left-shift-like, with the field
  \<open>size_in_bits + shift\<close>. \<open>shift_elem op sz\<close> is the element size whose width enters the field:
  the widening shifts take the destination size and encode the source size, one step
  narrower. \<open>shift_field\<close> is the field of the specification.
\<close>

fun right_shift_like :: "ShiftOp \<Rightarrow> bool" where
  "right_shift_like SH_sshr \<longleftrightarrow> True"
| "right_shift_like SH_ssra \<longleftrightarrow> True"
| "right_shift_like SH_srshr \<longleftrightarrow> True"
| "right_shift_like SH_srsra \<longleftrightarrow> True"
| "right_shift_like SH_shl \<longleftrightarrow> False"
| "right_shift_like SH_sqshl \<longleftrightarrow> False"
| "right_shift_like SH_shrn \<longleftrightarrow> True"
| "right_shift_like SH_shrn2 \<longleftrightarrow> True"
| "right_shift_like SH_rshrn \<longleftrightarrow> True"
| "right_shift_like SH_rshrn2 \<longleftrightarrow> True"
| "right_shift_like SH_sqshrn \<longleftrightarrow> True"
| "right_shift_like SH_sqshrn2 \<longleftrightarrow> True"
| "right_shift_like SH_sqrshrn \<longleftrightarrow> True"
| "right_shift_like SH_sqrshrn2 \<longleftrightarrow> True"
| "right_shift_like SH_sshll \<longleftrightarrow> False"
| "right_shift_like SH_sshll2 \<longleftrightarrow> False"
| "right_shift_like SH_scvtf \<longleftrightarrow> True"
| "right_shift_like SH_fcvtzs \<longleftrightarrow> True"
| "right_shift_like SH_ushr \<longleftrightarrow> True"
| "right_shift_like SH_usra \<longleftrightarrow> True"
| "right_shift_like SH_urshr \<longleftrightarrow> True"
| "right_shift_like SH_ursra \<longleftrightarrow> True"
| "right_shift_like SH_sri \<longleftrightarrow> True"
| "right_shift_like SH_sli \<longleftrightarrow> False"
| "right_shift_like SH_sqshlu \<longleftrightarrow> False"
| "right_shift_like SH_uqshl \<longleftrightarrow> False"
| "right_shift_like SH_sqshrun \<longleftrightarrow> True"
| "right_shift_like SH_sqshrun2 \<longleftrightarrow> True"
| "right_shift_like SH_sqrshrun \<longleftrightarrow> True"
| "right_shift_like SH_sqrshrun2 \<longleftrightarrow> True"
| "right_shift_like SH_uqshrn \<longleftrightarrow> True"
| "right_shift_like SH_uqshrn2 \<longleftrightarrow> True"
| "right_shift_like SH_uqrshrn \<longleftrightarrow> True"
| "right_shift_like SH_uqrshrn2 \<longleftrightarrow> True"
| "right_shift_like SH_ushll \<longleftrightarrow> False"
| "right_shift_like SH_ushll2 \<longleftrightarrow> False"
| "right_shift_like SH_ucvtf \<longleftrightarrow> True"
| "right_shift_like SH_fcvtzu \<longleftrightarrow> True"

fun widening :: "ShiftOp \<Rightarrow> bool" where
  "widening SH_sshr \<longleftrightarrow> False"
| "widening SH_ssra \<longleftrightarrow> False"
| "widening SH_srshr \<longleftrightarrow> False"
| "widening SH_srsra \<longleftrightarrow> False"
| "widening SH_shl \<longleftrightarrow> False"
| "widening SH_sqshl \<longleftrightarrow> False"
| "widening SH_shrn \<longleftrightarrow> False"
| "widening SH_shrn2 \<longleftrightarrow> False"
| "widening SH_rshrn \<longleftrightarrow> False"
| "widening SH_rshrn2 \<longleftrightarrow> False"
| "widening SH_sqshrn \<longleftrightarrow> False"
| "widening SH_sqshrn2 \<longleftrightarrow> False"
| "widening SH_sqrshrn \<longleftrightarrow> False"
| "widening SH_sqrshrn2 \<longleftrightarrow> False"
| "widening SH_sshll \<longleftrightarrow> True"
| "widening SH_sshll2 \<longleftrightarrow> True"
| "widening SH_scvtf \<longleftrightarrow> False"
| "widening SH_fcvtzs \<longleftrightarrow> False"
| "widening SH_ushr \<longleftrightarrow> False"
| "widening SH_usra \<longleftrightarrow> False"
| "widening SH_urshr \<longleftrightarrow> False"
| "widening SH_ursra \<longleftrightarrow> False"
| "widening SH_sri \<longleftrightarrow> False"
| "widening SH_sli \<longleftrightarrow> False"
| "widening SH_sqshlu \<longleftrightarrow> False"
| "widening SH_uqshl \<longleftrightarrow> False"
| "widening SH_sqshrun \<longleftrightarrow> False"
| "widening SH_sqshrun2 \<longleftrightarrow> False"
| "widening SH_sqrshrun \<longleftrightarrow> False"
| "widening SH_sqrshrun2 \<longleftrightarrow> False"
| "widening SH_uqshrn \<longleftrightarrow> False"
| "widening SH_uqshrn2 \<longleftrightarrow> False"
| "widening SH_uqrshrn \<longleftrightarrow> False"
| "widening SH_uqrshrn2 \<longleftrightarrow> False"
| "widening SH_ushll \<longleftrightarrow> True"
| "widening SH_ushll2 \<longleftrightarrow> True"
| "widening SH_ucvtf \<longleftrightarrow> False"
| "widening SH_fcvtzu \<longleftrightarrow> False"

fun narrower :: "SubRegSize \<Rightarrow> SubRegSize" where
  "narrower i8Bit = i8Bit"
| "narrower i16Bit = i8Bit"
| "narrower i32Bit = i16Bit"
| "narrower i64Bit = i32Bit"
| "narrower i128Bit = i64Bit"

definition shift_elem :: "ShiftOp \<Rightarrow> SubRegSize \<Rightarrow> SubRegSize" where
  "shift_elem op sz = (if widening op then narrower sz else sz)"

definition shift_field :: "ShiftOp \<Rightarrow> SubRegSize \<Rightarrow> 32 word \<Rightarrow> 32 word" where
  "shift_field op sz Shift =
     (if right_shift_like op
      then word_of_nat (2 * SubRegSizeInBits (shift_elem op sz)) - Shift
      else word_of_nat (SubRegSizeInBits (shift_elem op sz)) + Shift)"

text \<open>
  \<open>shift_size_ok op T sz\<close>: the element size is one of 8, 16, 32 and 64 bit and passes the
  size checks of the emitter \<open>op\<close> (a widening shift needs a destination wider than 8 bit).
  \<open>shift_checked op\<close> holds for the emitters that compare the amount with the element width.
\<close>

fun shift_size_ok :: "ShiftOp \<Rightarrow> RegT \<Rightarrow> SubRegSize \<Rightarrow> bool" where
  "shift_size_ok SH_sshr T sz \<longleftrightarrow> sz \<noteq> i128Bit \<and> (if T = DRegister then sz \<noteq> i64Bit else True)"
| "shift_size_ok SH_ssra T sz \<longleftrightarrow> sz \<noteq> i128Bit \<and> (if T = DRegister then sz \<noteq> i64Bit else True)"
| "shift_size_ok SH_srshr T sz \<longleftrightarrow> sz \<noteq> i128Bit \<and> (if T = DRegister then sz \<noteq> i64Bit else True)"
| "shift_size_ok SH_srsra T sz \<longleftrightarrow> sz \<noteq> i128Bit \<and> (if T = DRegister then sz \<noteq> i64Bit else True)"
| "shift_size_ok SH_shl T sz \<longleftrightarrow> sz \<noteq> i128Bit \<and> (if T = DRegister then sz \<noteq> i64Bit else True)"
| "shift_size_ok SH_sqshl T sz \<longleftrightarrow> sz \<noteq> i128Bit \<and> (if T = DRegister then sz \<noteq> i64Bit else True)"
| "shift_size_ok SH_shrn T sz \<longleftrightarrow> sz \<noteq> i128Bit \<and> sz \<noteq> i64Bit"
| "shift_size_ok SH_shrn2 T sz \<longleftrightarrow> sz \<noteq> i128Bit \<and> sz \<noteq> i64Bit"
| "shift_size_ok SH_rshrn T sz \<longleftrightarrow> sz \<noteq> i128Bit \<and> sz \<noteq> i64Bit"
| "shift_size_ok SH_rshrn2 T sz \<longleftrightarrow> sz \<noteq> i128Bit \<and> sz \<noteq> i64Bit"
| "shift_size_ok SH_sqshrn T sz \<longleftrightarrow> sz \<noteq> i128Bit \<and> sz \<noteq> i64Bit"
| "shift_size_ok SH_sqshrn2 T sz \<longleftrightarrow> sz \<noteq> i128Bit \<and> sz \<noteq> i64Bit"
| "shift_size_ok SH_sqrshrn T sz \<longleftrightarrow> sz \<noteq> i128Bit \<and> sz \<noteq> i64Bit"
| "shift_size_ok SH_sqrshrn2 T sz \<longleftrightarrow> sz \<noteq> i128Bit \<and> sz \<noteq> i64Bit"
| "shift_size_ok SH_sshll T sz \<longleftrightarrow> sz \<noteq> i128Bit \<and> sz \<noteq> i8Bit"
| "shift_size_ok SH_sshll2 T sz \<longleftrightarrow> sz \<noteq> i128Bit \<and> sz \<noteq> i8Bit"
| "shift_size_ok SH_scvtf T sz \<longleftrightarrow> sz \<noteq> i128Bit \<and> sz \<noteq> i8Bit \<and> (if T = DRegister then sz \<noteq> i64Bit else True)"
| "shift_size_ok SH_fcvtzs T sz \<longleftrightarrow> sz \<noteq> i128Bit \<and> sz \<noteq> i8Bit \<and> (if T = DRegister then sz \<noteq> i64Bit else True)"
| "shift_size_ok SH_ushr T sz \<longleftrightarrow> sz \<noteq> i128Bit \<and> (if T = DRegister then sz \<noteq> i64Bit else True)"
| "shift_size_ok SH_usra T sz \<longleftrightarrow> sz \<noteq> i128Bit \<and> (if T = DRegister then sz \<noteq> i64Bit else True)"
| "shift_size_ok SH_urshr T sz \<longleftrightarrow> sz \<noteq> i128Bit \<and> (if T = DRegister then sz \<noteq> i64Bit else True)"
| "shift_size_ok SH_ursra T sz \<longleftrightarrow> sz \<noteq> i128Bit \<and> (if T = DRegister then sz \<noteq> i64Bit else True)"
| "shift_size_ok SH_sri T sz \<longleftrightarrow> sz \<noteq> i128Bit \<and> (if T = DRegister then sz \<noteq> i64Bit else True)"
| "shift_size_ok SH_sli T sz \<longleftrightarrow> sz \<noteq> i128Bit \<and> (if T = DRegister then sz \<noteq> i64Bit else True)"
| "shift_size_ok SH_sqshlu T sz \<longleftrightarrow> sz \<noteq> i128Bit \<and> (if T = DRegister then sz \<noteq> i64Bit else True)"
| "shift_size_ok SH_uqshl T sz \<longleftrightarrow> sz \<noteq> i128Bit \<and> (if T = DRegister then sz \<noteq> i64Bit else True)"
| "shift_size_ok SH_sqshrun T sz \<longleftrightarrow> sz \<noteq> i128Bit \<and> sz \<noteq> i64Bit"
| "shift_size_ok SH_sqshrun2 T sz \<longleftrightarrow> sz \<noteq> i128Bit \<and> sz \<noteq> i64Bit"
| "shift_size_ok SH_sqrshrun T sz \<longleftrightarrow> sz \<noteq> i128Bit \<and> sz \<noteq> i64Bit"
| "shift_size_ok SH_sqrshrun2 T sz \<longleftrightarrow> sz \<noteq> i128Bit \<and> sz \<noteq> i64Bit"
| "shift_size_ok SH_uqshrn T sz \<longleftrightarrow> sz \<noteq> i128Bit"
| "shift_size_ok SH_uqshrn2 T sz \<longleftrightarrow> sz \<noteq> i128Bit"
| "shift_size_ok SH_uqrshrn T sz \<longleftrightarrow> sz \<noteq> i128Bit"
| "shift_size_ok SH_uqrshrn2 T sz \<longleftrightarrow> sz \<noteq> i128Bit"
| "shift_size_ok SH_ushll T sz \<longleftrightarrow> sz \<noteq> i128Bit \<and> sz \<noteq> i8Bit"
| "shift_size_ok SH_ushll2 T sz \<longleftrightarrow> sz \<noteq> i128Bit \<and> sz \<noteq> i8Bit"
| "shift_size_ok SH_ucvtf T sz \<longleftrightarrow> sz \<noteq> i128Bit \<and> sz \<noteq> i8Bit \<and> (if T = DRegister then sz \<noteq> i64Bit else True)"
| "shift_size_ok SH_fcvtzu T sz \<longleftrightarrow> sz \<noteq> i128Bit \<and> sz \<noteq> i8Bit \<and> (if T = DRegister then sz \<noteq> i64Bit else True)"

fun shift_checked :: "ShiftOp \<Rightarrow> bool" where
  "shift_checked SH_sshr \<longleftrightarrow> False"
| "shift_checked SH_ssra \<longleftrightarrow> False"
| "shift_checked SH_srshr \<longleftrightarrow> False"
| "shift_checked SH_srsra \<longleftrightarrow> False"
| "shift_checked SH_shl \<longleftrightarrow> False"
| "shift_checked SH_sqshl \<longleftrightarrow> False"
| "shift_checked SH_shrn \<longleftrightarrow> False"
| "shift_checked SH_shrn2 \<longleftrightarrow> False"
| "shift_checked SH_rshrn \<longleftrightarrow> False"
| "shift_checked SH_rshrn2 \<longleftrightarrow> False"
| "shift_checked SH_sqshrn \<longleftrightarrow> False"
| "shift_checked SH_sqshrn2 \<longleftrightarrow> False"
| "shift_checked SH_sqrshrn \<longleftrightarrow> False"
| "shift_checked SH_sqrshrn2 \<longleftrightarrow> False"
| "shift_checked SH_sshll \<longleftrightarrow> True"
| "shift_checked SH_sshll2 \<longleftrightarrow> True"
| "shift_checked SH_scvtf \<longleftrightarrow> True"
| "shift_checked SH_fcvtzs \<longleftrightarrow> True"
| "shift_checked SH_ushr \<longleftrightarrow> False"
| "shift_checked SH_usra \<longleftrightarrow> False"
| "shift_checked SH_urshr \<longleftrightarrow> False"
| "shift_checked SH_ursra \<longleftrightarrow> False"
| "shift_checked SH_sri \<longleftrightarrow> False"
| "shift_checked SH_sli \<longleftrightarrow> False"
| "shift_checked SH_sqshlu \<longleftrightarrow> False"
| "shift_checked SH_uqshl \<longleftrightarrow> False"
| "shift_checked SH_sqshrun \<longleftrightarrow> False"
| "shift_checked SH_sqshrun2 \<longleftrightarrow> False"
| "shift_checked SH_sqrshrun \<longleftrightarrow> False"
| "shift_checked SH_sqrshrun2 \<longleftrightarrow> False"
| "shift_checked SH_uqshrn \<longleftrightarrow> False"
| "shift_checked SH_uqshrn2 \<longleftrightarrow> False"
| "shift_checked SH_uqrshrn \<longleftrightarrow> False"
| "shift_checked SH_uqrshrn2 \<longleftrightarrow> False"
| "shift_checked SH_ushll \<longleftrightarrow> False"
| "shift_checked SH_ushll2 \<longleftrightarrow> False"
| "shift_checked SH_ucvtf \<longleftrightarrow> True"
| "shift_checked SH_fcvtzu \<longleftrightarrow> True"

fun shift_U :: "ShiftOp \<Rightarrow> 32 word" where
  "shift_U SH_sshr = 0"
| "shift_U SH_ssra = 0"
| "shift_U SH_srshr = 0"
| "shift_U SH_srsra = 0"
| "shift_U SH_shl = 0"
| "shift_U SH_sqshl = 0"
| "shift_U SH_shrn = 0"
| "shift_U SH_shrn2 = 0"
| "shift_U SH_rshrn = 0"
| "shift_U SH_rshrn2 = 0"
| "shift_U SH_sqshrn = 0"
| "shift_U SH_sqshrn2 = 0"
| "shift_U SH_sqrshrn = 0"
| "shift_U SH_sqrshrn2 = 0"
| "shift_U SH_sshll = 0"
| "shift_U SH_sshll2 = 0"
| "shift_U SH_scvtf = 0"
| "shift_U SH_fcvtzs = 0"
| "shift_U SH_ushr = 1"
| "shift_U SH_usra = 1"
| "shift_U SH_urshr = 1"
| "shift_U SH_ursra = 1"
| "shift_U SH_sri = 1"
| "shift_U SH_sli = 1"
| "shift_U SH_sqshlu = 1"
| "shift_U SH_uqshl = 1"
| "shift_U SH_sqshrun = 1"
| "shift_U SH_sqshrun2 = 1"
| "shift_U SH_sqrshrun = 1"
| "shift_U SH_sqrshrun2 = 1"
| "shift_U SH_uqshrn = 1"
| "shift_U SH_uqshrn2 = 1"
| "shift_U SH_uqrshrn = 1"
| "shift_U SH_uqrshrn2 = 1"
| "shift_U SH_ushll = 1"
| "shift_U SH_ushll2 = 1"
| "shift_U SH_ucvtf = 1"
| "shift_U SH_fcvtzu = 1"

fun shift_opcode :: "ShiftOp \<Rightarrow> 32 word" where
  "shift_opcode SH_sshr = 0b00000"
| "shift_opcode SH_ssra = 0b00010"
| "shift_opcode SH_srshr = 0b00100"
| "shift_opcode SH_srsra = 0b00110"
| "shift_opcode SH_shl = 0b01010"
| "shift_opcode SH_sqshl = 0b01110"
| "shift_opcode SH_shrn = 0b10000"
| "shift_opcode SH_shrn2 = 0b10000"
| "shift_opcode SH_rshrn = 0b10001"
| "shift_opcode SH_rshrn2 = 0b10001"
| "shift_opcode SH_sqshrn = 0b10010"
| "shift_opcode SH_sqshrn2 = 0b10010"
| "shift_opcode SH_sqrshrn = 0b10011"
| "shift_opcode SH_sqrshrn2 = 0b10011"
| "shift_opcode SH_sshll = 0b10100"
| "shift_opcode SH_sshll2 = 0b10100"
| "shift_opcode SH_scvtf = 0b11100"
| "shift_opcode SH_fcvtzs = 0b11111"
| "shift_opcode SH_ushr = 0b00000"
| "shift_opcode SH_usra = 0b00010"
| "shift_opcode SH_urshr = 0b00100"
| "shift_opcode SH_ursra = 0b00110"
| "shift_opcode SH_sri = 0b01000"
| "shift_opcode SH_sli = 0b01010"
| "shift_opcode SH_sqshlu = 0b01100"
| "shift_opcode SH_uqshl = 0b01110"
| "shift_opcode SH_sqshrun = 0b10000"
| "shift_opcode SH_sqshrun2 = 0b10000"
| "shift_opcode SH_sqrshrun = 0b10001"
| "shift_opcode SH_sqrshrun2 = 0b10001"
| "shift_opcode SH_uqshrn = 0b10010"
| "shift_opcode SH_uqshrn2 = 0b10010"
| "shift_opcode SH_uqrshrn = 0b10011"
| "shift_opcode SH_uqrshrn2 = 0b10011"
| "shift_opcode SH_ushll = 0b10100"
| "shift_opcode SH_ushll2 = 0b10100"
| "shift_opcode SH_ucvtf = 0b11100"
| "shift_opcode SH_fcvtzu = 0b11111"

fun shift_T :: "ShiftOp \<Rightarrow> RegT \<Rightarrow> RegT" where
  "shift_T SH_sshr T = T"
| "shift_T SH_ssra T = T"
| "shift_T SH_srshr T = T"
| "shift_T SH_srsra T = T"
| "shift_T SH_shl T = T"
| "shift_T SH_sqshl T = T"
| "shift_T SH_shrn T = DRegister"
| "shift_T SH_shrn2 T = QRegister"
| "shift_T SH_rshrn T = DRegister"
| "shift_T SH_rshrn2 T = QRegister"
| "shift_T SH_sqshrn T = DRegister"
| "shift_T SH_sqshrn2 T = QRegister"
| "shift_T SH_sqrshrn T = DRegister"
| "shift_T SH_sqrshrn2 T = QRegister"
| "shift_T SH_sshll T = DRegister"
| "shift_T SH_sshll2 T = QRegister"
| "shift_T SH_scvtf T = T"
| "shift_T SH_fcvtzs T = T"
| "shift_T SH_ushr T = T"
| "shift_T SH_usra T = T"
| "shift_T SH_urshr T = T"
| "shift_T SH_ursra T = T"
| "shift_T SH_sri T = T"
| "shift_T SH_sli T = T"
| "shift_T SH_sqshlu T = T"
| "shift_T SH_uqshl T = T"
| "shift_T SH_sqshrun T = DRegister"
| "shift_T SH_sqshrun2 T = QRegister"
| "shift_T SH_sqrshrun T = DRegister"
| "shift_T SH_sqrshrun2 T = QRegister"
| "shift_T SH_uqshrn T = DRegister"
| "shift_T SH_uqshrn2 T = QRegister"
| "shift_T SH_uqrshrn T = DRegister"
| "shift_T SH_uqrshrn2 T = QRegister"
| "shift_T SH_ushll T = DRegister"
| "shift_T SH_ushll2 T = QRegister"
| "shift_T SH_ucvtf T = T"
| "shift_T SH_fcvtzu T = T"

text \<open>
  The amounts the instruction set allows, within what the emitter itself accepts: 1 up to the
  element width for a right shift (below the width where the emitter checks that), 0 up to the
  element width less one for a left shift.
\<close>

definition shift_amount_ok :: "ShiftOp \<Rightarrow> SubRegSize \<Rightarrow> 32 word \<Rightarrow> bool" where
  "shift_amount_ok op sz Shift \<longleftrightarrow>
     (if right_shift_like op
      then 1 \<le> unat Shift \<and> unat Shift \<le> SubRegSizeInBits (shift_elem op sz) \<and>
           (if shift_checked op then unat Shift < SubRegSizeInBits (shift_elem op sz) else True)
      else unat Shift < SubRegSizeInBits (shift_elem op sz))"

text \<open>Reading the fields back from an emitted word: \<open>immh\<close> is bits 22 to 19, \<open>immb\<close> bits 18 to 16.\<close>

definition immh_of :: "32 word \<Rightarrow> 32 word" where
  "immh_of w = take_bit 4 (drop_bit 19 w)"

definition immb_of :: "32 word \<Rightarrow> 32 word" where
  "immb_of w = take_bit 3 (drop_bit 16 w)"

definition immh_immb_of :: "32 word \<Rightarrow> 32 word" where
  "immh_immb_of w = push_bit 3 (immh_of w) OR immb_of w"

text \<open>The inverse of the encoding formula.\<close>

definition decode_shift :: "ShiftOp \<Rightarrow> SubRegSize \<Rightarrow> 32 word \<Rightarrow> 32 word" where
  "decode_shift op sz field =
     (if right_shift_like op
      then word_of_nat (2 * SubRegSizeInBits (shift_elem op sz)) - field
      else field - word_of_nat (SubRegSizeInBits (shift_elem op sz)))"

definition valid_reg :: "VRegister \<Rightarrow> bool" where
  "valid_reg r \<longleftrightarrow> Idx r < 32"
section \<open>Mnemonic layer: vector by indexed element\<close>

text \<open>
  The emitters that end in \<open>ASIMDVectorXIndexedElement\<close>. The source declares \<open>H\<close>, \<open>L\<close> and
  \<open>M\<close> and assigns them in the branches of an \<open>if\<close>; the model binds the triple. Several of the
  names are overloaded in the source (a three-register emitter of the same name exists); the
  by-element overloads of \<open>fmla\<close>, \<open>fmls\<close> and \<open>fmul\<close> are called \<open>fmla_elem\<close>, \<open>fmls_elem\<close>
  and \<open>fmul_elem\<close> here, the other names below denote the by-element overload.
\<close>

definition smlal :: "SubRegSize \<Rightarrow> VRegister \<Rightarrow> VRegister \<Rightarrow> VRegister \<Rightarrow> 32 word \<Rightarrow> error + 32 word" where
  "smlal sz rd rn rm Index =
     LOGMAN_THROW_A_FMT (sz = i32Bit \<or> sz = i64Bit) ''Invalid destination size''
     (LOGMAN_THROW_A_FMT (if sz = i32Bit then Idx rm < 16 else True) ''Rm can't be v16-v31 with half source size''
     (case SubRegSize_of (ToUnderlying sz - 1) of
        None \<Rightarrow> Inl NotAnEnumerant
      | Some EncodedSubRegSize \<Rightarrow>
          LOGMAN_THROW_A_FMT (unat Index < SubRegSizeInBits EncodedSubRegSize) ''Index must be less than the source register size''
          (let (H, L, M) =
                 (if sz = i32Bit then (drop_bit 2 Index AND 1, drop_bit 1 Index AND 1, drop_bit 0 Index AND 1)
                  else (drop_bit 1 Index AND 1, drop_bit 0 Index AND 1, 0))
           in ASIMDVectorXIndexedElement DRegister 0b0 L M 0b0010 H EncodedSubRegSize rm rn rd)))"

definition smlal2 :: "SubRegSize \<Rightarrow> VRegister \<Rightarrow> VRegister \<Rightarrow> VRegister \<Rightarrow> 32 word \<Rightarrow> error + 32 word" where
  "smlal2 sz rd rn rm Index =
     LOGMAN_THROW_A_FMT (sz = i32Bit \<or> sz = i64Bit) ''Invalid destination size''
     (LOGMAN_THROW_A_FMT (if sz = i32Bit then Idx rm < 16 else True) ''Rm can't be v16-v31 with half source size''
     (case SubRegSize_of (ToUnderlying sz - 1) of
        None \<Rightarrow> Inl NotAnEnumerant
      | Some EncodedSubRegSize \<Rightarrow>
          LOGMAN_THROW_A_FMT (unat Index < SubRegSizeInBits EncodedSubRegSize) ''Index must be less than the source register size''
          (let (H, L, M) =
                 (if sz = i32Bit then (drop_bit 2 Index AND 1, drop_bit 1 Index AND 1, drop_bit 0 Index AND 1)
                  else (drop_bit 1 Index AND 1, drop_bit 0 Index AND 1, 0))
           in ASIMDVectorXIndexedElement QRegister 0b0 L M 0b0010 H EncodedSubRegSize rm rn rd)))"

definition sqdmlal :: "SubRegSize \<Rightarrow> VRegister \<Rightarrow> VRegister \<Rightarrow> VRegister \<Rightarrow> 32 word \<Rightarrow> error + 32 word" where
  "sqdmlal sz rd rn rm Index =
     LOGMAN_THROW_A_FMT (sz = i32Bit \<or> sz = i64Bit) ''Invalid destination size''
     (LOGMAN_THROW_A_FMT (if sz = i32Bit then Idx rm < 16 else True) ''Rm can't be v16-v31 with half source size''
     (case SubRegSize_of (ToUnderlying sz - 1) of
        None \<Rightarrow> Inl NotAnEnumerant
      | Some EncodedSubRegSize \<Rightarrow>
          LOGMAN_THROW_A_FMT (unat Index < SubRegSizeInBits EncodedSubRegSize) ''Index must be less than the source register size''
          (let (H, L, M) =
                 (if sz = i32Bit then (drop_bit 2 Index AND 1, drop_bit 1 Index AND 1, drop_bit 0 Index AND 1)
                  else (drop_bit 1 Index AND 1, drop_bit 0 Index AND 1, 0))
           in ASIMDVectorXIndexedElement DRegister 0b0 L M 0b0011 H EncodedSubRegSize rm rn rd)))"

definition sqdmlal2 :: "SubRegSize \<Rightarrow> VRegister \<Rightarrow> VRegister \<Rightarrow> VRegister \<Rightarrow> 32 word \<Rightarrow> error + 32 word" where
  "sqdmlal2 sz rd rn rm Index =
     LOGMAN_THROW_A_FMT (sz = i32Bit \<or> sz = i64Bit) ''Invalid destination size''
     (LOGMAN_THROW_A_FMT (if sz = i32Bit then Idx rm < 16 else True) ''Rm can't be v16-v31 with half source size''
     (case SubRegSize_of (ToUnderlying sz - 1) of
        None \<Rightarrow> Inl NotAnEnumerant
      | Some EncodedSubRegSize \<Rightarrow>
          LOGMAN_THROW_A_FMT (unat Index < SubRegSizeInBits EncodedSubRegSize) ''Index must be less than the source register size''
          (let (H, L, M) =
                 (if sz = i32Bit then (drop_bit 2 Index AND 1, drop_bit 1 Index AND 1, drop_bit 0 Index AND 1)
                  else (drop_bit 1 Index AND 1, drop_bit 0 Index AND 1, 0))
           in ASIMDVectorXIndexedElement QRegister 0b0 L M 0b0011 H EncodedSubRegSize rm rn rd)))"

definition smlsl :: "SubRegSize \<Rightarrow> VRegister \<Rightarrow> VRegister \<Rightarrow> VRegister \<Rightarrow> 32 word \<Rightarrow> error + 32 word" where
  "smlsl sz rd rn rm Index =
     LOGMAN_THROW_A_FMT (sz = i32Bit \<or> sz = i64Bit) ''Invalid destination size''
     (LOGMAN_THROW_A_FMT (if sz = i32Bit then Idx rm < 16 else True) ''Rm can't be v16-v31 with half source size''
     (case SubRegSize_of (ToUnderlying sz - 1) of
        None \<Rightarrow> Inl NotAnEnumerant
      | Some EncodedSubRegSize \<Rightarrow>
          LOGMAN_THROW_A_FMT (unat Index < SubRegSizeInBits EncodedSubRegSize) ''Index must be less than the source register size''
          (let (H, L, M) =
                 (if sz = i32Bit then (drop_bit 2 Index AND 1, drop_bit 1 Index AND 1, drop_bit 0 Index AND 1)
                  else (drop_bit 1 Index AND 1, drop_bit 0 Index AND 1, 0))
           in ASIMDVectorXIndexedElement DRegister 0b0 L M 0b0110 H EncodedSubRegSize rm rn rd)))"

definition smlsl2 :: "SubRegSize \<Rightarrow> VRegister \<Rightarrow> VRegister \<Rightarrow> VRegister \<Rightarrow> 32 word \<Rightarrow> error + 32 word" where
  "smlsl2 sz rd rn rm Index =
     LOGMAN_THROW_A_FMT (sz = i32Bit \<or> sz = i64Bit) ''Invalid destination size''
     (LOGMAN_THROW_A_FMT (if sz = i32Bit then Idx rm < 16 else True) ''Rm can't be v16-v31 with half source size''
     (case SubRegSize_of (ToUnderlying sz - 1) of
        None \<Rightarrow> Inl NotAnEnumerant
      | Some EncodedSubRegSize \<Rightarrow>
          LOGMAN_THROW_A_FMT (unat Index < SubRegSizeInBits EncodedSubRegSize) ''Index must be less than the source register size''
          (let (H, L, M) =
                 (if sz = i32Bit then (drop_bit 2 Index AND 1, drop_bit 1 Index AND 1, drop_bit 0 Index AND 1)
                  else (drop_bit 1 Index AND 1, drop_bit 0 Index AND 1, 0))
           in ASIMDVectorXIndexedElement QRegister 0b0 L M 0b0110 H EncodedSubRegSize rm rn rd)))"

definition sqdmlsl :: "SubRegSize \<Rightarrow> VRegister \<Rightarrow> VRegister \<Rightarrow> VRegister \<Rightarrow> 32 word \<Rightarrow> error + 32 word" where
  "sqdmlsl sz rd rn rm Index =
     LOGMAN_THROW_A_FMT (sz = i32Bit \<or> sz = i64Bit) ''Invalid destination size''
     (LOGMAN_THROW_A_FMT (if sz = i32Bit then Idx rm < 16 else True) ''Rm can't be v16-v31 with half source size''
     (case SubRegSize_of (ToUnderlying sz - 1) of
        None \<Rightarrow> Inl NotAnEnumerant
      | Some EncodedSubRegSize \<Rightarrow>
          LOGMAN_THROW_A_FMT (unat Index < SubRegSizeInBits EncodedSubRegSize) ''Index must be less than the source register size''
          (let (H, L, M) =
                 (if sz = i32Bit then (drop_bit 2 Index AND 1, drop_bit 1 Index AND 1, drop_bit 0 Index AND 1)
                  else (drop_bit 1 Index AND 1, drop_bit 0 Index AND 1, 0))
           in ASIMDVectorXIndexedElement DRegister 0b0 L M 0b0111 H EncodedSubRegSize rm rn rd)))"

definition sqdmlsl2 :: "SubRegSize \<Rightarrow> VRegister \<Rightarrow> VRegister \<Rightarrow> VRegister \<Rightarrow> 32 word \<Rightarrow> error + 32 word" where
  "sqdmlsl2 sz rd rn rm Index =
     LOGMAN_THROW_A_FMT (sz = i32Bit \<or> sz = i64Bit) ''Invalid destination size''
     (LOGMAN_THROW_A_FMT (if sz = i32Bit then Idx rm < 16 else True) ''Rm can't be v16-v31 with half source size''
     (case SubRegSize_of (ToUnderlying sz - 1) of
        None \<Rightarrow> Inl NotAnEnumerant
      | Some EncodedSubRegSize \<Rightarrow>
          LOGMAN_THROW_A_FMT (unat Index < SubRegSizeInBits EncodedSubRegSize) ''Index must be less than the source register size''
          (let (H, L, M) =
                 (if sz = i32Bit then (drop_bit 2 Index AND 1, drop_bit 1 Index AND 1, drop_bit 0 Index AND 1)
                  else (drop_bit 1 Index AND 1, drop_bit 0 Index AND 1, 0))
           in ASIMDVectorXIndexedElement QRegister 0b0 L M 0b0111 H EncodedSubRegSize rm rn rd)))"

definition mul :: "RegT \<Rightarrow> SubRegSize \<Rightarrow> VRegister \<Rightarrow> VRegister \<Rightarrow> VRegister \<Rightarrow> 32 word \<Rightarrow> error + 32 word" where
  "mul T sz rd rn rm Index =
     LOGMAN_THROW_A_FMT (sz = i16Bit \<or> sz = i32Bit) ''Invalid destination size''
     (LOGMAN_THROW_A_FMT (if sz = i16Bit then Idx rm < 16 else True) ''Rm can't be v16-v31 with half source size''
     (LOGMAN_THROW_A_FMT (unat Index < SubRegSizeInBits sz) ''Index must be less than the source register size''
       (let (H, L, M) =
              (if sz = i16Bit then (drop_bit 2 Index AND 1, drop_bit 1 Index AND 1, drop_bit 0 Index AND 1)
               else (drop_bit 1 Index AND 1, drop_bit 0 Index AND 1, 0))
        in ASIMDVectorXIndexedElement T 0b0 L M 0b1000 H sz rm rn rd)))"

definition smull :: "SubRegSize \<Rightarrow> VRegister \<Rightarrow> VRegister \<Rightarrow> VRegister \<Rightarrow> 32 word \<Rightarrow> error + 32 word" where
  "smull sz rd rn rm Index =
     LOGMAN_THROW_A_FMT (sz = i32Bit \<or> sz = i64Bit) ''Invalid destination size''
     (LOGMAN_THROW_A_FMT (if sz = i32Bit then Idx rm < 16 else True) ''Rm can't be v16-v31 with half source size''
     (case SubRegSize_of (ToUnderlying sz - 1) of
        None \<Rightarrow> Inl NotAnEnumerant
      | Some EncodedSubRegSize \<Rightarrow>
          LOGMAN_THROW_A_FMT (unat Index < SubRegSizeInBits EncodedSubRegSize) ''Index must be less than the source register size''
          (let (H, L, M) =
                 (if sz = i32Bit then (drop_bit 2 Index AND 1, drop_bit 1 Index AND 1, drop_bit 0 Index AND 1)
                  else (drop_bit 1 Index AND 1, drop_bit 0 Index AND 1, 0))
           in ASIMDVectorXIndexedElement DRegister 0b0 L M 0b1010 H EncodedSubRegSize rm rn rd)))"

definition smull2 :: "SubRegSize \<Rightarrow> VRegister \<Rightarrow> VRegister \<Rightarrow> VRegister \<Rightarrow> 32 word \<Rightarrow> error + 32 word" where
  "smull2 sz rd rn rm Index =
     LOGMAN_THROW_A_FMT (sz = i32Bit \<or> sz = i64Bit) ''Invalid destination size''
     (LOGMAN_THROW_A_FMT (if sz = i32Bit then Idx rm < 16 else True) ''Rm can't be v16-v31 with half source size''
     (case SubRegSize_of (ToUnderlying sz - 1) of
        None \<Rightarrow> Inl NotAnEnumerant
      | Some EncodedSubRegSize \<Rightarrow>
          LOGMAN_THROW_A_FMT (unat Index < SubRegSizeInBits EncodedSubRegSize) ''Index must be less than the source register size''
          (let (H, L, M) =
                 (if sz = i32Bit then (drop_bit 2 Index AND 1, drop_bit 1 Index AND 1, drop_bit 0 Index AND 1)
                  else (drop_bit 1 Index AND 1, drop_bit 0 Index AND 1, 0))
           in ASIMDVectorXIndexedElement QRegister 0b0 L M 0b1010 H EncodedSubRegSize rm rn rd)))"

definition sqdmull :: "SubRegSize \<Rightarrow> VRegister \<Rightarrow> VRegister \<Rightarrow> VRegister \<Rightarrow> 32 word \<Rightarrow> error + 32 word" where
  "sqdmull sz rd rn rm Index =
     LOGMAN_THROW_A_FMT (sz = i32Bit \<or> sz = i64Bit) ''Invalid destination size''
     (LOGMAN_THROW_A_FMT (if sz = i32Bit then Idx rm < 16 else True) ''Rm can't be v16-v31 with half source size''
     (case SubRegSize_of (ToUnderlying sz - 1) of
        None \<Rightarrow> Inl NotAnEnumerant
      | Some EncodedSubRegSize \<Rightarrow>
          LOGMAN_THROW_A_FMT (unat Index < SubRegSizeInBits EncodedSubRegSize) ''Index must be less than the source register size''
          (let (H, L, M) =
                 (if sz = i32Bit then (drop_bit 2 Index AND 1, drop_bit 1 Index AND 1, drop_bit 0 Index AND 1)
                  else (drop_bit 1 Index AND 1, drop_bit 0 Index AND 1, 0))
           in ASIMDVectorXIndexedElement DRegister 0b0 L M 0b1011 H EncodedSubRegSize rm rn rd)))"

definition sqdmull2 :: "SubRegSize \<Rightarrow> VRegister \<Rightarrow> VRegister \<Rightarrow> VRegister \<Rightarrow> 32 word \<Rightarrow> error + 32 word" where
  "sqdmull2 sz rd rn rm Index =
     LOGMAN_THROW_A_FMT (sz = i32Bit \<or> sz = i64Bit) ''Invalid destination size''
     (LOGMAN_THROW_A_FMT (if sz = i32Bit then Idx rm < 16 else True) ''Rm can't be v16-v31 with half source size''
     (case SubRegSize_of (ToUnderlying sz - 1) of
        None \<Rightarrow> Inl NotAnEnumerant
      | Some EncodedSubRegSize \<Rightarrow>
          LOGMAN_THROW_A_FMT (unat Index < SubRegSizeInBits EncodedSubRegSize) ''Index must be less than the source register size''
          (let (H, L, M) =
                 (if sz = i32Bit then (drop_bit 2 Index AND 1, drop_bit 1 Index AND 1, drop_bit 0 Index AND 1)
                  else (drop_bit 1 Index AND 1, drop_bit 0 Index AND 1, 0))
           in ASIMDVectorXIndexedElement QRegister 0b0 L M 0b1011 H EncodedSubRegSize rm rn rd)))"

definition sqdmulh :: "RegT \<Rightarrow> SubRegSize \<Rightarrow> VRegister \<Rightarrow> VRegister \<Rightarrow> VRegister \<Rightarrow> 32 word \<Rightarrow> error + 32 word" where
  "sqdmulh T sz rd rn rm Index =
     LOGMAN_THROW_A_FMT (sz = i16Bit \<or> sz = i32Bit) ''Invalid destination size''
     (LOGMAN_THROW_A_FMT (if sz = i16Bit then Idx rm < 16 else True) ''Rm can't be v16-v31 with half source size''
     (LOGMAN_THROW_A_FMT (unat Index < SubRegSizeInBits sz) ''Index must be less than the source register size''
       (let (H, L, M) =
              (if sz = i16Bit then (drop_bit 2 Index AND 1, drop_bit 1 Index AND 1, drop_bit 0 Index AND 1)
               else (drop_bit 1 Index AND 1, drop_bit 0 Index AND 1, 0))
        in ASIMDVectorXIndexedElement T 0b0 L M 0b1100 H sz rm rn rd)))"

definition sqrdmulh :: "RegT \<Rightarrow> SubRegSize \<Rightarrow> VRegister \<Rightarrow> VRegister \<Rightarrow> VRegister \<Rightarrow> 32 word \<Rightarrow> error + 32 word" where
  "sqrdmulh T sz rd rn rm Index =
     LOGMAN_THROW_A_FMT (sz = i16Bit \<or> sz = i32Bit) ''Invalid destination size''
     (LOGMAN_THROW_A_FMT (if sz = i16Bit then Idx rm < 16 else True) ''Rm can't be v16-v31 with half source size''
     (LOGMAN_THROW_A_FMT (unat Index < SubRegSizeInBits sz) ''Index must be less than the source register size''
       (let (H, L, M) =
              (if sz = i16Bit then (drop_bit 2 Index AND 1, drop_bit 1 Index AND 1, drop_bit 0 Index AND 1)
               else (drop_bit 1 Index AND 1, drop_bit 0 Index AND 1, 0))
        in ASIMDVectorXIndexedElement T 0b0 L M 0b1101 H sz rm rn rd)))"

definition sdot :: "RegT \<Rightarrow> VRegister \<Rightarrow> VRegister \<Rightarrow> VRegister \<Rightarrow> 32 word \<Rightarrow> error + 32 word" where
  "sdot T rd rn rm Index =
     LOGMAN_THROW_A_FMT (Index < 4) ''Index must be less than the source register size''
     (let (H, L, M) = (drop_bit 1 Index AND 1, drop_bit 0 Index AND 1, 0)
      in ASIMDVectorXIndexedElement T 0b0 L M 0b1110 H i32Bit rm rn rd)"

definition sudot :: "RegT \<Rightarrow> VRegister \<Rightarrow> VRegister \<Rightarrow> VRegister \<Rightarrow> 32 word \<Rightarrow> error + 32 word" where
  "sudot T rd rn rm Index =
     LOGMAN_THROW_A_FMT (Index < 4) ''Index must be less than the source register size''
     (let (H, L, M) = (drop_bit 1 Index AND 1, drop_bit 0 Index AND 1, 0)
      in ASIMDVectorXIndexedElement T 0b0 L M 0b1111 H i8Bit rm rn rd)"

definition bfdot :: "RegT \<Rightarrow> VRegister \<Rightarrow> VRegister \<Rightarrow> VRegister \<Rightarrow> 32 word \<Rightarrow> error + 32 word" where
  "bfdot T rd rn rm Index =
     LOGMAN_THROW_A_FMT (Index < 4) ''Index must be less than the source register size''
     (let (H, L, M) = (drop_bit 1 Index AND 1, drop_bit 0 Index AND 1, 0)
      in ASIMDVectorXIndexedElement T 0b0 L M 0b1111 H i16Bit rm rn rd)"

definition fmla_elem :: "RegT \<Rightarrow> SubRegSize \<Rightarrow> VRegister \<Rightarrow> VRegister \<Rightarrow> VRegister \<Rightarrow> 32 word \<Rightarrow> error + 32 word" where
  "fmla_elem T sz rd rn rm Index =
     LOGMAN_THROW_A_FMT (IsStandardFloatSize sz) ''Invalid destination size''
     (LOGMAN_THROW_A_FMT (unat Index < SubRegSizeInBits sz) ''Index must be less than the source register size''
       (let EncodedSubRegSize = sz in
        if sz = i16Bit then
          (let (H, L, M) = (drop_bit 2 Index AND 1, drop_bit 1 Index AND 1, drop_bit 0 Index AND 1);
               EncodedSubRegSize = i8Bit
           in ASIMDVectorXIndexedElement T 0b0 L M 0b0001 H EncodedSubRegSize rm rn rd)
        else if sz = i32Bit then
          (let (H, L, M) = (drop_bit 1 Index AND 1, drop_bit 0 Index AND 1, 0)
           in ASIMDVectorXIndexedElement T 0b0 L M 0b0001 H EncodedSubRegSize rm rn rd)
        else
          LOGMAN_THROW_A_FMT (T = QRegister) ''Can't encode DRegister with i64Bit''
          (let (H, L, M) = (Index, 0, 0)
           in ASIMDVectorXIndexedElement T 0b0 L M 0b0001 H EncodedSubRegSize rm rn rd)))"

definition fmls_elem :: "RegT \<Rightarrow> SubRegSize \<Rightarrow> VRegister \<Rightarrow> VRegister \<Rightarrow> VRegister \<Rightarrow> 32 word \<Rightarrow> error + 32 word" where
  "fmls_elem T sz rd rn rm Index =
     LOGMAN_THROW_A_FMT (IsStandardFloatSize sz) ''Invalid destination size''
     (LOGMAN_THROW_A_FMT (unat Index < SubRegSizeInBits sz) ''Index must be less than the source register size''
       (let EncodedSubRegSize = sz in
        if sz = i16Bit then
          (let (H, L, M) = (drop_bit 2 Index AND 1, drop_bit 1 Index AND 1, drop_bit 0 Index AND 1);
               EncodedSubRegSize = i8Bit
           in ASIMDVectorXIndexedElement T 0b0 L M 0b0101 H EncodedSubRegSize rm rn rd)
        else if sz = i32Bit then
          (let (H, L, M) = (drop_bit 1 Index AND 1, drop_bit 0 Index AND 1, 0)
           in ASIMDVectorXIndexedElement T 0b0 L M 0b0101 H EncodedSubRegSize rm rn rd)
        else
          LOGMAN_THROW_A_FMT (T = QRegister) ''Can't encode DRegister with i64Bit''
          (let (H, L, M) = (Index, 0, 0)
           in ASIMDVectorXIndexedElement T 0b0 L M 0b0101 H EncodedSubRegSize rm rn rd)))"

definition fmul_elem :: "RegT \<Rightarrow> SubRegSize \<Rightarrow> VRegister \<Rightarrow> VRegister \<Rightarrow> VRegister \<Rightarrow> 32 word \<Rightarrow> error + 32 word" where
  "fmul_elem T sz rd rn rm Index =
     LOGMAN_THROW_A_FMT (IsStandardFloatSize sz) ''Invalid destination size''
     (LOGMAN_THROW_A_FMT (unat Index < SubRegSizeInBits sz) ''Index must be less than the source register size''
       (let EncodedSubRegSize = sz in
        if sz = i16Bit then
          (let (H, L, M) = (drop_bit 2 Index AND 1, drop_bit 1 Index AND 1, drop_bit 0 Index AND 1);
               EncodedSubRegSize = i8Bit
           in ASIMDVectorXIndexedElement T 0b0 L M 0b1001 H EncodedSubRegSize rm rn rd)
        else if sz = i32Bit then
          (let (H, L, M) = (drop_bit 1 Index AND 1, drop_bit 0 Index AND 1, 0)
           in ASIMDVectorXIndexedElement T 0b0 L M 0b1001 H EncodedSubRegSize rm rn rd)
        else
          LOGMAN_THROW_A_FMT (T = QRegister) ''Can't encode DRegister with i64Bit''
          (let (H, L, M) = (Index, 0, 0)
           in ASIMDVectorXIndexedElement T 0b0 L M 0b1001 H EncodedSubRegSize rm rn rd)))"

definition fmlal :: "RegT \<Rightarrow> VRegister \<Rightarrow> VRegister \<Rightarrow> VRegister \<Rightarrow> 32 word \<Rightarrow> error + 32 word" where
  "fmlal T rd rn rm Index =
     LOGMAN_THROW_A_FMT (Index < 8) ''Index must be less than the source register size''
     (let (H, L, M) = (drop_bit 2 Index AND 1, drop_bit 1 Index AND 1, drop_bit 0 Index AND 1)
      in ASIMDVectorXIndexedElement T 0b0 L M 0b0000 H i32Bit rm rn rd)"

definition fmlal2 :: "RegT \<Rightarrow> VRegister \<Rightarrow> VRegister \<Rightarrow> VRegister \<Rightarrow> 32 word \<Rightarrow> error + 32 word" where
  "fmlal2 T rd rn rm Index =
     LOGMAN_THROW_A_FMT (Index < 8) ''Index must be less than the source register size''
     (let (H, L, M) = (drop_bit 2 Index AND 1, drop_bit 1 Index AND 1, drop_bit 0 Index AND 1)
      in ASIMDVectorXIndexedElement T 0b1 L M 0b1000 H i32Bit rm rn rd)"

definition fmlsl :: "RegT \<Rightarrow> VRegister \<Rightarrow> VRegister \<Rightarrow> VRegister \<Rightarrow> 32 word \<Rightarrow> error + 32 word" where
  "fmlsl T rd rn rm Index =
     LOGMAN_THROW_A_FMT (Index < 8) ''Index must be less than the source register size''
     (let (H, L, M) = (drop_bit 2 Index AND 1, drop_bit 1 Index AND 1, drop_bit 0 Index AND 1)
      in ASIMDVectorXIndexedElement T 0b0 L M 0b0100 H i32Bit rm rn rd)"

definition fmlsl2 :: "RegT \<Rightarrow> VRegister \<Rightarrow> VRegister \<Rightarrow> VRegister \<Rightarrow> 32 word \<Rightarrow> error + 32 word" where
  "fmlsl2 T rd rn rm Index =
     LOGMAN_THROW_A_FMT (Index < 8) ''Index must be less than the source register size''
     (let (H, L, M) = (drop_bit 2 Index AND 1, drop_bit 1 Index AND 1, drop_bit 0 Index AND 1)
      in ASIMDVectorXIndexedElement T 0b1 L M 0b1100 H i32Bit rm rn rd)"

definition usdot :: "RegT \<Rightarrow> VRegister \<Rightarrow> VRegister \<Rightarrow> VRegister \<Rightarrow> 32 word \<Rightarrow> error + 32 word" where
  "usdot T rd rn rm Index =
     LOGMAN_THROW_A_FMT (Index < 4) ''Index must be less than the source register size''
     (let (H, L, M) = (drop_bit 1 Index AND 1, drop_bit 0 Index AND 1, 0)
      in ASIMDVectorXIndexedElement T 0b0 L M 0b1111 H i32Bit rm rn rd)"

definition bfmlalb :: "VRegister \<Rightarrow> VRegister \<Rightarrow> VRegister \<Rightarrow> 32 word \<Rightarrow> error + 32 word" where
  "bfmlalb rd rn rm Index =
     LOGMAN_THROW_A_FMT (Idx rm < 16) ''Rm can't be v16-v31 with half source size''
     (LOGMAN_THROW_A_FMT (Index < 8) ''Index must be less than the source register size''
       (let (H, L, M) = (drop_bit 2 Index AND 1, drop_bit 1 Index AND 1, drop_bit 0 Index AND 1)
        in ASIMDVectorXIndexedElement DRegister 0b0 L M 0b1111 H i64Bit rm rn rd))"

definition bfmlalt :: "VRegister \<Rightarrow> VRegister \<Rightarrow> VRegister \<Rightarrow> 32 word \<Rightarrow> error + 32 word" where
  "bfmlalt rd rn rm Index =
     LOGMAN_THROW_A_FMT (Idx rm < 16) ''Rm can't be v16-v31 with half source size''
     (LOGMAN_THROW_A_FMT (Index < 8) ''Index must be less than the source register size''
       (let (H, L, M) = (drop_bit 2 Index AND 1, drop_bit 1 Index AND 1, drop_bit 0 Index AND 1)
        in ASIMDVectorXIndexedElement QRegister 0b0 L M 0b1111 H i64Bit rm rn rd))"

definition mla :: "RegT \<Rightarrow> SubRegSize \<Rightarrow> VRegister \<Rightarrow> VRegister \<Rightarrow> VRegister \<Rightarrow> 32 word \<Rightarrow> error + 32 word" where
  "mla T sz rd rn rm Index =
     LOGMAN_THROW_A_FMT (sz = i16Bit \<or> sz = i32Bit) ''Invalid destination size''
     (LOGMAN_THROW_A_FMT (if sz = i16Bit then Idx rm < 16 else True) ''Rm can't be v16-v31 with half source size''
     (LOGMAN_THROW_A_FMT (unat Index < SubRegSizeInBits sz) ''Index must be less than the source register size''
       (let (H, L, M) =
              (if sz = i16Bit then (drop_bit 2 Index AND 1, drop_bit 1 Index AND 1, drop_bit 0 Index AND 1)
               else (drop_bit 1 Index AND 1, drop_bit 0 Index AND 1, 0))
        in ASIMDVectorXIndexedElement T 0b1 L M 0b0000 H sz rm rn rd)))"

definition umlal :: "SubRegSize \<Rightarrow> VRegister \<Rightarrow> VRegister \<Rightarrow> VRegister \<Rightarrow> 32 word \<Rightarrow> error + 32 word" where
  "umlal sz rd rn rm Index =
     LOGMAN_THROW_A_FMT (sz = i32Bit \<or> sz = i64Bit) ''Invalid destination size''
     (LOGMAN_THROW_A_FMT (if sz = i32Bit then Idx rm < 16 else True) ''Rm can't be v16-v31 with half source size''
     (case SubRegSize_of (ToUnderlying sz - 1) of
        None \<Rightarrow> Inl NotAnEnumerant
      | Some EncodedSubRegSize \<Rightarrow>
          LOGMAN_THROW_A_FMT (unat Index < SubRegSizeInBits EncodedSubRegSize) ''Index must be less than the source register size''
          (let (H, L, M) =
                 (if sz = i32Bit then (drop_bit 2 Index AND 1, drop_bit 1 Index AND 1, drop_bit 0 Index AND 1)
                  else (drop_bit 1 Index AND 1, drop_bit 0 Index AND 1, 0))
           in ASIMDVectorXIndexedElement DRegister 0b1 L M 0b0010 H EncodedSubRegSize rm rn rd)))"

definition umlal2 :: "SubRegSize \<Rightarrow> VRegister \<Rightarrow> VRegister \<Rightarrow> VRegister \<Rightarrow> 32 word \<Rightarrow> error + 32 word" where
  "umlal2 sz rd rn rm Index =
     LOGMAN_THROW_A_FMT (sz = i32Bit \<or> sz = i64Bit) ''Invalid destination size''
     (LOGMAN_THROW_A_FMT (if sz = i32Bit then Idx rm < 16 else True) ''Rm can't be v16-v31 with half source size''
     (case SubRegSize_of (ToUnderlying sz - 1) of
        None \<Rightarrow> Inl NotAnEnumerant
      | Some EncodedSubRegSize \<Rightarrow>
          LOGMAN_THROW_A_FMT (unat Index < SubRegSizeInBits EncodedSubRegSize) ''Index must be less than the source register size''
          (let (H, L, M) =
                 (if sz = i32Bit then (drop_bit 2 Index AND 1, drop_bit 1 Index AND 1, drop_bit 0 Index AND 1)
                  else (drop_bit 1 Index AND 1, drop_bit 0 Index AND 1, 0))
           in ASIMDVectorXIndexedElement QRegister 0b1 L M 0b0010 H EncodedSubRegSize rm rn rd)))"

definition mls :: "RegT \<Rightarrow> SubRegSize \<Rightarrow> VRegister \<Rightarrow> VRegister \<Rightarrow> VRegister \<Rightarrow> 32 word \<Rightarrow> error + 32 word" where
  "mls T sz rd rn rm Index =
     LOGMAN_THROW_A_FMT (sz = i16Bit \<or> sz = i32Bit) ''Invalid destination size''
     (LOGMAN_THROW_A_FMT (if sz = i16Bit then Idx rm < 16 else True) ''Rm can't be v16-v31 with half source size''
     (LOGMAN_THROW_A_FMT (unat Index < SubRegSizeInBits sz) ''Index must be less than the source register size''
       (let (H, L, M) =
              (if sz = i16Bit then (drop_bit 2 Index AND 1, drop_bit 1 Index AND 1, drop_bit 0 Index AND 1)
               else (drop_bit 1 Index AND 1, drop_bit 0 Index AND 1, 0))
        in ASIMDVectorXIndexedElement T 0b1 L M 0b0100 H sz rm rn rd)))"

definition umlsl :: "SubRegSize \<Rightarrow> VRegister \<Rightarrow> VRegister \<Rightarrow> VRegister \<Rightarrow> 32 word \<Rightarrow> error + 32 word" where
  "umlsl sz rd rn rm Index =
     LOGMAN_THROW_A_FMT (sz = i32Bit \<or> sz = i64Bit) ''Invalid destination size''
     (LOGMAN_THROW_A_FMT (if sz = i32Bit then Idx rm < 16 else True) ''Rm can't be v16-v31 with half source size''
     (case SubRegSize_of (ToUnderlying sz - 1) of
        None \<Rightarrow> Inl NotAnEnumerant
      | Some EncodedSubRegSize \<Rightarrow>
          LOGMAN_THROW_A_FMT (unat Index < SubRegSizeInBits EncodedSubRegSize) ''Index must be less than the source register size''
          (let (H, L, M) =
                 (if sz = i32Bit then (drop_bit 2 Index AND 1, drop_bit 1 Index AND 1, drop_bit 0 Index AND 1)
                  else (drop_bit 1 Index AND 1, drop_bit 0 Index AND 1, 0))
           in ASIMDVectorXIndexedElement DRegister 0b1 L M 0b0110 H EncodedSubRegSize rm rn rd)))"

definition umlsl2 :: "SubRegSize \<Rightarrow> VRegister \<Rightarrow> VRegister \<Rightarrow> VRegister \<Rightarrow> 32 word \<Rightarrow> error + 32 word" where
  "umlsl2 sz rd rn rm Index =
     LOGMAN_THROW_A_FMT (sz = i32Bit \<or> sz = i64Bit) ''Invalid destination size''
     (LOGMAN_THROW_A_FMT (if sz = i32Bit then Idx rm < 16 else True) ''Rm can't be v16-v31 with half source size''
     (case SubRegSize_of (ToUnderlying sz - 1) of
        None \<Rightarrow> Inl NotAnEnumerant
      | Some EncodedSubRegSize \<Rightarrow>
          LOGMAN_THROW_A_FMT (unat Index < SubRegSizeInBits EncodedSubRegSize) ''Index must be less than the source register size''
          (let (H, L, M) =
                 (if sz = i32Bit then (drop_bit 2 Index AND 1, drop_bit 1 Index AND 1, drop_bit 0 Index AND 1)
                  else (drop_bit 1 Index AND 1, drop_bit 0 Index AND 1, 0))
           in ASIMDVectorXIndexedElement QRegister 0b1 L M 0b0110 H EncodedSubRegSize rm rn rd)))"

definition umull :: "SubRegSize \<Rightarrow> VRegister \<Rightarrow> VRegister \<Rightarrow> VRegister \<Rightarrow> 32 word \<Rightarrow> error + 32 word" where
  "umull sz rd rn rm Index =
     LOGMAN_THROW_A_FMT (sz = i32Bit \<or> sz = i64Bit) ''Invalid destination size''
     (LOGMAN_THROW_A_FMT (if sz = i32Bit then Idx rm < 16 else True) ''Rm can't be v16-v31 with half source size''
     (case SubRegSize_of (ToUnderlying sz - 1) of
        None \<Rightarrow> Inl NotAnEnumerant
      | Some EncodedSubRegSize \<Rightarrow>
          LOGMAN_THROW_A_FMT (unat Index < SubRegSizeInBits EncodedSubRegSize) ''Index must be less than the source register size''
          (let (H, L, M) =
                 (if sz = i32Bit then (drop_bit 2 Index AND 1, drop_bit 1 Index AND 1, drop_bit 0 Index AND 1)
                  else (drop_bit 1 Index AND 1, drop_bit 0 Index AND 1, 0))
           in ASIMDVectorXIndexedElement DRegister 0b1 L M 0b1010 H EncodedSubRegSize rm rn rd)))"

definition umull2 :: "SubRegSize \<Rightarrow> VRegister \<Rightarrow> VRegister \<Rightarrow> VRegister \<Rightarrow> 32 word \<Rightarrow> error + 32 word" where
  "umull2 sz rd rn rm Index =
     LOGMAN_THROW_A_FMT (sz = i32Bit \<or> sz = i64Bit) ''Invalid destination size''
     (LOGMAN_THROW_A_FMT (if sz = i32Bit then Idx rm < 16 else True) ''Rm can't be v16-v31 with half source size''
     (case SubRegSize_of (ToUnderlying sz - 1) of
        None \<Rightarrow> Inl NotAnEnumerant
      | Some EncodedSubRegSize \<Rightarrow>
          LOGMAN_THROW_A_FMT (unat Index < SubRegSizeInBits EncodedSubRegSize) ''Index must be less than the source register size''
          (let (H, L, M) =
                 (if sz = i32Bit then (drop_bit 2 Index AND 1, drop_bit 1 Index AND 1, drop_bit 0 Index AND 1)
                  else (drop_bit 1 Index AND 1, drop_bit 0 Index AND 1, 0))
           in ASIMDVectorXIndexedElement QRegister 0b1 L M 0b1010 H EncodedSubRegSize rm rn rd)))"

definition sqrdmlah :: "RegT \<Rightarrow> SubRegSize \<Rightarrow> VRegister \<Rightarrow> VRegister \<Rightarrow> VRegister \<Rightarrow> 32 word \<Rightarrow> error + 32 word" where
  "sqrdmlah T sz rd rn rm Index =
     LOGMAN_THROW_A_FMT (sz = i16Bit \<or> sz = i32Bit) ''Invalid destination size''
     (LOGMAN_THROW_A_FMT (if sz = i16Bit then Idx rm < 16 else True) ''Rm can't be v16-v31 with half source size''
     (LOGMAN_THROW_A_FMT (unat Index < SubRegSizeInBits sz) ''Index must be less than the source register size''
       (let (H, L, M) =
              (if sz = i16Bit then (drop_bit 2 Index AND 1, drop_bit 1 Index AND 1, drop_bit 0 Index AND 1)
               else (drop_bit 1 Index AND 1, drop_bit 0 Index AND 1, 0))
        in ASIMDVectorXIndexedElement T 0b1 L M 0b1101 H sz rm rn rd)))"

definition udot :: "RegT \<Rightarrow> VRegister \<Rightarrow> VRegister \<Rightarrow> VRegister \<Rightarrow> 32 word \<Rightarrow> error + 32 word" where
  "udot T rd rn rm Index =
     LOGMAN_THROW_A_FMT (Index < 4) ''Index must be less than the source register size''
     (let (H, L, M) = (drop_bit 1 Index AND 1, drop_bit 0 Index AND 1, 0)
      in ASIMDVectorXIndexedElement T 0b1 L M 0b1110 H i32Bit rm rn rd)"

definition sqrdmlsh :: "RegT \<Rightarrow> SubRegSize \<Rightarrow> VRegister \<Rightarrow> VRegister \<Rightarrow> VRegister \<Rightarrow> 32 word \<Rightarrow> error + 32 word" where
  "sqrdmlsh T sz rd rn rm Index =
     LOGMAN_THROW_A_FMT (sz = i16Bit \<or> sz = i32Bit) ''Invalid destination size''
     (LOGMAN_THROW_A_FMT (if sz = i16Bit then Idx rm < 16 else True) ''Rm can't be v16-v31 with half source size''
     (LOGMAN_THROW_A_FMT (unat Index < SubRegSizeInBits sz) ''Index must be less than the source register size''
       (let (H, L, M) =
              (if sz = i16Bit then (drop_bit 2 Index AND 1, drop_bit 1 Index AND 1, drop_bit 0 Index AND 1)
               else (drop_bit 1 Index AND 1, drop_bit 0 Index AND 1, 0))
        in ASIMDVectorXIndexedElement T 0b1 L M 0b1111 H sz rm rn rd)))"
text \<open>
  \<open>dup\<close> (element) ends in \<open>ASIMDScalarCopy\<close>, a category encoder that is not part of the
  sources at hand; it is a parameter of the model.
\<close>

definition dup ::
  "(32 word \<Rightarrow> 32 word \<Rightarrow> 32 word \<Rightarrow> 32 word \<Rightarrow> VRegister \<Rightarrow> VRegister \<Rightarrow> error + 32 word) \<Rightarrow>
   RegT \<Rightarrow> SubRegSize \<Rightarrow> VRegister \<Rightarrow> VRegister \<Rightarrow> 32 word \<Rightarrow> error + 32 word" where
  "dup ASIMDScalarCopy T sz rd rn Index =
     LOGMAN_THROW_A_FMT (if T = DRegister then sz \<noteq> i64Bit else True) ''Invalid element size with 64-bit dup''
     (let Q = (if T = QRegister then 1 else 0);
          SizeImm = ToUnderlying sz;
          IndexShift = SizeImm + 1;
          ElementSize = push_bit (unat SizeImm) (1 :: 32 word);
          MaxIndex = 128 div (ElementSize * 8)
      in LOGMAN_THROW_A_FMT (Index < MaxIndex) ''Index too large. Index={}, Max Index: {}''
           (let imm5 = push_bit (unat IndexShift) Index OR ElementSize
            in ASIMDScalarCopy Q 0 imm5 0b0000 rd rn))"

text \<open>
  Reading the lane index back from an emitted word: \<open>H\<close> is bit 11, \<open>L\<close> bit 21 and \<open>M\<close> bit 20.
  The register field \<open>Rm\<close> is bits 19 to 16 in the three-bit form, which takes bit 20 for
  \<open>M\<close>, and bits 20 to 16 otherwise.
\<close>

definition H_of :: "32 word \<Rightarrow> 32 word" where
  "H_of w = of_bool (bit w 11)"

definition L_of :: "32 word \<Rightarrow> 32 word" where
  "L_of w = of_bool (bit w 21)"

definition M_of :: "32 word \<Rightarrow> 32 word" where
  "M_of w = of_bool (bit w 20)"

definition index_HLM :: "32 word \<Rightarrow> 32 word" where
  "index_HLM w = push_bit 2 (H_of w) OR push_bit 1 (L_of w) OR M_of w"

definition index_HL :: "32 word \<Rightarrow> 32 word" where
  "index_HL w = push_bit 1 (H_of w) OR L_of w"


definition Rm5_of :: "32 word \<Rightarrow> 32 word" where
  "Rm5_of w = take_bit 5 (drop_bit 16 w)"

text \<open>
  The family as one function: \<open>IndexedElement op\<close> is the call of the emitter named by \<open>op\<close>;
  the tag and the element size are passed on to the emitters that take them.
\<close>

datatype IndexedOp =
  IX_smlal | IX_smlal2 | IX_sqdmlal | IX_sqdmlal2 | IX_smlsl | IX_smlsl2 |
  IX_sqdmlsl | IX_sqdmlsl2 | IX_mul | IX_smull | IX_smull2 | IX_sqdmull |
  IX_sqdmull2 | IX_sqdmulh | IX_sqrdmulh | IX_sdot | IX_sudot | IX_bfdot |
  IX_fmla_elem | IX_fmls_elem | IX_fmul_elem | IX_fmlal | IX_fmlal2 | IX_fmlsl |
  IX_fmlsl2 | IX_usdot | IX_bfmlalb | IX_bfmlalt | IX_mla | IX_umlal |
  IX_umlal2 | IX_mls | IX_umlsl | IX_umlsl2 | IX_umull | IX_umull2 |
  IX_sqrdmlah | IX_udot | IX_sqrdmlsh

fun IndexedElement :: "IndexedOp \<Rightarrow> RegT \<Rightarrow> SubRegSize \<Rightarrow> VRegister \<Rightarrow> VRegister \<Rightarrow> VRegister \<Rightarrow> 32 word \<Rightarrow> error + 32 word" where
  "IndexedElement IX_smlal T sz = smlal sz"
| "IndexedElement IX_smlal2 T sz = smlal2 sz"
| "IndexedElement IX_sqdmlal T sz = sqdmlal sz"
| "IndexedElement IX_sqdmlal2 T sz = sqdmlal2 sz"
| "IndexedElement IX_smlsl T sz = smlsl sz"
| "IndexedElement IX_smlsl2 T sz = smlsl2 sz"
| "IndexedElement IX_sqdmlsl T sz = sqdmlsl sz"
| "IndexedElement IX_sqdmlsl2 T sz = sqdmlsl2 sz"
| "IndexedElement IX_mul T sz = mul T sz"
| "IndexedElement IX_smull T sz = smull sz"
| "IndexedElement IX_smull2 T sz = smull2 sz"
| "IndexedElement IX_sqdmull T sz = sqdmull sz"
| "IndexedElement IX_sqdmull2 T sz = sqdmull2 sz"
| "IndexedElement IX_sqdmulh T sz = sqdmulh T sz"
| "IndexedElement IX_sqrdmulh T sz = sqrdmulh T sz"
| "IndexedElement IX_sdot T sz = sdot T"
| "IndexedElement IX_sudot T sz = sudot T"
| "IndexedElement IX_bfdot T sz = bfdot T"
| "IndexedElement IX_fmla_elem T sz = fmla_elem T sz"
| "IndexedElement IX_fmls_elem T sz = fmls_elem T sz"
| "IndexedElement IX_fmul_elem T sz = fmul_elem T sz"
| "IndexedElement IX_fmlal T sz = fmlal T"
| "IndexedElement IX_fmlal2 T sz = fmlal2 T"
| "IndexedElement IX_fmlsl T sz = fmlsl T"
| "IndexedElement IX_fmlsl2 T sz = fmlsl2 T"
| "IndexedElement IX_usdot T sz = usdot T"
| "IndexedElement IX_bfmlalb T sz = bfmlalb"
| "IndexedElement IX_bfmlalt T sz = bfmlalt"
| "IndexedElement IX_mla T sz = mla T sz"
| "IndexedElement IX_umlal T sz = umlal sz"
| "IndexedElement IX_umlal2 T sz = umlal2 sz"
| "IndexedElement IX_mls T sz = mls T sz"
| "IndexedElement IX_umlsl T sz = umlsl sz"
| "IndexedElement IX_umlsl2 T sz = umlsl2 sz"
| "IndexedElement IX_umull T sz = umull sz"
| "IndexedElement IX_umull2 T sz = umull2 sz"
| "IndexedElement IX_sqrdmlah T sz = sqrdmlah T sz"
| "IndexedElement IX_udot T sz = udot T"
| "IndexedElement IX_sqrdmlsh T sz = sqrdmlsh T sz"

text \<open>
  The emitters fall into six groups by what they do with the size and the index; \<open>group_of\<close>
  names the group of each. \<open>WideningElem\<close>: the long multiplies, whose size argument is the
  destination size and whose source elements are one step narrower. \<open>SameElem\<close>: the
  multiplies on 16-bit and 32-bit elements. \<open>DotElem\<close>: the dot products, on groups of 32 bit.
  \<open>FloatElem\<close>: \<open>fmla\<close>, \<open>fmls\<close> and \<open>fmul\<close> by element. \<open>HalfFloatElem\<close>: \<open>fmlal\<close>, \<open>fmlal2\<close>,
  \<open>fmlsl\<close> and \<open>fmlsl2\<close>, on 16-bit source elements. \<open>BFloatElem\<close>: \<open>bfmlalb\<close> and \<open>bfmlalt\<close>,
  on 16-bit source elements.
\<close>

datatype IndexedGroup = WideningElem | SameElem | DotElem | FloatElem | HalfFloatElem | BFloatElem

fun group_of :: "IndexedOp \<Rightarrow> IndexedGroup" where
  "group_of IX_smlal = WideningElem"
| "group_of IX_smlal2 = WideningElem"
| "group_of IX_sqdmlal = WideningElem"
| "group_of IX_sqdmlal2 = WideningElem"
| "group_of IX_smlsl = WideningElem"
| "group_of IX_smlsl2 = WideningElem"
| "group_of IX_sqdmlsl = WideningElem"
| "group_of IX_sqdmlsl2 = WideningElem"
| "group_of IX_mul = SameElem"
| "group_of IX_smull = WideningElem"
| "group_of IX_smull2 = WideningElem"
| "group_of IX_sqdmull = WideningElem"
| "group_of IX_sqdmull2 = WideningElem"
| "group_of IX_sqdmulh = SameElem"
| "group_of IX_sqrdmulh = SameElem"
| "group_of IX_sdot = DotElem"
| "group_of IX_sudot = DotElem"
| "group_of IX_bfdot = DotElem"
| "group_of IX_fmla_elem = FloatElem"
| "group_of IX_fmls_elem = FloatElem"
| "group_of IX_fmul_elem = FloatElem"
| "group_of IX_fmlal = HalfFloatElem"
| "group_of IX_fmlal2 = HalfFloatElem"
| "group_of IX_fmlsl = HalfFloatElem"
| "group_of IX_fmlsl2 = HalfFloatElem"
| "group_of IX_usdot = DotElem"
| "group_of IX_bfmlalb = BFloatElem"
| "group_of IX_bfmlalt = BFloatElem"
| "group_of IX_mla = SameElem"
| "group_of IX_umlal = WideningElem"
| "group_of IX_umlal2 = WideningElem"
| "group_of IX_mls = SameElem"
| "group_of IX_umlsl = WideningElem"
| "group_of IX_umlsl2 = WideningElem"
| "group_of IX_umull = WideningElem"
| "group_of IX_umull2 = WideningElem"
| "group_of IX_sqrdmlah = SameElem"
| "group_of IX_udot = DotElem"
| "group_of IX_sqrdmlsh = SameElem"

text \<open>
  What the instruction set says, by group and size argument: the width in bits of the source
  elements the index selects from, the number of lanes of a 128-bit register (the legal
  indices are those below it), and the form of the index in the word: three bits \<open>H:L:M\<close> for
  16-bit source elements, two bits \<open>H:L\<close> for 32-bit ones, the bit \<open>H\<close> for 64-bit ones.
\<close>

fun source_bits :: "IndexedGroup \<Rightarrow> SubRegSize \<Rightarrow> nat" where
  "source_bits WideningElem sz = SubRegSizeInBits sz div 2"
| "source_bits SameElem sz = SubRegSizeInBits sz"
| "source_bits DotElem sz = 32"
| "source_bits FloatElem sz = SubRegSizeInBits sz"
| "source_bits HalfFloatElem sz = 16"
| "source_bits BFloatElem sz = 16"

definition lanes :: "IndexedOp \<Rightarrow> SubRegSize \<Rightarrow> nat" where
  "lanes op sz = 128 div source_bits (group_of op) sz"

datatype IndexForm = HLM | HL | H_only

definition index_form :: "IndexedOp \<Rightarrow> SubRegSize \<Rightarrow> IndexForm" where
  "index_form op sz =
     (if source_bits (group_of op) sz = 16 then HLM
      else if source_bits (group_of op) sz = 32 then HL
      else H_only)"


fun decode_index :: "IndexForm \<Rightarrow> 32 word \<Rightarrow> 32 word" where
  "decode_index HLM w = index_HLM w"
| "decode_index HL w = index_HL w"
| "decode_index H_only w = H_of w"








section \<open>The 64-bit move immediate: bytes, compression and expansion\<close>

text \<open>
  \<open>Section_of Imm i\<close> is byte \<open>i\<close> of the 64-bit input, as the loop of \<open>movi\<close> computes it.
  \<open>bytes_00_FF\<close> says that each of the eight bytes is \<open>0x00\<close> or \<open>0xFF\<close>. \<open>expand_imm8\<close> is the
  expansion the instruction performs: bit \<open>i\<close> of the 8-bit immediate becomes byte \<open>i\<close>.
  \<open>imm8_of\<close> reads the immediate \<open>a:b:c:d:e:f:g:h\<close> back from an emitted word: \<open>a:b:c\<close> is bits
  18 to 16, \<open>d:e:f:g:h\<close> bits 9 to 5.
\<close>

definition Section_of :: "64 word \<Rightarrow> nat \<Rightarrow> 8 word" where
  "Section_of Imm i = ucast (drop_bit (i * 8) Imm AND 0xFF)"

definition bytes_00_FF :: "64 word \<Rightarrow> bool" where
  "bytes_00_FF Imm \<longleftrightarrow>
     list_all (\<lambda>i. Section_of Imm i = 0 \<or> Section_of Imm i = 0xFF) [0..<8]"

fun expand_bits :: "nat \<Rightarrow> 8 word \<Rightarrow> 64 word" where
  "expand_bits 0 imm8 = 0"
| "expand_bits (Suc k) imm8 =
     expand_bits k imm8 OR (if bit imm8 k then push_bit (8 * k) 0xFF else 0)"

definition expand_imm8 :: "8 word \<Rightarrow> 64 word" where
  "expand_imm8 imm8 = expand_bits 8 imm8"

definition imm8_of :: "32 word \<Rightarrow> 8 word" where
  "imm8_of w = ucast (push_bit 5 (take_bit 3 (drop_bit 16 w)) OR take_bit 5 (drop_bit 5 w))"

declare movi_loop.simps [simp del]

section \<open>Reading fields back from an emitted word\<close>

text \<open>
  An emitted word is the bitwise OR of shifted operands. A field of the word is recovered by
  \<open>take_bit k (drop_bit lo w)\<close>, which distributes over OR; the lemmas below say what it
  makes of one shifted operand that is bounded.
\<close>

lemma bounded_take_bit: "(x::32 word) < 2 ^ k \<Longrightarrow> take_bit k x = x"
  by (simp add: take_bit_eq_mask less_mask_eq)

lemma bounded_bit: "(x::32 word) < 2 ^ k \<Longrightarrow> bit x n \<Longrightarrow> n < k"
  by (metis bounded_take_bit bit_take_bit_iff)

lemma fld_same:
  "x < 2 ^ k \<Longrightarrow> lo + k \<le> 32 \<Longrightarrow> take_bit k (drop_bit lo (push_bit lo (x::32 word))) = x"
  by (rule bit_eqI) (auto simp: bit_simps dest: bounded_bit)

lemma fld_above: "lo + k \<le> i \<Longrightarrow> take_bit k (drop_bit lo (push_bit i (x::32 word))) = 0"
  by (rule bit_eqI) (auto simp: bit_simps)

lemma fld_below:
  "x < 2 ^ w \<Longrightarrow> i + w \<le> lo \<Longrightarrow> take_bit k (drop_bit lo (push_bit i (x::32 word))) = 0"
  by (rule bit_eqI) (auto simp: bit_simps dest!: bounded_bit)

lemma fld_below0: "x < 2 ^ w \<Longrightarrow> w \<le> lo \<Longrightarrow> take_bit k (drop_bit lo (x::32 word)) = 0"
  using fld_below [of x w 0 lo k] by simp

lemma fld_Qbit: "lo + k \<le> 30 \<Longrightarrow> take_bit k (drop_bit lo (Qbit T)) = 0"
  unfolding Qbit_def using fld_above [of lo k 30 1] by simp

lemma low_above: "k \<le> i \<Longrightarrow> take_bit k (push_bit i (x::32 word)) = 0"
  using fld_above [of 0 k i x] by simp

lemma low_Qbit: "k \<le> 30 \<Longrightarrow> take_bit k (Qbit T) = 0"
  using fld_Qbit [of 0 k T] by simp

lemma seven_mask: "(7::32 word) = mask 3"
  by (simp add: mask_eq_exp_minus_1)

lemma split_field: "push_bit 3 (drop_bit 3 f) OR (f AND 7) = (f::32 word)"
  unfolding seven_mask by (rule bit_eqI) (auto simp: bit_simps)

lemma field_parts:
  fixes f :: "32 word"
  assumes "8 \<le> unat f" "unat f < 128"
  shows "drop_bit 3 f \<noteq> 0" "drop_bit 3 f < 16" "f AND 7 < 8"
proof -
  have u: "unat (drop_bit 3 f) = unat f div 8"
    by (simp add: drop_bit_eq_div unat_div)
  from assms have "0 < unat f div 8" "unat f div 8 < 16" by simp_all
  with u show "drop_bit 3 f \<noteq> 0" "drop_bit 3 f < 16"
    by (auto simp: word_less_nat_alt unat_eq_0 [symmetric] simp del: unat_eq_0)
  have "unat (f AND 7) = unat f mod 8"
    unfolding seven_mask by (simp add: take_bit_eq_mask [symmetric] take_bit_eq_mod unat_mod)
  then show "f AND 7 < 8" by (simp add: word_less_nat_alt)
qed

section \<open>Shift by immediate: what every emitter of the family does\<close>

lemmas shift_defs = sshr_def ssra_def srshr_def srsra_def shl_def sqshl_def shrn_def shrn2_def rshrn_def rshrn2_def sqshrn_def sqshrn2_def sqrshrn_def sqrshrn2_def sshll_def sshll2_def scvtf_def fcvtzs_def ushr_def usra_def urshr_def ursra_def sri_def sli_def sqshlu_def uqshl_def sqshrun_def sqshrun2_def sqrshrun_def sqrshrun2_def uqshrn_def uqshrn2_def uqrshrn_def uqrshrn2_def ushll_def ushll2_def ucvtf_def fcvtzu_def

lemma ShiftByImm_call:
  assumes "shift_size_ok op T sz"
    and "shift_checked op \<Longrightarrow> unat Shift < SubRegSizeInBits (shift_elem op sz)"
  shows "ShiftByImm outside op T sz rd rn Shift =
         ASIMDShiftByImm (shift_T op T) (shift_U op) (drop_bit 3 (shift_field op sz Shift))
           (shift_field op sz Shift AND 0b111) (shift_opcode op) rn rd"
  using assms
  by (cases op; cases sz; cases T)
     (simp_all add: shift_defs LOGMAN_THROW_A_FMT_def shift_field_def shift_elem_def
        SubRegSize_of_def SubRegSizeInBits_raw_def Let_def)

lemma ASIMDShiftByImm_immh:
  assumes "immh \<noteq> 0" "immh < 16" "immb < 8" "opcode < 32" "valid_reg rn" "valid_reg rd"
  shows "\<exists>w. ASIMDShiftByImm T U immh immb opcode rn rd = Inr w \<and>
             immh_of w = immh \<and> immb_of w = immb"
proof -
  have rn: "Idx rn < 2 ^ 5" and rd: "Idx rd < 2 ^ 5" and h: "immh < 2 ^ 4" and b: "immb < 2 ^ 3"
    and oc: "opcode < 2 ^ 5"
    using assms by (simp_all add: valid_reg_def)
  show ?thesis
    using assms(1)
    by (simp add: ASIMDShiftByImm_def LOGMAN_THROW_A_FMT_def immh_of_def immb_of_def
        Encode_rn_def Encode_rd_def fld_Qbit fld_above fld_same [OF h] fld_same [OF b]
        fld_below [OF b] fld_below [OF oc] fld_below [OF rn] fld_below0 [OF rd])
qed

lemma shift_opcode_bound: "shift_opcode op < 32"
  by (cases op) simp_all

lemma ShiftByImm_emits:
  assumes ok: "shift_size_ok op T sz"
    and chk: "shift_checked op \<Longrightarrow> unat Shift < SubRegSizeInBits (shift_elem op sz)"
    and lo: "8 \<le> unat (shift_field op sz Shift)" and hi: "unat (shift_field op sz Shift) < 128"
    and regs: "valid_reg rd" "valid_reg rn"
  shows "\<exists>w. ShiftByImm outside op T sz rd rn Shift = Inr w \<and>
             immh_of w = drop_bit 3 (shift_field op sz Shift) \<and>
             immb_of w = shift_field op sz Shift AND 0b111 \<and>
             immh_of w \<noteq> 0 \<and>
             immh_immb_of w = shift_field op sz Shift"
proof -
  let ?f = "shift_field op sz Shift"
  note parts = field_parts [OF lo hi]
  obtain w where w: "ASIMDShiftByImm (shift_T op T) (shift_U op) (drop_bit 3 ?f) (?f AND 7)
        (shift_opcode op) rn rd = Inr w"
    and h: "immh_of w = drop_bit 3 ?f" and b: "immb_of w = ?f AND 7"
    using ASIMDShiftByImm_immh [OF parts shift_opcode_bound regs(2,1)] by blast
  have "ShiftByImm outside op T sz rd rn Shift = Inr w"
    using ShiftByImm_call [OF ok chk] w by simp
  moreover have "immh_immb_of w = ?f"
    by (simp add: immh_immb_of_def h b split_field)
  ultimately show ?thesis using h b parts(1) by simp
qed

lemma ASIMDShiftByImm_enumerant:
  "ASIMDShiftByImm T U immh immb opcode rn rd \<noteq> Inl NotAnEnumerant"
  by (simp add: ASIMDShiftByImm_def LOGMAN_THROW_A_FMT_def)

lemma ShiftByImm_enumerant: "ShiftByImm outside op T sz rd rn Shift \<noteq> Inl NotAnEnumerant"
  by (cases op; cases sz)
     (simp_all add: shift_defs LOGMAN_THROW_A_FMT_def SubRegSize_of_def Let_def
        ASIMDShiftByImm_enumerant)

lemma shift_bits_cases:
  "shift_size_ok op T sz \<Longrightarrow> SubRegSizeInBits (shift_elem op sz) \<in> {8, 16, 32, 64}"
  by (cases op; cases sz) (simp_all add: shift_elem_def)

lemma unat_right_field:
  assumes "b \<in> {8, 16, 32, 64::nat}" "unat (s::32 word) \<le> 2 * b"
  shows "unat (word_of_nat (2 * b) - s :: 32 word) = 2 * b - unat s"
proof -
  have "unat (word_of_nat (2 * b) :: 32 word) = 2 * b"
    using assms(1) by auto
  moreover from this have "s \<le> word_of_nat (2 * b)"
    using assms(2) by (simp add: word_le_nat_alt)
  ultimately show ?thesis by (simp add: unat_sub)
qed

lemma unat_left_field:
  assumes "b \<in> {8, 16, 32, 64::nat}" "unat (s::32 word) < b"
  shows "unat (word_of_nat b + s :: 32 word) = b + unat s"
proof -
  have "unat (word_of_nat b :: 32 word) = b"
    using assms(1) by auto
  then show ?thesis
    using assms by (simp add: unat_word_ariths) auto
qed

lemma right_not_widening: "right_shift_like op \<Longrightarrow> shift_elem op sz = sz"
  by (cases op) (simp_all add: shift_elem_def)

lemma amount_ok_field:
  assumes ok: "shift_size_ok op T sz" and am: "shift_amount_ok op sz Shift"
  shows "8 \<le> unat (shift_field op sz Shift)" "unat (shift_field op sz Shift) < 128"
    "shift_checked op \<Longrightarrow> unat Shift < SubRegSizeInBits (shift_elem op sz)"
proof -
  let ?b = "SubRegSizeInBits (shift_elem op sz)"
  have b: "?b \<in> {8, 16, 32, 64}" by (rule shift_bits_cases [OF ok])
  show "shift_checked op \<Longrightarrow> unat Shift < ?b"
    using am by (cases "right_shift_like op") (simp_all add: shift_amount_ok_def)
  have "8 \<le> unat (shift_field op sz Shift) \<and> unat (shift_field op sz Shift) < 128"
  proof (cases "right_shift_like op")
    case True
    with am have "1 \<le> unat Shift" "unat Shift \<le> ?b" by (simp_all add: shift_amount_ok_def)
    then show ?thesis
      using True b unat_right_field [OF b, of Shift] by (auto simp: shift_field_def)
  next
    case False
    with am have "unat Shift < ?b" by (simp add: shift_amount_ok_def)
    then show ?thesis
      using False b unat_left_field [OF b, of Shift] by (auto simp: shift_field_def)
  qed
  then show "8 \<le> unat (shift_field op sz Shift)" "unat (shift_field op sz Shift) < 128"
    by simp_all
qed

section \<open>Vector by indexed element: what every emitter of the family does\<close>

lemmas indexed_defs = smlal_def smlal2_def sqdmlal_def sqdmlal2_def smlsl_def smlsl2_def sqdmlsl_def sqdmlsl2_def mul_def smull_def smull2_def sqdmull_def sqdmull2_def sqdmulh_def sqrdmulh_def sdot_def sudot_def bfdot_def fmla_elem_def fmls_elem_def fmul_elem_def fmlal_def fmlal2_def fmlsl_def fmlsl2_def usdot_def bfmlalb_def bfmlalt_def mla_def umlal_def umlal2_def mls_def umlsl_def umlsl2_def umull_def umull2_def sqrdmlah_def udot_def sqrdmlsh_def


lemma IndexedElement_enumerant:
  "IndexedElement op T sz rd rn rm Index \<noteq> Inl NotAnEnumerant"
  by (cases op; cases sz)
     (simp_all add: indexed_defs LOGMAN_THROW_A_FMT_def SubRegSize_of_def Let_def
        ASIMDVectorXIndexedElement_def)








lemma and_one_less: "(x AND 1 :: 32 word) < 2"
proof -
  have "x AND 1 \<le> 1" by (rule word_and_le1)
  then show ?thesis by (simp add: word_le_nat_alt word_less_nat_alt)
qed

lemma and_one_less_pow: "(x AND 1 :: 32 word) < 2 ^ 1"
  using and_one_less [of x] by simp

lemma bit_and_one: "bit (x AND 1 :: 32 word) n \<longleftrightarrow> n = 0 \<and> bit x 0"
  by (auto simp: bit_and_iff bit_1_iff)

lemma bit_one_term:
  "bit (push_bit j (drop_bit i (imm::32 word) AND 1)) n \<longleftrightarrow> n = j \<and> n < 32 \<and> bit imm i"
  unfolding bit_push_bit_iff bit_and_one bit_drop_bit_eq
  by (auto simp: possible_bit_word)

lemma bit_one_term0:
  "bit (drop_bit i (imm::32 word) AND 1) n \<longleftrightarrow> n = 0 \<and> bit imm i"
  unfolding bit_and_one bit_drop_bit_eq by auto







section \<open>The 64-bit move immediate: the loop and the immediate in the word\<close>

lemma ff_mask64: "(0xFF :: 64 word) = mask 8"
  by (simp add: mask_eq_exp_minus_1)

lemma ff_mask8: "(0xFF :: 8 word) = mask 8"
  by (simp add: mask_eq_exp_minus_1)

lemma bit_Section:
  "bit (Section_of Imm i) k \<longleftrightarrow> k < 8 \<and> i * 8 + k < 64 \<and> bit Imm (i * 8 + k)"
  unfolding Section_of_def ff_mask64
  by (auto simp: bit_simps dest: bit_imp_le_length)

lemma Section_FF:
  "Section_of Imm i = 0xFF \<longleftrightarrow> (\<forall>k<8. i * 8 + k < 64 \<and> bit Imm (i * 8 + k))"
  unfolding ff_mask8
  by (auto simp: bit_eq_iff bit_Section bit_simps)

lemma Section_0:
  "Section_of Imm i = 0 \<longleftrightarrow> (\<forall>k<8. i * 8 + k < 64 \<longrightarrow> \<not> bit Imm (i * 8 + k))"
  by (auto simp: bit_eq_iff bit_Section bit_simps)

lemma bit_push_FF:
  "bit (push_bit j (0xFF :: 64 word)) n \<longleftrightarrow> j \<le> n \<and> n < 64 \<and> n < j + 8"
  unfolding ff_mask64 by (auto simp: bit_simps)

lemma bit_expand_bits:
  "k \<le> 8 \<Longrightarrow> bit (expand_bits k imm8) n \<longleftrightarrow> n < 8 * k \<and> bit imm8 (n div 8)"
proof (induction k)
  case 0
  then show ?case by simp
next
  case (Suc k)
  have d: "8 * k \<le> n \<Longrightarrow> n < 8 + 8 * k \<Longrightarrow> n div 8 = k" by simp
  have e: "n < 8 + 8 * k \<Longrightarrow> \<not> n < 8 * k \<Longrightarrow> n div 8 = k" by simp
  from Suc show ?case
    by (auto simp: bit_or_iff bit_push_FF d e)
qed

lemma movi_loop_step:
  "i < 8 \<Longrightarrow> movi_loop i Imm acc =
     (if Section_of Imm i = 0 \<or> Section_of Imm i = 0xFF
      then movi_loop (i + 1) Imm (if Section_of Imm i = 0xFF then acc OR push_bit i 1 else acc)
      else Inl (ContractViolation ''Invalid 64-bit constant encoding''))"
  by (subst movi_loop.simps) (simp add: Section_of_def LOGMAN_THROW_A_FMT_def Let_def)

lemma movi_loop_done: "\<not> i < 8 \<Longrightarrow> movi_loop i Imm acc = Inr acc"
  by (subst movi_loop.simps) simp

lemma movi_loop_ok:
  assumes "8 - i = n"
    and "\<forall>j. i \<le> j \<and> j < 8 \<longrightarrow> Section_of Imm j = 0 \<or> Section_of Imm j = 0xFF"
  shows "\<exists>r. movi_loop i Imm acc = Inr r \<and>
             (\<forall>j. bit r j \<longleftrightarrow> bit acc j \<or> (i \<le> j \<and> j < 8 \<and> Section_of Imm j = 0xFF))"
  using assms
proof (induction n arbitrary: i acc)
  case 0
  then have "\<not> i < 8" by simp
  then show ?case by (auto simp: movi_loop_done)
next
  case (Suc n)
  then have i: "i < 8" by simp
  let ?acc = "if Section_of Imm i = 0xFF then acc OR push_bit i 1 else acc"
  from Suc.prems(2) i have s: "Section_of Imm i = 0 \<or> Section_of Imm i = 0xFF" by simp
  have st: "movi_loop i Imm acc = movi_loop (i + 1) Imm ?acc"
    using s by (simp add: movi_loop_step [OF i])
  have "8 - (i + 1) = n" using Suc.prems(1) by simp
  moreover have "\<forall>j. i + 1 \<le> j \<and> j < 8 \<longrightarrow> Section_of Imm j = 0 \<or> Section_of Imm j = 0xFF"
    using Suc.prems(2) by simp
  ultimately obtain r where r: "movi_loop (i + 1) Imm ?acc = Inr r"
    and b: "\<forall>j. bit r j \<longleftrightarrow> bit ?acc j \<or> (i + 1 \<le> j \<and> j < 8 \<and> Section_of Imm j = 0xFF)"
    using Suc.IH [of "i + 1" ?acc] by blast
  have "bit r j \<longleftrightarrow> bit acc j \<or> (i \<le> j \<and> j < 8 \<and> Section_of Imm j = 0xFF)" for j
  proof (cases "j = i")
    case True
    then show ?thesis using b i by (auto simp: bit_simps)
  next
    case False
    then show ?thesis using b i by (auto simp: bit_simps)
  qed
  with r st show ?case by simp
qed

lemma movi_loop_fail:
  assumes "8 - i = n"
    and "\<exists>j. i \<le> j \<and> j < 8 \<and> \<not> (Section_of Imm j = 0 \<or> Section_of Imm j = 0xFF)"
  shows "movi_loop i Imm acc = Inl (ContractViolation ''Invalid 64-bit constant encoding'')"
  using assms
proof (induction n arbitrary: i acc)
  case 0
  then show ?case by auto
next
  case (Suc n)
  then have i: "i < 8" by simp
  show ?case
  proof (cases "Section_of Imm i = 0 \<or> Section_of Imm i = 0xFF")
    case True
    from Suc.prems(2) obtain j where j: "i \<le> j" "j < 8"
      "\<not> (Section_of Imm j = 0 \<or> Section_of Imm j = 0xFF)" by blast
    with True have "j \<noteq> i" by auto
    with j have "\<exists>j. i + 1 \<le> j \<and> j < 8 \<and> \<not> (Section_of Imm j = 0 \<or> Section_of Imm j = 0xFF)"
      by (intro exI [of _ j]) simp
    moreover have "8 - (i + 1) = n" using Suc.prems(1) by simp
    ultimately show ?thesis
      using Suc.IH [of "i + 1"] True by (simp add: movi_loop_step [OF i])
  next
    case False
    then show ?thesis by (simp add: movi_loop_step [OF i])
  qed
qed

lemma bytes_00_FF_iff:
  "bytes_00_FF Imm \<longleftrightarrow> (\<forall>j. j < 8 \<longrightarrow> Section_of Imm j = 0 \<or> Section_of Imm j = 0xFF)"
  by (auto simp: bytes_00_FF_def list_all_iff)

lemma expand_compressed:
  assumes "bytes_00_FF Imm" and "\<forall>j. bit r j \<longleftrightarrow> j < 8 \<and> Section_of Imm j = 0xFF"
  shows "expand_imm8 r = Imm"
proof (rule bit_eqI)
  fix n
  assume "possible_bit TYPE(64 word) n"
  then have n: "n < 64" by (simp add: possible_bit_def)
  then have d: "n div 8 < 8" by simp
  have m: "n div 8 * 8 + n mod 8 = n" by simp
  from assms(1) d have s: "Section_of Imm (n div 8) = 0 \<or> Section_of Imm (n div 8) = 0xFF"
    by (simp add: bytes_00_FF_iff)
  have "bit (expand_imm8 r) n \<longleftrightarrow> Section_of Imm (n div 8) = 0xFF"
    using n d assms(2) by (simp add: expand_imm8_def bit_expand_bits)
  also have "\<dots> \<longleftrightarrow> bit Imm n"
  proof
    assume a: "Section_of Imm (n div 8) = 0xFF"
    have k: "n mod 8 < 8" by simp
    from a [unfolded Section_FF] k have "bit Imm (n div 8 * 8 + n mod 8)" by blast
    then show "bit Imm n" by (simp only: m)
  next
    assume b: "bit Imm n"
    have "Section_of Imm (n div 8) \<noteq> 0"
    proof
      assume a: "Section_of Imm (n div 8) = 0"
      have k: "n mod 8 < 8" by simp
      have l: "n div 8 * 8 + n mod 8 < 64" using n by (simp only: m)
      from a [unfolded Section_0] k l have "\<not> bit Imm (n div 8 * 8 + n mod 8)" by blast
      with b show False by (metis m)
    qed
    with s show "Section_of Imm (n div 8) = 0xFF" by simp
  qed
  finally show "bit (expand_imm8 r) n \<longleftrightarrow> bit Imm n" .
qed

lemma fld_inside:
  "x < 2 ^ w \<Longrightarrow> lo \<le> i \<Longrightarrow> i + w \<le> lo + k \<Longrightarrow> i + w \<le> 32 \<Longrightarrow>
   take_bit k (drop_bit lo (push_bit i (x::32 word))) = push_bit (i - lo) x"
proof (rule bit_eqI)
  fix n
  assume a: "x < 2 ^ w" "lo \<le> i" "i + w \<le> lo + k" "i + w \<le> 32"
  have c: "lo + n - i = n - (i - lo)" using a(2) by simp
  have "bit x (n - (i - lo)) \<Longrightarrow> n - (i - lo) < w" by (rule bounded_bit [OF a(1)])
  then show "bit (take_bit k (drop_bit lo (push_bit i x))) n \<longleftrightarrow> bit (push_bit (i - lo) x) n"
    using a(2,3,4) by (auto simp: bit_simps c)
qed

lemma gather_imm8:
  "push_bit 5 (push_bit 2 (drop_bit 7 imm AND 1) OR push_bit 1 (drop_bit 6 imm AND 1) OR
               (drop_bit 5 imm AND 1)) OR
   (push_bit 4 (drop_bit 4 imm AND 1) OR push_bit 3 (drop_bit 3 imm AND 1) OR
    push_bit 2 (drop_bit 2 imm AND 1) OR push_bit 1 (drop_bit 1 imm AND 1) OR
    (drop_bit 0 imm AND 1)) = take_bit 8 (imm :: 32 word)"
proof -
  have flat: "push_bit 5 (push_bit 2 (drop_bit 7 imm AND 1) OR push_bit 1 (drop_bit 6 imm AND 1) OR
               (drop_bit 5 imm AND 1)) =
     push_bit 7 (drop_bit 7 imm AND 1) OR push_bit 6 (drop_bit 6 imm AND 1) OR
       push_bit 5 (drop_bit 5 imm AND 1)"
    by (simp only: push_bit_or push_bit_push_bit) simp
  have "bit (push_bit 7 (drop_bit 7 imm AND 1) OR push_bit 6 (drop_bit 6 imm AND 1) OR
       push_bit 5 (drop_bit 5 imm AND 1) OR
       (push_bit 4 (drop_bit 4 imm AND 1) OR push_bit 3 (drop_bit 3 imm AND 1) OR
        push_bit 2 (drop_bit 2 imm AND 1) OR push_bit 1 (drop_bit 1 imm AND 1) OR
        (drop_bit 0 imm AND 1))) n \<longleftrightarrow> bit (take_bit 8 imm) n" for n
  proof -
    consider "n = 0" | "n = 1" | "n = 2" | "n = 3" | "n = 4" | "n = 5" | "n = 6" | "n = 7" | "8 \<le> n"
      by linarith
    then show ?thesis
      unfolding bit_or_iff bit_one_term bit_one_term0 bit_take_bit_iff
      by cases simp_all
  qed
  then show ?thesis
    unfolding flat by (intro bit_eqI) (simp only: or.assoc)
qed

lemma ASIMDModifiedImm_imm8:
  assumes "cmode < 16" "o2 < 2" "Idx rd < 32"
  shows "\<exists>w. ASIMDModifiedImm T op cmode o2 imm rd = Inr w \<and>
             push_bit 5 (take_bit 3 (drop_bit 16 w)) OR take_bit 5 (drop_bit 5 w) = take_bit 8 imm"
proof -
  have cm: "cmode < 2 ^ 4" and o2: "o2 < 2 ^ 1" and rd: "Idx rd < 2 ^ 5"
    using assms by simp_all
  note b = and_one_less_pow
  have abc: "take_bit 3 (drop_bit 16 w) =
      push_bit 2 (drop_bit 7 imm AND 1) OR push_bit 1 (drop_bit 6 imm AND 1) OR (drop_bit 5 imm AND 1)"
    and defgh: "take_bit 5 (drop_bit 5 w) =
      push_bit 4 (drop_bit 4 imm AND 1) OR push_bit 3 (drop_bit 3 imm AND 1) OR
      push_bit 2 (drop_bit 2 imm AND 1) OR push_bit 1 (drop_bit 1 imm AND 1) OR (drop_bit 0 imm AND 1)"
    if "ASIMDModifiedImm T op cmode o2 imm rd = Inr w" for w
    using that
    by (auto simp add: ASIMDModifiedImm_def Encode_rd_def fld_Qbit fld_above
        fld_below [OF cm] fld_below [OF o2] fld_below [OF b] fld_inside [OF b] fld_same [OF b]
        fld_below0 [OF rd] simp del: push_bit_and)
  obtain w where w: "ASIMDModifiedImm T op cmode o2 imm rd = Inr w"
    by (simp add: ASIMDModifiedImm_def)
  show ?thesis
    using w abc [OF w] defgh [OF w] gather_imm8 [of imm] by simp
qed

lemma ucast_chain:
  "(ucast (take_bit 8 (ucast (ucast (r :: 8 word) :: 64 word) :: 32 word)) :: 8 word) = r"
  by (rule bit_eqI) (auto simp: bit_simps dest: bit_imp_le_length)

section \<open>Claims about the shift-by-immediate family\<close>

text \<open>
  Claim C1. For every right-shift-like emitter of the family, an element size of 8 to 64 bit
  that the emitter accepts and a shift amount the instruction set allows (1 up to the element
  width), a word is emitted, and its \<open>immh\<close> and \<open>immb\<close> fields are the high part \<open>field >> 3\<close>
  and the low part \<open>field & 0b111\<close> of \<open>field = 2 * size_in_bits - shift\<close>. The witness is the
  scenario of the specification: \<open>sshr\<close> with 32-bit elements and shift 10 gives 6 and 6.
\<close>

theorem right_shift_immh_immb:
  assumes "right_shift_like op" and "shift_size_ok op T sz" and "shift_amount_ok op sz Shift"
    and "valid_reg rd" and "valid_reg rn"
  shows "\<exists>w. ShiftByImm outside op T sz rd rn Shift = Inr w \<and>
             immh_of w = drop_bit 3 (word_of_nat (2 * SubRegSizeInBits sz) - Shift) \<and>
             immb_of w = (word_of_nat (2 * SubRegSizeInBits sz) - Shift) AND 0b111"
proof -
  have f: "shift_field op sz Shift = word_of_nat (2 * SubRegSizeInBits sz) - Shift"
    using assms(1) by (simp add: shift_field_def right_not_widening)
  show ?thesis
    using ShiftByImm_emits [OF assms(2) amount_ok_field(3,1,2) [OF assms(2,3)] assms(4,5)]
    unfolding f by blast
qed

theorem right_shift_immh_immb_witness:
  "\<exists>w. sshr QRegister i32Bit (VReg 0) (VReg 1) 10 = Inr w \<and> immh_of w = 6 \<and> immb_of w = 6"
  using right_shift_immh_immb [where op = SH_sshr and T = QRegister and sz = i32Bit and Shift = 10
      and rd = "VReg 0" and rn = "VReg 1"]
  by (simp add: shift_amount_ok_def shift_elem_def valid_reg_def)

text \<open>
  Claim C4. For every emitter of the family, left-shift-like such as \<open>shl\<close> or right-shift-like
  such as \<open>sshr\<close>, every element size it accepts and every legal shift amount (below the
  element width for a left shift, from 1 up to the element width for a right shift, so every
  legal amount in \<open>[0, size_in_bits)\<close> is covered), a word is emitted, and decoding its seven bits
  \<open>immh:immb\<close> by the inverse of the encoding formula gives back the shift amount.
\<close>

theorem shift_roundtrip:
  assumes "shift_size_ok op T sz" and "shift_amount_ok op sz Shift"
    and "valid_reg rd" and "valid_reg rn"
  shows "\<exists>w. ShiftByImm outside op T sz rd rn Shift = Inr w \<and>
             decode_shift op sz (immh_immb_of w) = Shift"
proof -
  let ?f = "shift_field op sz Shift"
  obtain w where "ShiftByImm outside op T sz rd rn Shift = Inr w" and "immh_immb_of w = ?f"
    using ShiftByImm_emits [OF assms(1) amount_ok_field(3,1,2) [OF assms(1,2)] assms(3,4)]
    by blast
  moreover have "decode_shift op sz ?f = Shift"
    by (simp add: decode_shift_def shift_field_def)
  ultimately show ?thesis by auto
qed

theorem shift_roundtrip_witness:
  "(\<exists>w. shl DRegister i16Bit (VReg 3) (VReg 4) 0 = Inr w \<and>
        decode_shift SH_shl i16Bit (immh_immb_of w) = 0) \<and>
   (\<exists>w. sshr QRegister i64Bit (VReg 3) (VReg 4) 63 = Inr w \<and>
        decode_shift SH_sshr i64Bit (immh_immb_of w) = 63) \<and>
   (\<exists>w. sshr QRegister i32Bit (VReg 3) (VReg 4) 10 = Inr w \<and>
        decode_shift SH_sshr i32Bit (immh_immb_of w) = 10)"
  using shift_roundtrip [where op = SH_shl and T = DRegister and sz = i16Bit and Shift = 0
      and rd = "VReg 3" and rn = "VReg 4"]
    shift_roundtrip [where op = SH_sshr and T = QRegister and sz = i64Bit and Shift = 63
      and rd = "VReg 3" and rn = "VReg 4"]
    shift_roundtrip [where op = SH_sshr and T = QRegister and sz = i32Bit and Shift = 10
      and rd = "VReg 3" and rn = "VReg 4"]
  by (simp add: shift_amount_ok_def shift_elem_def valid_reg_def)

text \<open>
  Claim C7. \<open>ASIMDShiftByImm\<close> emits a word only for a nonzero \<open>immh\<close>; and for every emitter
  of the family, under its legality preconditions (an element size it accepts, a shift amount
  the instruction set allows, register indices below 32), the failure branch is not taken: a
  word is emitted, and its \<open>immh\<close> field is not zero.
\<close>

theorem immh_nonzero:
  "(ASIMDShiftByImm T U immh immb opcode rn rd = Inr w \<longrightarrow> immh \<noteq> 0) \<and>
   (shift_size_ok op T' sz \<and> shift_amount_ok op sz Shift \<and> valid_reg rd' \<and> valid_reg rn' \<longrightarrow>
      (\<exists>w'. ShiftByImm outside op T' sz rd' rn' Shift = Inr w' \<and> immh_of w' \<noteq> 0))"
proof (intro conjI impI)
  assume "ASIMDShiftByImm T U immh immb opcode rn rd = Inr w"
  then show "immh \<noteq> 0"
    by (auto simp: ASIMDShiftByImm_def LOGMAN_THROW_A_FMT_def split: if_splits)
next
  assume a: "shift_size_ok op T' sz \<and> shift_amount_ok op sz Shift \<and> valid_reg rd' \<and> valid_reg rn'"
  then have ok: "shift_size_ok op T' sz" and am: "shift_amount_ok op sz Shift"
    and rd: "valid_reg rd'" and rn: "valid_reg rn'" by simp_all
  show "\<exists>w'. ShiftByImm outside op T' sz rd' rn' Shift = Inr w' \<and> immh_of w' \<noteq> 0"
    using ShiftByImm_emits [OF ok amount_ok_field(3,1,2) [OF ok am] rd rn] by blast
qed

theorem immh_nonzero_witness:
  "ASIMDShiftByImm QRegister 0 6 6 0 (VReg 1) (VReg 0) = Inr 0x4F360420 \<and> (6 :: 32 word) \<noteq> 0 \<and>
   (\<exists>w'. ushll2 (\<lambda>x. 0) i16Bit (VReg 0) (VReg 1) 7 = Inr w' \<and> immh_of w' \<noteq> 0)"
proof -
  have e: "ASIMDShiftByImm QRegister 0 6 6 0 (VReg 1) (VReg 0) = Inr 0x4F360420"
    by (simp add: ASIMDShiftByImm_def LOGMAN_THROW_A_FMT_def Qbit_def Encode_rn_def Encode_rd_def)
  have p: "shift_size_ok SH_ushll2 QRegister i16Bit \<and> shift_amount_ok SH_ushll2 i16Bit 7 \<and>
      valid_reg (VReg 0) \<and> valid_reg (VReg 1)"
    by (simp add: shift_amount_ok_def shift_elem_def valid_reg_def)
  from immh_nonzero [where T = QRegister and U = 0 and immh = 6 and immb = 6 and opcode = 0
      and rn = "VReg 1" and rd = "VReg 0" and w = "0x4F360420" and op = SH_ushll2
      and T' = QRegister and sz = i16Bit and Shift = 7 and rd' = "VReg 0" and rn' = "VReg 1"
      and outside = "\<lambda>x. 0"] e p
  show ?thesis by simp
qed

section \<open>Claims about the register move and the floating-point emitters\<close>

text \<open>
  Claim C8. For every pair of vector registers \<open>rd\<close>, \<open>rn\<close> of one register width, \<open>mov(rd, rn)\<close>
  emits a word, and it is the word that \<open>orr(rd, rn, rn)\<close> emits: the three-same word of size
  \<open>i32Bit\<close> and opcode \<open>0b00011\<close>. For register indices below 32 both source fields of that
  word, \<open>Rn\<close> and \<open>Rm\<close>, hold the index of \<open>rn\<close>, and \<open>Rd\<close> holds the index of \<open>rd\<close>.
\<close>

theorem mov_is_orr_duplicated:
  "\<exists>w. mov T rd rn = Inr w \<and> orr T rd rn rn = Inr w \<and>
       w = (push_bit 10 0b0000111000100000000001 OR Qbit T OR push_bit 22 2 OR
            push_bit 16 (Idx rn) OR push_bit 11 0b00011 OR push_bit 5 (Idx rn) OR Idx rd) \<and>
       (valid_reg rd \<and> valid_reg rn \<longrightarrow>
          Rm5_of w = Idx rn \<and> Rn_of w = Idx rn \<and> Rd_of w = Idx rd)"
proof -
  let ?w = "push_bit 10 0b0000111000100000000001 OR Qbit T OR push_bit 22 2 OR
            push_bit 16 (Idx rn) OR push_bit 11 0b00011 OR push_bit 5 (Idx rn) OR Idx rd"
  have e: "orr T rd rn rn = Inr ?w"
    by (simp add: orr_def ASIMD3Same_def Encode_rm_def Encode_rn_def Encode_rd_def)
  have f: "Rm5_of ?w = Idx rn \<and> Rn_of ?w = Idx rn \<and> Rd_of ?w = Idx rd"
    if v: "valid_reg rd \<and> valid_reg rn"
  proof -
    have rn: "Idx rn < 2 ^ 5" and rd: "Idx rd < 2 ^ 5"
      using v by (simp_all add: valid_reg_def)
    have sz: "(2 :: 32 word) < 2 ^ 2" and oc: "(0b00011 :: 32 word) < 2 ^ 5" by simp_all
    show ?thesis
      by (simp add: Rm5_of_def Rn_of_def Rd_of_def fld_Qbit fld_above fld_same [OF rn]
          fld_below [OF oc] fld_below [OF rn] fld_below0 [OF rn] fld_below0 [OF rd]
          low_above low_Qbit bounded_take_bit [OF rd])
  qed
  show ?thesis
    using e f by (intro exI [of _ ?w]) (simp add: mov_def)
qed

theorem mov_is_orr_duplicated_witness:
  "mov QRegister (VReg 0) (VReg 1) = Inr 0x4EA11C20 \<and>
   orr QRegister (VReg 0) (VReg 1) (VReg 1) = Inr 0x4EA11C20 \<and>
   Rm5_of 0x4EA11C20 = 1 \<and> Rn_of 0x4EA11C20 = 1 \<and> Rd_of 0x4EA11C20 = 0"
  using mov_is_orr_duplicated [of QRegister "VReg 0" "VReg 1"]
  by (simp add: Qbit_def valid_reg_def)

text \<open>
  Claim C9, as amended. For every floating-point three-register emitter: an element size other
  than 16, 32 and 64 bit is a contract violation; 16-bit elements go to the FP16 template;
  32-bit and 64-bit elements (64-bit on \<open>QRegister\<close> operands only) go to the three-same
  template. The emitters that compute \<open>ConvertedSize\<close> hand over \<open>i8Bit\<close> for 32-bit and
  \<open>i16Bit\<close> for 64-bit floats; the others (\<open>fminnm\<close>, \<open>fmls\<close>, \<open>fsub\<close>, \<open>fmin\<close>, \<open>frsqrts\<close>,
  \<open>fminnmp\<close>, \<open>fabd\<close>, \<open>fcmgt\<close>, \<open>facgt\<close>, \<open>fminp\<close>) hand over the size unchanged.
\<close>

lemmas fp3_defs = fmaxnm_def fmla_def fadd_def fmulx_def fcmeq_def fmax_def frecps_def
  fminnm_def fmls_def fsub_def fmin_def frsqrts_def fmaxnmp_def faddp_def fmul_def fcmge_def
  facge_def fmaxp_def fdiv_def fminnmp_def fabd_def fcmgt_def facgt_def fminp_def

theorem fp_three_same_routing:
  "(\<not> IsStandardFloatSize sz \<longrightarrow>
      (\<exists>msg. FP3Same op T sz rd rn rm = Inl (ContractViolation msg))) \<and>
   FP3Same op T i16Bit rd rn rm =
     ASIMDThreeSameFP16 T (fp3_U op) (fp3_a op) (fp3_opcode16 op) rm rn rd \<and>
   FP3Same op T i32Bit rd rn rm =
     ASIMD3Same T (fp3_U op) (if fp3_converts op then i8Bit else i32Bit) (fp3_opcode op) rd rn rm \<and>
   FP3Same op QRegister i64Bit rd rn rm =
     ASIMD3Same QRegister (fp3_U op) (if fp3_converts op then i16Bit else i64Bit) (fp3_opcode op)
       rd rn rm \<and>
   (\<exists>msg. FP3Same op DRegister i64Bit rd rn rm = Inl (ContractViolation msg))"
  by (cases op; cases T)
     (simp_all add: fp3_defs LOGMAN_THROW_A_FMT_def IsStandardFloatSize_def)

theorem fp_three_same_routing_witness:
  "(\<exists>msg. fmul QRegister i8Bit (VReg 0) (VReg 1) (VReg 2) = Inl (ContractViolation msg)) \<and>
   fmul QRegister i16Bit (VReg 0) (VReg 1) (VReg 2) =
     ASIMDThreeSameFP16 QRegister 1 0 0b011 (VReg 2) (VReg 1) (VReg 0) \<and>
   fmul QRegister i32Bit (VReg 0) (VReg 1) (VReg 2) =
     ASIMD3Same QRegister 1 i8Bit 0b11011 (VReg 0) (VReg 1) (VReg 2) \<and>
   fmul QRegister i64Bit (VReg 0) (VReg 1) (VReg 2) =
     ASIMD3Same QRegister 1 i16Bit 0b11011 (VReg 0) (VReg 1) (VReg 2)"
  using fp_three_same_routing [of i8Bit OP_fmul QRegister "VReg 0" "VReg 1" "VReg 2"]
  by (simp add: IsStandardFloatSize_def)

text \<open>
  The claim as written has every emitter of the family remap the size. \<open>fmin\<close> on 32-bit
  elements emits \<open>0x4EA2F420\<close>, whose size field (bits 23 and 22) is the value of \<open>i32Bit\<close>;
  the three-same word with the value of \<open>i8Bit\<close> there is \<open>0x4E22F420\<close>.
\<close>

theorem fp_three_same_routing_counterexample:
  "fmin QRegister i32Bit (VReg 0) (VReg 1) (VReg 2) = Inr 0x4EA2F420 \<and>
   ASIMD3Same QRegister 0 i8Bit 0b11110 (VReg 0) (VReg 1) (VReg 2) = Inr 0x4E22F420 \<and>
   take_bit 2 (drop_bit 22 (0x4EA2F420 :: 32 word)) = ToUnderlying i32Bit"
  by (simp add: fmin_def LOGMAN_THROW_A_FMT_def IsStandardFloatSize_def ASIMD3Same_def Qbit_def
      Encode_rm_def Encode_rn_def Encode_rd_def)

text \<open>
  Claim C10. \<open>fmov(size, rd, Value)\<close> on 16-bit elements is a contract violation for every
  register, register width and value, although 16 bit is a standard float size; a word can
  only come from the 32-bit and the 64-bit element size, and it does whenever the numeric
  encoder of that size accepts the value (64-bit on \<open>QRegister\<close> operands).
\<close>

theorem fmov_16bit_unsupported:
  "fmov FP32ToImm8 FP64ToImm8 T i16Bit rd Value = Inl (ContractViolation ''Unsupported'') \<and>
   IsStandardFloatSize i16Bit \<and>
   (fmov FP32ToImm8 FP64ToImm8 T sz rd Value = Inr w \<longrightarrow> sz = i32Bit \<or> sz = i64Bit) \<and>
   (FP32ToImm8 Value = Inr imm \<longrightarrow>
      fmov FP32ToImm8 FP64ToImm8 T i32Bit rd Value = ASIMDModifiedImm T 0 0b1111 0 imm rd) \<and>
   (FP64ToImm8 Value = Inr imm \<longrightarrow>
      fmov FP32ToImm8 FP64ToImm8 QRegister i64Bit rd Value =
        ASIMDModifiedImm QRegister 1 0b1111 0 imm rd)"
  by (cases sz)
     (simp_all add: fmov_def LOGMAN_THROW_A_FMT_def LOGMAN_MSG_A_FMT_def IsStandardFloatSize_def)

theorem fmov_16bit_unsupported_witness:
  "fmov (\<lambda>v::nat. Inr 0x70) (\<lambda>v. Inr 0x70) DRegister i16Bit (VReg 0) 1 =
     Inl (ContractViolation ''Unsupported'') \<and>
   fmov (\<lambda>v::nat. Inr 0x70) (\<lambda>v. Inr 0x70) DRegister i32Bit (VReg 0) 1 =
     ASIMDModifiedImm DRegister 0 0b1111 0 0x70 (VReg 0) \<and>
   fmov (\<lambda>v::nat. Inr 0x70) (\<lambda>v. Inr 0x70) QRegister i64Bit (VReg 0) 1 =
     ASIMDModifiedImm QRegister 1 0b1111 0 0x70 (VReg 0)"
  using fmov_16bit_unsupported [of "\<lambda>v::nat. Inr 0x70" "\<lambda>v. Inr 0x70" DRegister "VReg 0" 1 i32Bit _ "0x70"]
    fmov_16bit_unsupported [of "\<lambda>v::nat. Inr 0x70" "\<lambda>v. Inr 0x70" QRegister "VReg 0" 1 i32Bit _ "0x70"]
  by simp

section \<open>Claims about the indexed-element family\<close>

text \<open>
  Claim C2. The claim has every emitter of the family reject a lane index that is out of
  range for the element size. \<open>umull\<close> with a 64-bit destination reads 32-bit source elements,
  four to a register, and compares the index with 32, the width in bits of a source element:
  index 4 passes, the two bits \<open>H:L\<close> take its low bits, and the word emitted is the word of
  index 0. \<open>udot\<close>, whose bound is the number of lanes, rejects index 4.
\<close>

theorem umull_index_out_of_range_emits:
  "lanes IX_umull i64Bit = 4 \<and>
   umull i64Bit (VReg 0) (VReg 1) (VReg 2) 4 = Inr 0x2F82A020 \<and>
   umull i64Bit (VReg 0) (VReg 1) (VReg 2) 0 = Inr 0x2F82A020 \<and>
   decode_index (index_form IX_umull i64Bit) 0x2F82A020 = 0 \<and>
   udot QRegister (VReg 0) (VReg 1) (VReg 2) 4 =
     Inl (ContractViolation ''Index must be less than the source register size'')"
  by (simp add: umull_def udot_def LOGMAN_THROW_A_FMT_def SubRegSize_of_def
      ASIMDVectorXIndexedElement_def Qbit_def lanes_def index_form_def index_HL_def H_of_def
      L_of_def)




section \<open>Claims about the widening shifts and the 64-bit move immediate\<close>

text \<open>
  Claim C3. The claim has \<open>ushll2\<close> and \<open>uxtl2\<close> fail with a contract violation for an 8-bit
  destination size, before any bits are packed. The signed emitters \<open>sshll2\<close> and \<open>sxtl2\<close> do:
  they assert \<open>size != i8Bit\<close> first. \<open>ushll2\<close> has no assertion on the size. For \<open>i8Bit\<close> it
  hands \<open>SubRegSize(0 - 1)\<close> to \<open>SubRegSizeInBits\<close>, adds the shift to whatever comes back and
  calls \<open>ASIMDShiftByImm\<close>, which stops only when the high part of the sum is zero. So whatever
  value \<open>b\<close> the missing \<open>SubRegSizeInBits\<close> returns for that argument, the call with the shift
  \<open>8 - b\<close> packs and emits a word, the one of \<open>ushll2\<close> with a 16-bit destination and shift 0;
  with \<open>b = 0\<close> that is \<open>ushll2(i8Bit, v0, v1, 8)\<close> and the word \<open>0x6F08A420\<close>. \<open>uxtl2\<close> is
  \<open>ushll2\<close> with shift 0 and emits that word when \<open>b\<close> is 8. \<open>ushll\<close> behaves like \<open>ushll2\<close>.
\<close>

theorem ushll2_size_unchecked:
  "sshll2 i8Bit rd rn Shift = Inl (ContractViolation ''Invalid size'') \<and>
   sxtl2 i8Bit rd rn = Inl (ContractViolation ''Invalid size'') \<and>
   ToUnderlying i8Bit - 1 = 0xFFFFFFFF \<and>
   ushll2 outside i8Bit rd rn Shift =
     ASIMDShiftByImm QRegister 1 (drop_bit 3 (word_of_nat (outside 0xFFFFFFFF) + Shift))
       ((word_of_nat (outside 0xFFFFFFFF) + Shift) AND 0b111) 0b10100 rn rd \<and>
   uxtl2 outside i8Bit rd rn = ushll2 outside i8Bit rd rn 0 \<and>
   ushll2 outside i8Bit rd rn (8 - word_of_nat (outside 0xFFFFFFFF)) =
     Inr (push_bit 10 0b0000111100000000000001 OR Qbit QRegister OR push_bit 29 1 OR
          push_bit 19 1 OR push_bit 11 0b10100 OR Encode_rn rn OR Encode_rd rd) \<and>
   ushll2 outside i8Bit rd rn (8 - word_of_nat (outside 0xFFFFFFFF)) =
     ushll2 outside i16Bit rd rn 0 \<and>
   ushll outside i8Bit rd rn (8 - word_of_nat (outside 0xFFFFFFFF)) =
     ushll outside i16Bit rd rn 0 \<and>
   ushll2 (\<lambda>x. 0) i8Bit (VReg 0) (VReg 1) 8 = Inr 0x6F08A420 \<and>
   uxtl2 (\<lambda>x. 8) i8Bit (VReg 0) (VReg 1) = Inr 0x6F08A420"
proof -
  have m: "(- 1 :: 32 word) = 0xFFFFFFFF" by simp
  have r: "SubRegSizeInBits_raw f (ToUnderlying i8Bit - 1) = f 0xFFFFFFFF" for f
    by (simp add: SubRegSizeInBits_raw_def SubRegSize_of_def m)
  have r16: "SubRegSizeInBits_raw f (ToUnderlying i16Bit - 1) = 8" for f
    by (simp add: SubRegSizeInBits_raw_def SubRegSize_of_def)
  have s: "word_of_nat b + (8 - word_of_nat b) = (8 :: 32 word)" for b
    by simp
  have signed: "sshll2 i8Bit rd rn Shift = Inl (ContractViolation ''Invalid size'')"
    "sxtl2 i8Bit rd rn = Inl (ContractViolation ''Invalid size'')"
    by (simp_all add: sshll2_def sxtl2_def LOGMAN_THROW_A_FMT_def)
  have u: "ToUnderlying i8Bit - 1 = 0xFFFFFFFF" by simp
  have call: "ushll2 outside i8Bit rd rn Shift =
     ASIMDShiftByImm QRegister 1 (drop_bit 3 (word_of_nat (outside 0xFFFFFFFF) + Shift))
       ((word_of_nat (outside 0xFFFFFFFF) + Shift) AND 0b111) 0b10100 rn rd"
    by (simp only: ushll2_def Let_def r)
  have al: "uxtl2 outside i8Bit rd rn = ushll2 outside i8Bit rd rn 0"
    by (simp only: uxtl2_def)
  have word: "ushll2 outside i8Bit rd rn (8 - word_of_nat (outside 0xFFFFFFFF)) =
     Inr (push_bit 10 0b0000111100000000000001 OR Qbit QRegister OR push_bit 29 1 OR
          push_bit 19 1 OR push_bit 11 0b10100 OR Encode_rn rn OR Encode_rd rd)"
    unfolding ushll2_def Let_def r s
    by (simp add: ASIMDShiftByImm_def LOGMAN_THROW_A_FMT_def)
  have same2: "ushll2 outside i8Bit rd rn (8 - word_of_nat (outside 0xFFFFFFFF)) =
     ushll2 outside i16Bit rd rn 0"
    unfolding ushll2_def Let_def r r16 s by simp
  have same: "ushll outside i8Bit rd rn (8 - word_of_nat (outside 0xFFFFFFFF)) =
     ushll outside i16Bit rd rn 0"
    unfolding ushll_def Let_def r r16 s by simp
  have c1: "ushll2 (\<lambda>x. 0) i8Bit (VReg 0) (VReg 1) 8 = Inr 0x6F08A420"
    unfolding ushll2_def Let_def r
    by (simp add: ASIMDShiftByImm_def LOGMAN_THROW_A_FMT_def Qbit_def Encode_rn_def
        Encode_rd_def)
  have c2: "uxtl2 (\<lambda>x. 8) i8Bit (VReg 0) (VReg 1) = Inr 0x6F08A420"
    unfolding uxtl2_def ushll2_def Let_def r
    by (simp add: ASIMDShiftByImm_def LOGMAN_THROW_A_FMT_def Qbit_def Encode_rn_def
        Encode_rd_def)
  from signed u call al word same2 same c1 c2 show ?thesis
    by (intro conjI)
qed

text \<open>
  Claim C6. For the 64-bit \<open>movi\<close> (with the default shift 0) and a register index below 32:
  an input whose eight bytes are each \<open>0x00\<close> or \<open>0xFF\<close> gives a word whose 8-bit immediate has
  bit \<open>i\<close> set exactly when byte \<open>i\<close> is \<open>0xFF\<close>, and expanding that immediate gives back the
  input. Any other input is a contract violation, whatever the shift.
\<close>

theorem movi64_roundtrip:
  "(bytes_00_FF Imm \<and> valid_reg rd \<longrightarrow>
      (\<exists>w. movi T i64Bit rd Imm 0 = Inr w \<and>
           (\<forall>i. bit (imm8_of w) i \<longleftrightarrow> i < 8 \<and> Section_of Imm i = 0xFF) \<and>
           expand_imm8 (imm8_of w) = Imm)) \<and>
   (\<not> bytes_00_FF Imm \<longrightarrow>
      movi T i64Bit rd Imm 0 = Inl (ContractViolation ''Invalid 64-bit constant encoding'') \<and>
      (\<exists>msg. movi T i64Bit rd Imm Shift = Inl (ContractViolation msg)))"
proof (intro conjI impI)
  assume a: "bytes_00_FF Imm \<and> valid_reg rd"
  then have bs: "\<forall>j. 0 \<le> j \<and> j < 8 \<longrightarrow> Section_of Imm j = 0 \<or> Section_of Imm j = 0xFF"
    by (simp add: bytes_00_FF_iff)
  obtain r where r: "movi_loop 0 Imm 0 = Inr r"
    and br: "\<forall>j. bit r j \<longleftrightarrow> j < 8 \<and> Section_of Imm j = 0xFF"
    using movi_loop_ok [OF _ bs, of 8 0] by auto
  from a have rd: "Idx rd < 32" by (simp add: valid_reg_def)
  obtain w where w: "ASIMDModifiedImm T 1 0b1110 0 (ucast (ucast r :: 64 word)) rd = Inr w"
    and g: "push_bit 5 (take_bit 3 (drop_bit 16 w)) OR take_bit 5 (drop_bit 5 w) =
        take_bit 8 (ucast (ucast r :: 64 word) :: 32 word)"
    using ASIMDModifiedImm_imm8 [of "0b1110" 0 rd T 1 "ucast (ucast r :: 64 word)"] rd by auto
  have m: "movi T i64Bit rd Imm 0 = Inr w"
    using r w by (simp add: movi_def LOGMAN_THROW_A_FMT_def)
  have i: "imm8_of w = r"
    by (simp only: imm8_of_def g ucast_chain)
  have "expand_imm8 r = Imm"
    using a br by (intro expand_compressed) simp_all
  with m i br
  show "\<exists>w. movi T i64Bit rd Imm 0 = Inr w \<and>
           (\<forall>i. bit (imm8_of w) i \<longleftrightarrow> i < 8 \<and> Section_of Imm i = 0xFF) \<and>
           expand_imm8 (imm8_of w) = Imm"
    by auto
next
  assume n: "\<not> bytes_00_FF Imm"
  have f: "movi_loop 0 Imm 0 = Inl (ContractViolation ''Invalid 64-bit constant encoding'')"
    by (rule movi_loop_fail [where n = 8]) (use n in \<open>auto simp: bytes_00_FF_iff\<close>)
  show "movi T i64Bit rd Imm 0 = Inl (ContractViolation ''Invalid 64-bit constant encoding'')"
    using f by (simp add: movi_def LOGMAN_THROW_A_FMT_def)
  show "\<exists>msg. movi T i64Bit rd Imm Shift = Inl (ContractViolation msg)"
    using f by (simp add: movi_def LOGMAN_THROW_A_FMT_def)
qed

theorem movi64_roundtrip_witness:
  "(\<exists>w. movi QRegister i64Bit (VReg 3) 0xFF00FF0000FFFF00 0 = Inr w \<and>
        expand_imm8 (imm8_of w) = 0xFF00FF0000FFFF00) \<and>
   movi QRegister i64Bit (VReg 3) 0x1234 0 =
     Inl (ContractViolation ''Invalid 64-bit constant encoding'')"
proof -
  have y: "bytes_00_FF 0xFF00FF0000FFFF00 \<and> valid_reg (VReg 3)"
    by (simp add: bytes_00_FF_def Section_of_def upt_conv_Cons valid_reg_def)
  have n: "\<not> bytes_00_FF 0x1234"
    by (simp add: bytes_00_FF_def Section_of_def upt_conv_Cons)
  from movi64_roundtrip [of "0xFF00FF0000FFFF00" "VReg 3" QRegister 0] y
    movi64_roundtrip [of "0x1234" "VReg 3" QRegister 0] n
  show ?thesis by blast
qed


end
